theory Spec2Isabelle
  imports Complex_Main "HOL-Library.AList"
begin

section \<open>Conventions\<close>

text \<open>
  The repository holds two versions of the service \<open>extractMCQsFromText\<close>
  (\<open>services/geminiService.ts\<close>) and two versions of the component \<open>App\<close> (\<open>App.tsx\<close>).
  Where the versions differ, a definition carries the suffix \<open>_A\<close> or \<open>_B\<close>:
  \<^item> \<open>_A\<close>: the extractor that strips a code fence from the reply and tells a
    \<open>SyntaxError\<close> apart, whose prompt asks to extract only; the component whose storage
    key is \<open>quiz-ai-local-v3\<close>;
  \<^item> \<open>_B\<close>: the extractor that only trims the reply and reports every failure with one
    message, whose prompt also asks to generate questions; the component whose storage key
    is \<open>quiz-ai-storage\<close>.
  A definition without suffix is the same text in both versions. The upload handler takes
  the outcome of the extraction as an input, so no theorem depends on which extractor
  runs with which component. The text speaks of variant A and variant B.

  JavaScript strings are modelled as \<^typ>\<open>string\<close>, numbers by their rational value
  (\<^typ>\<open>rat\<close>), non-negative integers such as array indices, counts and the readings of
  \<open>Date.now()\<close> by \<^typ>\<open>nat\<close>. A thrown exception is the \<open>Inl\<close> branch of a sum.
\<close>

section \<open>Decimal rendering of a number in a template literal\<close>

text \<open>
  \<open>`${n}`\<close> for a non-negative integer \<open>n\<close> below \<open>10\<^sup>2\<^sup>1\<close>, as indices and clock readings
  are, is its decimal numeral without leading zeros.
\<close>

definition digit_char :: "nat \<Rightarrow> char" where
  "digit_char d = ''0123456789'' ! d"

function show_nat :: "nat \<Rightarrow> string" where
  "show_nat n = (if n < 10 then [digit_char n] else show_nat (n div 10) @ [digit_char (n mod 10)])"
  by pat_completeness auto
termination
  by (relation "measure (\<lambda>n. n)") auto

declare show_nat.simps [simp del]

text \<open>Reading a decimal rendering back.\<close>

definition digit_val :: "char \<Rightarrow> nat" where
  "digit_val c = length (takeWhile (\<lambda>d. d \<noteq> c) ''0123456789'')"

definition read_nat :: "string \<Rightarrow> nat" where
  "read_nat s = foldl (\<lambda>acc c. 10 * acc + digit_val c) 0 s"

section \<open>The data model (\<open>types.ts\<close>)\<close>

datatype AppMode = UPLOAD | EXTRACTING | QUIZ | RESULTS | ADMIN | PROGRESS

record MCQ =
  id_q :: string
  question :: string
  options :: "string list"
  correctAnswer :: string
  explanation :: string
  pageNumber :: rat
  confidence :: rat

record Attempt =
  id_a :: string
  timestamp :: nat
  score :: nat
  total_a :: nat

text \<open>
  \<open>userAnswers\<close> is a \<open>Record<string, string>\<close>: a key that was never written reads as
  \<open>undefined\<close>, here \<open>None\<close>. \<open>currentQuestionIndex\<close> is a number that the code also
  reads back from storage, so it is an \<^typ>\<open>int\<close> and may be out of range.
\<close>

record QuizState =
  questions :: "MCQ list"
  currentQuestionIndex :: int
  userAnswers :: "string \<rightharpoonup> string"
  isFinished :: bool
  isReviewMode :: bool
  quizName :: "string option"

text \<open>
  The state variables of the component \<open>App\<close> that carry the quiz, the session, the
  history and the outcome of an upload. The variables that only serve the presentation
  (dark mode, side bar, drag highlight, the flag of the title input, the time of the last
  save) and the effects that mirror the state into \<open>localStorage\<close> are left out.
\<close>

record App =
  mode :: AppMode
  questions_App :: "MCQ list"
  quizName_App :: string
  quizState :: QuizState
  attempts :: "Attempt list"
  pendingAnswer :: "string option"
  error :: "string option"
  loadingStep :: string
  extractionProgress :: nat
  completedSteps :: "string list"

section \<open>Scoring\<close>

text \<open>
  \<open>finishQuiz\<close> is the same in both variants. It reads \<open>Date.now()\<close> twice, once for the
  id and once for the timestamp of the attempt; the two readings are \<open>now1\<close> and \<open>now2\<close>.
\<close>

definition correctCount :: "MCQ list \<Rightarrow> (string \<rightharpoonup> string) \<Rightarrow> nat" where
  "correctCount qs ans = length (filter (\<lambda>q. ans (id_q q) = Some (correctAnswer q)) qs)"

definition finishQuiz :: "nat \<Rightarrow> nat \<Rightarrow> App \<Rightarrow> App" where
  "finishQuiz now1 now2 s =
     (let newAttempt =
            \<lparr> id_a = ''attempt-'' @ show_nat now1,
              timestamp = now2,
              score = correctCount (questions (quizState s)) (userAnswers (quizState s)),
              total_a = length (questions (quizState s)) \<rparr>
      in s\<lparr> attempts := newAttempt # attempts s,
            mode := RESULTS,
            quizState := (quizState s)\<lparr> isFinished := True \<rparr> \<rparr>)"

section \<open>Strings\<close>

text \<open>
  A string is a list of code units below 256. \<open>String.prototype.trim\<close> removes white space
  and line terminators from both ends; among these code units they are tab, line feed,
  vertical tab, form feed, carriage return, space and the no-break space.
\<close>

definition isWhiteSpace :: "char \<Rightarrow> bool" where
  "isWhiteSpace c \<longleftrightarrow>
     c \<in> {CHR 0x09, CHR 0x0A, CHR 0x0B, CHR 0x0C, CHR 0x0D, CHR '' '', CHR 0xA0}"

definition trim :: "string \<Rightarrow> string" where
  "trim s = rev (dropWhile isWhiteSpace (rev (dropWhile isWhiteSpace s)))"

definition startsWith :: "string \<Rightarrow> string \<Rightarrow> bool" where
  "startsWith s p \<longleftrightarrow> take (length p) s = p"

definition endsWith :: "string \<Rightarrow> string \<Rightarrow> bool" where
  "endsWith s p \<longleftrightarrow> length p \<le> length s \<and> drop (length s - length p) s = p"

definition fence :: string where
  "fence = [CHR 0x60, CHR 0x60, CHR 0x60]"

text \<open>
  \<open>s.replace(/^```(?:json)?\n?/, '')\<close>: the pattern is anchored at the start, so it removes
  the three backquotes, then the word \<open>json\<close> when it follows, then one line feed when it
  follows; a string that does not start with the backquotes is left as it is.
\<close>

definition stripLeadingFence :: "string \<Rightarrow> string" where
  "stripLeadingFence s =
     (if startsWith s fence then
        (let r1 = drop 3 s;
             r2 = (if startsWith r1 ''json'' then drop 4 r1 else r1)
         in if startsWith r2 [CHR 0x0A] then drop 1 r2 else r2)
      else s)"

text \<open>
  \<open>s.replace(/\n?```$/, '')\<close>: without the \<open>m\<close> flag \<open>$\<close> is the end of the input, and the
  leftmost match takes the line feed before the backquotes when there is one.
\<close>

definition stripTrailingFence :: "string \<Rightarrow> string" where
  "stripTrailingFence s =
     (if endsWith s (CHR 0x0A # fence) then take (length s - 4) s
      else if endsWith s fence then take (length s - 3) s
      else s)"

definition cleanText_A :: "string \<Rightarrow> string" where
  "cleanText_A text =
     (let cleanedText = trim text
      in if startsWith cleanedText fence
         then stripTrailingFence (stripLeadingFence cleanedText)
         else cleanedText)"

definition cleanText_B :: "string \<Rightarrow> string" where
  "cleanText_B text = trim text"

section \<open>Values decoded by \<open>JSON.parse\<close>\<close>

datatype json =
    JNull
  | JBool bool
  | JNum rat
  | JStr string
  | JArr "json list"
  | JObj "(string \<times> json) list"

datatype js_error = Error string | SyntaxError string | TypeError string

fun message :: "js_error \<Rightarrow> string" where
  "message (Error m) = m"
| "message (SyntaxError m) = m"
| "message (TypeError m) = m"

text \<open>
  Reading a property that is not a member of any prototype (\<open>title\<close>, \<open>questions\<close>, the
  fields of a question): \<open>undefined\<close> is \<open>None\<close>. Reading it from \<open>null\<close> throws; the caller
  handles that case before it reads.
\<close>

fun getProp :: "json \<Rightarrow> string \<Rightarrow> json option" where
  "getProp (JObj fs) k = map_of fs k"
| "getProp _ k = None"

fun truthy :: "json \<Rightarrow> bool" where
  "truthy JNull = False"
| "truthy (JBool b) = b"
| "truthy (JNum n) = (n \<noteq> 0)"
| "truthy (JStr s) = (s \<noteq> [])"
| "truthy (JArr xs) = True"
| "truthy (JObj fs) = True"

text \<open>
  The own enumerable properties that the spread \<open>{...q}\<close> copies: those of an object, the
  indexed elements of an array, the indexed characters of a string, and none of a number,
  a boolean or \<open>null\<close>.
\<close>

fun ownProps :: "json \<Rightarrow> (string \<times> json) list" where
  "ownProps (JObj fs) = fs"
| "ownProps (JArr xs) = zip (map show_nat [0..<length xs]) xs"
| "ownProps (JStr s) = zip (map show_nat [0..<length s]) (map (\<lambda>c. JStr [c]) s)"
| "ownProps _ = []"

text \<open>\<open>{...q, id: i}\<close>: a property \<open>id\<close> of \<open>q\<close> is overwritten, otherwise \<open>id\<close> is added.\<close>

definition spreadWithId :: "json \<Rightarrow> string \<Rightarrow> json" where
  "spreadWithId q i = JObj (AList.update ''id'' (JStr i) (ownProps q))"

text \<open>
  \<open>data.questions.map((q, index) => ({...q, id: `q-${index}-${Date.now()}`}))\<close>. The clock
  is read once for every element: \<open>now index\<close> is the reading taken for element \<open>index\<close>.
\<close>

definition newId :: "(nat \<Rightarrow> nat) \<Rightarrow> nat \<Rightarrow> string" where
  "newId now index = ''q-'' @ show_nat index @ ''-'' @ show_nat (now index)"

definition assignIds :: "(nat \<Rightarrow> nat) \<Rightarrow> json list \<Rightarrow> json list" where
  "assignIds now items = map (\<lambda>(index, q). spreadWithId q (newId now index)) (enumerate 0 items)"

section \<open>The extraction service (\<open>extractMCQsFromText\<close>)\<close>

text \<open>
  The prompt and the schema sent to the backend do not enter the result; the function is
  modelled from the point where the awaited call has settled. Its parameters are
  \<^item> \<open>parse\<close>, the function \<open>JSON.parse\<close>: \<open>Inl m\<close> when it throws a \<open>SyntaxError\<close> with
    message \<open>m\<close>, \<open>Inr v\<close> when it returns \<open>v\<close>;
  \<^item> \<open>now\<close>, the readings of \<open>Date.now()\<close>;
  \<^item> \<open>backend\<close>, the outcome of \<open>await ai.models.generateContent(...)\<close>: \<open>Inl e\<close> when the
    call rejects with \<open>e\<close>, \<open>Inr None\<close> when the response is missing or has no \<open>text\<close>,
    \<open>Inr (Some t)\<close> when its text is \<open>t\<close>.
  The message of the \<open>TypeError\<close> raised by reading a property of \<open>null\<close> is the one the V8
  engine gives.
\<close>

definition nullReadMessage :: "string \<Rightarrow> string \<Rightarrow> string" where
  "nullReadMessage v k =
     ''Cannot read properties of '' @ v @ '' (reading '' @ [CHR 0x27] @ k @ [CHR 0x27] @ '')''"

definition tryExtract_A ::
  "(string \<Rightarrow> string + json) \<Rightarrow> (nat \<Rightarrow> nat) \<Rightarrow> js_error + string option \<Rightarrow> js_error + json" where
  "tryExtract_A parse now backend =
     (case backend of
        Inl e \<Rightarrow> Inl e
      | Inr None \<Rightarrow> Inl (Error ''Gemini returned an empty response.'')
      | Inr (Some text) \<Rightarrow>
          if text = [] then Inl (Error ''Gemini returned an empty response.'')
          else
            (case parse (cleanText_A text) of
               Inl m \<Rightarrow> Inl (SyntaxError m)
             | Inr JNull \<Rightarrow> Inl (TypeError (nullReadMessage ''null'' ''questions''))
             | Inr data \<Rightarrow>
                 (case getProp data ''questions'' of
                    Some (JArr items) \<Rightarrow>
                      Inr (JObj
                        [(''title'',
                          (case getProp data ''title'' of
                             None \<Rightarrow> JStr ''Untitled Quiz''
                           | Some t \<Rightarrow> if truthy t then t else JStr ''Untitled Quiz'')),
                         (''questions'', JArr (assignIds now items))])
                  | _ \<Rightarrow> Inl (Error ''Gemini response was not in the expected format.''))))"

definition extractMCQsFromText_A ::
  "(string \<Rightarrow> string + json) \<Rightarrow> (nat \<Rightarrow> nat) \<Rightarrow> js_error + string option \<Rightarrow> js_error + json" where
  "extractMCQsFromText_A parse now backend =
     (case tryExtract_A parse now backend of
        Inl (SyntaxError m) \<Rightarrow>
          Inl (Error (''Failed to parse Gemini response as JSON. ''
                      @ ''The model may have returned invalid data.''))
      | Inl e \<Rightarrow> Inl e
      | Inr result \<Rightarrow> Inr result)"

definition tryExtract_B ::
  "(string \<Rightarrow> string + json) \<Rightarrow> (nat \<Rightarrow> nat) \<Rightarrow> js_error + string option \<Rightarrow> js_error + json" where
  "tryExtract_B parse now backend =
     (case backend of
        Inl e \<Rightarrow> Inl e
      | Inr None \<Rightarrow> Inl (Error ''Gemini returned an empty response.'')
      | Inr (Some text) \<Rightarrow>
          if text = [] then Inl (Error ''Gemini returned an empty response.'')
          else
            (case parse (cleanText_B text) of
               Inl m \<Rightarrow> Inl (SyntaxError m)
             | Inr JNull \<Rightarrow> Inl (TypeError (nullReadMessage ''null'' ''questions''))
             | Inr data \<Rightarrow>
                 (case getProp data ''questions'' of
                    Some (JArr items) \<Rightarrow>
                      Inr (JObj
                        [(''title'',
                          (case getProp data ''title'' of
                             None \<Rightarrow> JStr ''QuizAI Generated Quiz''
                           | Some t \<Rightarrow> if truthy t then t else JStr ''QuizAI Generated Quiz'')),
                         (''questions'', JArr (assignIds now items))])
                  | _ \<Rightarrow> Inl (Error ''Unexpected response format.''))))"

definition extractMCQsFromText_B ::
  "(string \<Rightarrow> string + json) \<Rightarrow> (nat \<Rightarrow> nat) \<Rightarrow> js_error + string option \<Rightarrow> js_error + json" where
  "extractMCQsFromText_B parse now backend =
     (case tryExtract_B parse now backend of
        Inl e \<Rightarrow>
          Inl (Error (''Failed to convert PDF to MCQs. The document might be too large ''
                      @ ''or the text might be unreadable.''))
      | Inr result \<Rightarrow> Inr result)"

subsection \<open>Reading a decoded value through the declared interfaces\<close>

text \<open>
  The service returns its object as an \<open>ExtractionResult\<close> without checking it. These
  functions read a value through the interfaces \<open>MCQ\<close> and \<open>ExtractionResult\<close> of
  \<open>types.ts\<close>: they give the typed record when every declared field is there with the
  declared type, and \<open>None\<close> otherwise.
\<close>

record ExtractionResult =
  title :: string
  questions_ER :: "MCQ list"

fun asString :: "json option \<Rightarrow> string option" where
  "asString (Some (JStr s)) = Some s"
| "asString _ = None"

fun asNumber :: "json option \<Rightarrow> rat option" where
  "asNumber (Some (JNum n)) = Some n"
| "asNumber _ = None"

fun asStrings :: "json option \<Rightarrow> string list option" where
  "asStrings (Some (JArr xs)) = those (map (\<lambda>x. asString (Some x)) xs)"
| "asStrings _ = None"

definition asMCQ :: "json \<Rightarrow> MCQ option" where
  "asMCQ j =
     (case (asString (getProp j ''id''), asString (getProp j ''question''),
            asStrings (getProp j ''options''), asString (getProp j ''correctAnswer''),
            asString (getProp j ''explanation''), asNumber (getProp j ''pageNumber''),
            asNumber (getProp j ''confidence'')) of
        (Some i, Some q, Some os, Some c, Some e, Some p, Some cf) \<Rightarrow>
          Some \<lparr> id_q = i, question = q, options = os, correctAnswer = c, explanation = e,
                 pageNumber = p, confidence = cf \<rparr>
      | _ \<Rightarrow> None)"

definition asExtractionResult :: "json \<Rightarrow> ExtractionResult option" where
  "asExtractionResult j =
     (case (asString (getProp j ''title''), getProp j ''questions'') of
        (Some t, Some (JArr qs)) \<Rightarrow>
          (case those (map asMCQ qs) of
             Some ms \<Rightarrow> Some \<lparr> title = t, questions_ER = ms \<rparr>
           | None \<Rightarrow> None)
      | _ \<Rightarrow> None)"

section \<open>The component \<open>App\<close>: session handlers\<close>

text \<open>An array read \<open>xs[i]\<close>: \<open>undefined\<close>, here \<open>None\<close>, outside the array.\<close>

definition arrayAt :: "'a list \<Rightarrow> int \<Rightarrow> 'a option" where
  "arrayAt xs i = (if 0 \<le> i \<and> i < int (length xs) then Some (xs ! nat i) else None)"

text \<open>The truth value of a \<open>string | null | undefined\<close>: absent and empty are false.\<close>

fun truthyStr :: "string option \<Rightarrow> bool" where
  "truthyStr None = False"
| "truthyStr (Some v) = (v \<noteq> [])"

definition freshQuizState :: "MCQ list \<Rightarrow> QuizState" where
  "freshQuizState qs =
     \<lparr> questions = qs, currentQuestionIndex = 0, userAnswers = Map.empty,
       isFinished = False, isReviewMode = False, quizName = None \<rparr>"

text \<open>
  \<open>const currentQuestion = quizState.questions[quizState.currentQuestionIndex]\<close> and
  \<open>const hasAnsweredCurrent = currentQuestion ? !!quizState.userAnswers[currentQuestion.id] : false\<close>.
\<close>

definition currentQuestion :: "App \<Rightarrow> MCQ option" where
  "currentQuestion s = arrayAt (questions (quizState s)) (currentQuestionIndex (quizState s))"

definition hasAnsweredCurrent :: "App \<Rightarrow> bool" where
  "hasAnsweredCurrent s =
     (case currentQuestion s of
        None \<Rightarrow> False
      | Some q \<Rightarrow> truthyStr (userAnswers (quizState s) (id_q q)))"

text \<open>
  \<open>handleConfirmAnswer\<close> (the same in both variants). Its only test is \<open>if (pendingAnswer)\<close>;
  reading \<open>currentQ.id\<close> throws a \<open>TypeError\<close> when \<open>currentQ\<close> is \<open>undefined\<close>.
\<close>

definition handleConfirmAnswer :: "App \<Rightarrow> js_error + App" where
  "handleConfirmAnswer s =
     (case pendingAnswer s of
        None \<Rightarrow> Inr s
      | Some p \<Rightarrow>
          if p = [] then Inr s
          else
            (case arrayAt (questions (quizState s)) (currentQuestionIndex (quizState s)) of
               None \<Rightarrow> Inl (TypeError (nullReadMessage ''undefined'' ''id''))
             | Some currentQ \<Rightarrow>
                 Inr (s\<lparr> quizState :=
                           (quizState s)\<lparr> userAnswers :=
                              (userAnswers (quizState s))(id_q currentQ \<mapsto> p) \<rparr>,
                         pendingAnswer := None \<rparr>)))"

text \<open>
  The button that calls \<open>handleConfirmAnswer\<close> is rendered in place of the Next button under
  the condition \<open>pendingAnswer && !hasAnsweredCurrent\<close>, inside the block of the quiz screen.
  Variant A draws that block under \<open>mode === AppMode.QUIZ && quizState.questions.length > 0\<close>,
  the questions of the session; variant B under \<open>mode === AppMode.QUIZ && questions.length > 0\<close>,
  the questions of the quiz.
\<close>

definition confirmButtonShown_A :: "App \<Rightarrow> bool" where
  "confirmButtonShown_A s \<longleftrightarrow>
     mode s = QUIZ \<and> length (questions (quizState s)) > 0
     \<and> truthyStr (pendingAnswer s) \<and> \<not> hasAnsweredCurrent s"

definition confirmButtonShown_B :: "App \<Rightarrow> bool" where
  "confirmButtonShown_B s \<longleftrightarrow>
     mode s = QUIZ \<and> length (questions_App s) > 0
     \<and> truthyStr (pendingAnswer s) \<and> \<not> hasAnsweredCurrent s"

text \<open>
  A click on the Confirm control: the handler runs when the control is there. (In a state
  where the block is due but the current question is \<open>undefined\<close>, drawing the block
  already fails, at \<open>currentQuestion.question\<close>; the model gives the exception of the
  handler there. No property below depends on which of the two exceptions it is.)
\<close>

definition confirmAnswer_A :: "App \<Rightarrow> js_error + App" where
  "confirmAnswer_A s = (if confirmButtonShown_A s then handleConfirmAnswer s else Inr s)"

definition confirmAnswer_B :: "App \<Rightarrow> js_error + App" where
  "confirmAnswer_B s = (if confirmButtonShown_B s then handleConfirmAnswer s else Inr s)"

text \<open>
  Selecting an option. Variant A: \<open>onClick={() => !hasAnswered && setPendingAnswer(option)}\<close>;
  variant B: \<open>disabled={answered} onClick={() => setPendingAnswer(opt)}\<close>. In both the
  selection is stored only while the displayed question has no committed answer.
\<close>

definition selectOption :: "string \<Rightarrow> App \<Rightarrow> App" where
  "selectOption opt s = (if hasAnsweredCurrent s then s else s\<lparr> pendingAnswer := Some opt \<rparr>)"

definition jumpToQuestion_A :: "int \<Rightarrow> App \<Rightarrow> App" where
  "jumpToQuestion_A index s =
     s\<lparr> quizState := (quizState s)\<lparr> currentQuestionIndex := index \<rparr>, pendingAnswer := None \<rparr>"

text \<open>Variant B sets the index inline and leaves the pending answer.\<close>

definition jumpToQuestion_B :: "int \<Rightarrow> App \<Rightarrow> App" where
  "jumpToQuestion_B i s = s\<lparr> quizState := (quizState s)\<lparr> currentQuestionIndex := i \<rparr> \<rparr>"

definition goToNext :: "nat \<Rightarrow> nat \<Rightarrow> App \<Rightarrow> App" where
  "goToNext now1 now2 s =
     (if currentQuestionIndex (quizState s) < int (length (questions (quizState s))) - 1
      then s\<lparr> quizState := (quizState s)\<lparr> currentQuestionIndex :=
                   currentQuestionIndex (quizState s) + 1 \<rparr>,
              pendingAnswer := None \<rparr>
      else finishQuiz now1 now2 s)"

definition goToPrev_A :: "App \<Rightarrow> App" where
  "goToPrev_A s =
     (if currentQuestionIndex (quizState s) > 0
      then s\<lparr> quizState := (quizState s)\<lparr> currentQuestionIndex :=
                   currentQuestionIndex (quizState s) - 1 \<rparr>,
              pendingAnswer := None \<rparr>
      else s)"

text \<open>Variant B: \<open>currentQuestionIndex: Math.max(0, s.currentQuestionIndex - 1)\<close>, inline.\<close>

definition goToPrev_B :: "App \<Rightarrow> App" where
  "goToPrev_B s =
     s\<lparr> quizState := (quizState s)\<lparr> currentQuestionIndex :=
            max 0 (currentQuestionIndex (quizState s) - 1) \<rparr> \<rparr>"

subsection \<open>Retake\<close>

datatype filter_A = FilterAll | FilterIncorrect | FilterLowConfidence

datatype filter_B = FilterAll_B | FilterIncorrect_B

text \<open>
  The parameter \<open>filter\<close> is optional: \<open>None\<close> is a call without it. Variant A reports an
  empty selection with \<open>setError\<close>; variant B returns without a word and has no
  low-confidence filter. The literal \<open>0.8\<close> is the double next to \<open>8 / 10\<close>; no double lies
  between the two, so a confidence that is a double is below the one exactly when it is
  below the other.
\<close>

definition resetQuiz_A :: "filter_A option \<Rightarrow> App \<Rightarrow> App" where
  "resetQuiz_A flt s =
     (let newQuestions =
            (if flt = Some FilterIncorrect
             then filter (\<lambda>q. userAnswers (quizState s) (id_q q) \<noteq> Some (correctAnswer q))
                    (questions_App s)
             else if flt = Some FilterLowConfidence
             then filter (\<lambda>q. confidence q < 8 / 10) (questions_App s)
             else questions_App s)
      in if length newQuestions = 0
         then s\<lparr> error := Some ''No questions match the filter.'' \<rparr>
         else s\<lparr> quizState := freshQuizState newQuestions,
                 pendingAnswer := None,
                 mode := QUIZ \<rparr>)"

definition resetQuiz_B :: "filter_B option \<Rightarrow> App \<Rightarrow> App" where
  "resetQuiz_B flt s =
     (let nextQs =
            (if flt = Some FilterIncorrect_B
             then filter (\<lambda>q. userAnswers (quizState s) (id_q q) \<noteq> Some (correctAnswer q))
                    (questions_App s)
             else questions_App s)
      in if length nextQs = 0
         then s
         else s\<lparr> quizState := freshQuizState nextQs,
                 pendingAnswer := None,
                 mode := QUIZ \<rparr>)"

subsection \<open>Correction of a question\<close>

text \<open>
  \<open>Partial<MCQ>\<close>: every field may be absent. \<open>{...q, ...updated}\<close> takes each field from
  \<open>updated\<close> when it is there and from \<open>q\<close> otherwise.
\<close>

record PartialMCQ =
  id_p :: "string option"
  question_p :: "string option"
  options_p :: "string list option"
  correctAnswer_p :: "string option"
  explanation_p :: "string option"
  pageNumber_p :: "rat option"
  confidence_p :: "rat option"

definition merge :: "MCQ \<Rightarrow> PartialMCQ \<Rightarrow> MCQ" where
  "merge q updated =
     \<lparr> id_q = (case id_p updated of None \<Rightarrow> id_q q | Some v \<Rightarrow> v),
       question = (case question_p updated of None \<Rightarrow> question q | Some v \<Rightarrow> v),
       options = (case options_p updated of None \<Rightarrow> options q | Some v \<Rightarrow> v),
       correctAnswer = (case correctAnswer_p updated of None \<Rightarrow> correctAnswer q | Some v \<Rightarrow> v),
       explanation = (case explanation_p updated of None \<Rightarrow> explanation q | Some v \<Rightarrow> v),
       pageNumber = (case pageNumber_p updated of None \<Rightarrow> pageNumber q | Some v \<Rightarrow> v),
       confidence = (case confidence_p updated of None \<Rightarrow> confidence q | Some v \<Rightarrow> v) \<rparr>"

definition saveEditedQuestion :: "string \<Rightarrow> PartialMCQ \<Rightarrow> App \<Rightarrow> App" where
  "saveEditedQuestion i updated s =
     s\<lparr> questions_App := map (\<lambda>q. if id_q q = i then merge q updated else q) (questions_App s),
        quizState := (quizState s)\<lparr> questions :=
           map (\<lambda>q. if id_q q = i then merge q updated else q) (questions (quizState s)) \<rparr> \<rparr>"

section \<open>The component \<open>App\<close>: upload, reset and start\<close>

text \<open>
  \<open>text.replace(/--- PAGE \d+ ---/g, '')\<close>: every page marker is removed, scanning from the
  left. \<open>matchPageMarker s\<close> is the length of the marker that \<open>s\<close> starts with.
\<close>

definition isDigit :: "char \<Rightarrow> bool" where
  "isDigit c \<longleftrightarrow> c \<in> set ''0123456789''"

definition matchPageMarker :: "string \<Rightarrow> nat option" where
  "matchPageMarker s =
     (if startsWith s ''--- PAGE '' then
        (let ds = takeWhile isDigit (drop 9 s)
         in if ds \<noteq> [] \<and> startsWith (drop (9 + length ds) s) '' ---''
            then Some (9 + length ds + 4) else None)
      else None)"

fun removePageMarkers :: "string \<Rightarrow> string" where
  "removePageMarkers [] = []"
| "removePageMarkers (c # cs) =
     (case matchPageMarker (c # cs) of
        Some n \<Rightarrow> removePageMarkers (drop (n - 1) cs)
      | None \<Rightarrow> c # removePageMarkers cs)"

text \<open>
  One run of \<open>handleFileUpload\<close>, with what its environment supplies: the MIME type of the
  chosen file (\<open>None\<close> when there is no file), the outcome of \<open>await extractTextFromPdf(file)\<close>
  and the outcome of \<open>await extractMCQsFromText(text)\<close>, read through its declared type.
  The run is taken as one step: no other handler runs between its parts.
\<close>

record Upload =
  fileType :: "string option"
  pdfText :: "js_error + string"
  extraction :: "js_error + ExtractionResult"

definition catchUpload :: "string \<Rightarrow> js_error \<Rightarrow> App \<Rightarrow> App" where
  "catchUpload fallback err s =
     s\<lparr> error := Some (if message err = [] then fallback else message err), mode := UPLOAD \<rparr>"

definition handleFileUpload_A :: "Upload \<Rightarrow> App \<Rightarrow> App" where
  "handleFileUpload_A u s =
     (if fileType u \<noteq> Some ''application/pdf''
      then s\<lparr> error := Some ''Please upload a valid PDF file.'' \<rparr>
      else
        (let s1 = s\<lparr> error := None, completedSteps := [], extractionProgress := 5,
                      mode := EXTRACTING, loadingStep := ''Initializing parser...'' \<rparr>
         in case pdfText u of
              Inl e \<Rightarrow> catchUpload ''Extraction failed.'' e s1
            | Inr text \<Rightarrow>
                if text = [] \<or> length (trim (removePageMarkers text)) < 20
                then catchUpload ''Extraction failed.''
                       (Error ''No readable text found in the PDF.'') s1
                else
                  (let s2 = s1\<lparr> completedSteps := [''read''], extractionProgress := 30 \<rparr>
                   in case extraction u of
                        Inl e \<Rightarrow> catchUpload ''Extraction failed.'' e s2
                      | Inr result \<Rightarrow>
                          if length (questions_ER result) = 0
                          then catchUpload ''Extraction failed.''
                                 (Error ''No questions identified.'') s2
                          else
                            s2\<lparr> quizName_App := title result,
                                questions_App := questions_ER result,
                                attempts := [],
                                quizState := freshQuizState (questions_ER result),
                                extractionProgress := 100,
                                completedSteps := [''read'', ''analyze'', ''structure'', ''finalize''],
                                loadingStep := ''Ready!'',
                                mode := QUIZ \<rparr>)))"

definition handleFileUpload_B :: "Upload \<Rightarrow> App \<Rightarrow> App" where
  "handleFileUpload_B u s =
     (if fileType u \<noteq> Some ''application/pdf''
      then s\<lparr> error := Some ''Please provide a valid PDF file.'' \<rparr>
      else
        (let s1 = s\<lparr> error := None, completedSteps := [], extractionProgress := 5,
                      mode := EXTRACTING, loadingStep := ''Initializing PDF parser...'' \<rparr>
         in case pdfText u of
              Inl e \<Rightarrow> catchUpload ''Error converting PDF.'' e s1
            | Inr text \<Rightarrow>
                if text = [] \<or> length text < 50
                then catchUpload ''Error converting PDF.''
                       (Error ''Could not read enough text from this PDF.'') s1
                else
                  (let s2 = s1\<lparr> completedSteps := [''read''], extractionProgress := 30,
                                 loadingStep := ''Consulting Gemini AI...'' \<rparr>
                   in case extraction u of
                        Inl e \<Rightarrow> catchUpload ''Error converting PDF.'' e s2
                      | Inr result \<Rightarrow>
                          if length (questions_ER result) = 0
                          then catchUpload ''Error converting PDF.''
                                 (Error ''No study material could be processed.'') s2
                          else
                            s2\<lparr> quizName_App := title result,
                                questions_App := questions_ER result,
                                quizState := freshQuizState (questions_ER result),
                                extractionProgress := 100,
                                completedSteps := [''read'', ''analyze'', ''structure'', ''finalize''],
                                loadingStep := ''Quiz Ready!'',
                                mode := QUIZ \<rparr>)))"

text \<open>
  \<open>clearAllData\<close>: the argument is the answer to the \<open>confirm\<close> dialog. The two variants
  differ in the name they give the empty quiz.
\<close>

definition clearAllData_A :: "bool \<Rightarrow> App \<Rightarrow> App" where
  "clearAllData_A confirmed s =
     (if confirmed
      then s\<lparr> questions_App := [], attempts := [], quizName_App := ''Untitled Quiz'',
              quizState := freshQuizState [], mode := UPLOAD \<rparr>
      else s)"

definition clearAllData_B :: "bool \<Rightarrow> App \<Rightarrow> App" where
  "clearAllData_B confirmed s =
     (if confirmed
      then s\<lparr> questions_App := [], attempts := [], quizName_App := ''New Quiz'',
              quizState := freshQuizState [], mode := UPLOAD \<rparr>
      else s)"

subsection \<open>Start of the component\<close>

text \<open>
  The two storage slots as \<open>localStorage.getItem\<close> returns them (\<open>None\<close> for \<open>null\<close>), and
  \<open>JSON.parse\<close> at each of its two uses, followed by the reading of its result through the
  declared type: \<open>Inl m\<close> when it throws a \<open>SyntaxError\<close> with message \<open>m\<close>. For the quiz slot
  the result is \<open>None\<close> when the decoded value is falsy, and each part of it is \<open>None\<close> when
  it is absent. \<open>console.error\<close> appends its first argument to the log.
\<close>

record Storage =
  historySlot :: "string option"
  quizSlot :: "string option"

record Progress =
  currentQuestionIndex_P :: "int option"
  userAnswers_P :: "(string \<rightharpoonup> string) option"
  isFinished_P :: "bool option"

record Snapshot =
  questions_S :: "MCQ list option"
  title_S :: "string option"
  progress_S :: "Progress option"

definition initialApp :: "string \<Rightarrow> Attempt list \<Rightarrow> App" where
  "initialApp name history =
     \<lparr> mode = UPLOAD, questions_App = [], quizName_App = name,
       quizState = freshQuizState [], attempts = history, pendingAnswer = None,
       error = None, loadingStep = [], extractionProgress = 0, completedSteps = [] \<rparr>"

text \<open>
  The initializer of the state \<open>attempts\<close>:
  \<open>const saved = localStorage.getItem(HISTORY_KEY); return saved ? JSON.parse(saved) : [];\<close>
\<close>

definition initialAttempts ::
  "(string \<Rightarrow> string + Attempt list) \<Rightarrow> Storage \<Rightarrow> js_error + Attempt list" where
  "initialAttempts parseHistory st =
     (case historySlot st of
        None \<Rightarrow> Inr []
      | Some saved \<Rightarrow>
          if saved = [] then Inr []
          else (case parseHistory saved of
                  Inl m \<Rightarrow> Inl (SyntaxError m)
                | Inr history \<Rightarrow> Inr history))"

text \<open>The effect that loads the quiz slot; it returns the log with the state.\<close>

definition loadQuiz ::
  "string \<Rightarrow> string \<Rightarrow> (string \<Rightarrow> string + Snapshot option) \<Rightarrow> Storage \<Rightarrow> App \<Rightarrow> string list \<times> App" where
  "loadQuiz defaultName logText parseQuiz st s =
     (if truthyStr (quizSlot st)
      then (case parseQuiz (case quizSlot st of Some saved \<Rightarrow> saved | None \<Rightarrow> []) of
              Inl m \<Rightarrow> ([logText], s)
            | Inr None \<Rightarrow> ([], s)
            | Inr (Some parsed) \<Rightarrow>
                (case questions_S parsed of
                   None \<Rightarrow> ([], s)
                 | Some qs \<Rightarrow>
                     if length qs > 0
                     then ([], s\<lparr> questions_App := qs,
                                  quizName_App :=
                                    (case title_S parsed of
                                       None \<Rightarrow> defaultName
                                     | Some t \<Rightarrow> if t = [] then defaultName else t),
                                  quizState :=
                                    \<lparr> questions = qs,
                                      currentQuestionIndex =
                                        (case progress_S parsed of
                                           None \<Rightarrow> 0
                                         | Some pr \<Rightarrow>
                                             (case currentQuestionIndex_P pr of
                                                None \<Rightarrow> 0 | Some i \<Rightarrow> i)),
                                      userAnswers =
                                        (case progress_S parsed of
                                           None \<Rightarrow> Map.empty
                                         | Some pr \<Rightarrow>
                                             (case userAnswers_P pr of
                                                None \<Rightarrow> Map.empty | Some a \<Rightarrow> a)),
                                      isFinished =
                                        (case progress_S parsed of
                                           None \<Rightarrow> False
                                         | Some pr \<Rightarrow>
                                             (case isFinished_P pr of
                                                None \<Rightarrow> False | Some b \<Rightarrow> b)),
                                      isReviewMode = False, quizName = None \<rparr> \<rparr>)
                     else ([], s)))
      else ([], s))"

text \<open>
  The start: the state initializers run while the component renders for the first time,
  the effect after it. An exception in an initializer ends the render.
\<close>

definition startApp_A ::
  "(string \<Rightarrow> string + Attempt list) \<Rightarrow> (string \<Rightarrow> string + Snapshot option) \<Rightarrow> Storage
     \<Rightarrow> js_error + string list \<times> App" where
  "startApp_A parseHistory parseQuiz st =
     (case initialAttempts parseHistory st of
        Inl e \<Rightarrow> Inl e
      | Inr history \<Rightarrow>
          Inr (loadQuiz ''Untitled Quiz'' ''Failed to load local data'' parseQuiz st
                 (initialApp ''Untitled Quiz'' history)))"

definition startApp_B ::
  "(string \<Rightarrow> string + Attempt list) \<Rightarrow> (string \<Rightarrow> string + Snapshot option) \<Rightarrow> Storage
     \<Rightarrow> js_error + string list \<times> App" where
  "startApp_B parseHistory parseQuiz st =
     (case initialAttempts parseHistory st of
        Inl e \<Rightarrow> Inl e
      | Inr history \<Rightarrow>
          Inr (loadQuiz ''New Quiz'' ''Failed to restore state'' parseQuiz st
                 (initialApp ''New Quiz'' history)))"

section \<open>The operations a user can trigger\<close>

text \<open>
  Every control of the two components that changes a state variable of the model, with
  the values it passes to its handler. \<open>SetQuizName\<close> is the title input of variant A;
  variant B has no such control. \<open>SetError\<close> is the button that closes the error banner.
\<close>

datatype 'f event =
    FileUpload Upload
  | ClearAllData bool
  | SelectOption string
  | ConfirmAnswer
  | GoToNext nat nat
  | GoToPrev
  | JumpToQuestion int
  | FinishQuiz nat nat
  | ResetQuiz "'f option"
  | SaveEditedQuestion string PartialMCQ
  | SetMode AppMode
  | SetQuizName string
  | SetError

fun step_A :: "filter_A event \<Rightarrow> App \<Rightarrow> js_error + App" where
  "step_A (FileUpload u) s = Inr (handleFileUpload_A u s)"
| "step_A (ClearAllData confirmed) s = Inr (clearAllData_A confirmed s)"
| "step_A (SelectOption opt) s = Inr (selectOption opt s)"
| "step_A ConfirmAnswer s = confirmAnswer_A s"
| "step_A (GoToNext now1 now2) s = Inr (goToNext now1 now2 s)"
| "step_A GoToPrev s = Inr (goToPrev_A s)"
| "step_A (JumpToQuestion index) s = Inr (jumpToQuestion_A index s)"
| "step_A (FinishQuiz now1 now2) s = Inr (finishQuiz now1 now2 s)"
| "step_A (ResetQuiz flt) s = Inr (resetQuiz_A flt s)"
| "step_A (SaveEditedQuestion i updated) s = Inr (saveEditedQuestion i updated s)"
| "step_A (SetMode m) s = Inr (s\<lparr> mode := m \<rparr>)"
| "step_A (SetQuizName n) s = Inr (s\<lparr> quizName_App := n \<rparr>)"
| "step_A SetError s = Inr (s\<lparr> error := None \<rparr>)"

fun step_B :: "filter_B event \<Rightarrow> App \<Rightarrow> js_error + App" where
  "step_B (FileUpload u) s = Inr (handleFileUpload_B u s)"
| "step_B (ClearAllData confirmed) s = Inr (clearAllData_B confirmed s)"
| "step_B (SelectOption opt) s = Inr (selectOption opt s)"
| "step_B ConfirmAnswer s = confirmAnswer_B s"
| "step_B (GoToNext now1 now2) s = Inr (goToNext now1 now2 s)"
| "step_B GoToPrev s = Inr (goToPrev_B s)"
| "step_B (JumpToQuestion i) s = Inr (jumpToQuestion_B i s)"
| "step_B (FinishQuiz now1 now2) s = Inr (finishQuiz now1 now2 s)"
| "step_B (ResetQuiz flt) s = Inr (resetQuiz_B flt s)"
| "step_B (SaveEditedQuestion i updated) s = Inr (saveEditedQuestion i updated s)"
| "step_B (SetMode m) s = Inr (s\<lparr> mode := m \<rparr>)"
| "step_B (SetQuizName n) s = Inr s"
| "step_B SetError s = Inr (s\<lparr> error := None \<rparr>)"

text \<open>A sequence of operations stops at the first exception.\<close>

fun run_A :: "filter_A event list \<Rightarrow> App \<Rightarrow> js_error + App" where
  "run_A [] s = Inr s"
| "run_A (e # es) s = (case step_A e s of Inl x \<Rightarrow> Inl x | Inr s' \<Rightarrow> run_A es s')"

fun run_B :: "filter_B event list \<Rightarrow> App \<Rightarrow> js_error + App" where
  "run_B [] s = Inr s"
| "run_B (e # es) s = (case step_B e s of Inl x \<Rightarrow> Inl x | Inr s' \<Rightarrow> run_B es s')"

text \<open>The operations that build a new session state: upload, reset of all data, retake.\<close>

fun recreatesSession :: "'f event \<Rightarrow> bool" where
  "recreatesSession (FileUpload u) = True"
| "recreatesSession (ClearAllData confirmed) = True"
| "recreatesSession (ResetQuiz flt) = True"
| "recreatesSession _ = False"

section \<open>Concrete inputs\<close>

text \<open>
  The reply of the backend in the scenario of the specification, the JSON document inside
  its fence, and the value that document denotes.
\<close>

definition scenarioReply :: string where
  \<open>scenarioReply = ''```json\<newline>{"title":"T","questions":[{"question":"Q1","options":["A","B","C","D"],"correctAnswer":"B","explanation":"E","pageNumber":1,"confidence":0.9}]}\<newline>```''\<close>

definition scenarioDocument :: string where
  \<open>scenarioDocument = ''{"title":"T","questions":[{"question":"Q1","options":["A","B","C","D"],"correctAnswer":"B","explanation":"E","pageNumber":1,"confidence":0.9}]}''\<close>

definition scenarioValue :: json where
  "scenarioValue =
     JObj [(''title'', JStr ''T''),
           (''questions'',
            JArr [JObj [(''question'', JStr ''Q1''),
                        (''options'', JArr [JStr ''A'', JStr ''B'', JStr ''C'', JStr ''D'']),
                        (''correctAnswer'', JStr ''B''),
                        (''explanation'', JStr ''E''),
                        (''pageNumber'', JNum 1),
                        (''confidence'', JNum (9 / 10))]])]"

text \<open>
  A document whose only question names an answer that is none of its options and brings
  an \<open>id\<close> of its own, and the value it denotes.
\<close>

definition strayDocument :: string where
  \<open>strayDocument = ''{"title":"","questions":[{"id":"mine","question":"Q1","options":["A","B","C","D"],"correctAnswer":"Z","explanation":"E","pageNumber":1,"confidence":0.5}]}''\<close>

definition strayValue :: json where
  "strayValue =
     JObj [(''title'', JStr []),
           (''questions'',
            JArr [JObj [(''id'', JStr ''mine''),
                        (''question'', JStr ''Q1''),
                        (''options'', JArr [JStr ''A'', JStr ''B'', JStr ''C'', JStr ''D'']),
                        (''correctAnswer'', JStr ''Z''),
                        (''explanation'', JStr ''E''),
                        (''pageNumber'', JNum 1),
                        (''confidence'', JNum (1 / 2))]])]"

text \<open>
  A stand-in for \<open>JSON.parse\<close> that decodes the documents of a table and rejects every other
  text. The table of \<open>exampleParse\<close> pairs each document with the value \<open>JSON.parse\<close> gives
  for it; the texts it is applied to outside the table are not JSON documents.
\<close>

definition tableParse :: "(string \<times> json) list \<Rightarrow> string \<Rightarrow> string + json" where
  "tableParse table t =
     (case map_of table t of Some v \<Rightarrow> Inr v | None \<Rightarrow> Inl ''Unexpected token'')"

definition exampleParse :: "string \<Rightarrow> string + json" where
  "exampleParse =
     tableParse [(scenarioDocument, scenarioValue), (strayDocument, strayValue),
                 (''{}'', JObj []), (''null'', JNull)]"

definition exampleNow :: "nat \<Rightarrow> nat" where
  "exampleNow index = 1700000000000"

text \<open>Five questions and a session in which the first three of them have been answered.\<close>

definition exampleQuestion :: "string \<Rightarrow> string \<Rightarrow> rat \<Rightarrow> MCQ" where
  "exampleQuestion i c cf =
     \<lparr> id_q = i, question = ''Q'', options = [''A'', ''B'', ''C'', ''D''], correctAnswer = c,
       explanation = ''E'', pageNumber = 1, confidence = cf \<rparr>"

definition exampleQuestions :: "MCQ list" where
  "exampleQuestions =
     [exampleQuestion ''q1'' ''A'' (9 / 10), exampleQuestion ''q2'' ''B'' (7 / 10),
      exampleQuestion ''q3'' ''C'' (9 / 10), exampleQuestion ''q4'' ''D'' (9 / 10),
      exampleQuestion ''q5'' ''A'' (8 / 10)]"

definition exampleAttempt :: Attempt where
  "exampleAttempt = \<lparr> id_a = ''attempt-1'', timestamp = 1, score = 3, total_a = 5 \<rparr>"

definition exampleApp :: App where
  "exampleApp =
     \<lparr> mode = QUIZ, questions_App = exampleQuestions, quizName_App = ''T'',
       quizState =
         \<lparr> questions = exampleQuestions, currentQuestionIndex = 3,
           userAnswers = [''q1'' \<mapsto> ''A'', ''q2'' \<mapsto> ''C'', ''q3'' \<mapsto> ''C''],
           isFinished = False, isReviewMode = False, quizName = None \<rparr>,
       attempts = [exampleAttempt], pendingAnswer = None, error = None,
       loadingStep = [], extractionProgress = 0, completedSteps = [] \<rparr>"

text \<open>An upload of a PDF file whose text is read and whose extraction yields one question.\<close>

definition exampleUpload :: Upload where
  "exampleUpload =
     \<lparr> fileType = Some ''application/pdf'',
       pdfText = Inr (''--- PAGE 1 ---'' @ [CHR 0x0A]
                      @ ''1. Which letter comes second? A B C D'' @ [CHR 0x0A, CHR 0x0A]
                      @ ''--- PAGE 2 ---'' @ [CHR 0x0A] @ ''Answer key: 1 B'' @ [CHR 0x0A, CHR 0x0A]),
       extraction =
         Inr \<lparr> title = ''T'',
               questions_ER = [exampleQuestion ''q-0-1700000000000'' ''B'' (9 / 10)] \<rparr> \<rparr>"

text \<open>The example session finished with every question answered correctly.\<close>

definition exampleFinishedApp :: App where
  "exampleFinishedApp =
     exampleApp\<lparr> mode := RESULTS,
                  quizState := (quizState exampleApp)
                    \<lparr> userAnswers := [''q1'' \<mapsto> ''A'', ''q2'' \<mapsto> ''B'', ''q3'' \<mapsto> ''C'',
                                       ''q4'' \<mapsto> ''D'', ''q5'' \<mapsto> ''A''],
                      isFinished := True \<rparr> \<rparr>"

text \<open>
  The invariant of a question record that the specification states: the correct answer is
  one of the options unless it is the text that stands for a missing answer.
\<close>

definition answerAmongOptions :: "MCQ \<Rightarrow> bool" where
  "answerAmongOptions q \<longleftrightarrow>
     correctAnswer q = ''Answer not found in PDF'' \<or> correctAnswer q \<in> set (options q)"

text \<open>The question that the extraction makes of the stray document.\<close>

definition strayQuestion :: MCQ where
  "strayQuestion =
     \<lparr> id_q = ''q-0-1700000000000'', question = ''Q1'', options = [''A'', ''B'', ''C'', ''D''],
       correctAnswer = ''Z'', explanation = ''E'', pageNumber = 1, confidence = 1 / 2 \<rparr>"

section \<open>Properties\<close>

subsection \<open>Decimal rendering\<close>

lemma digit_char_isDigit: "d < 10 \<Longrightarrow> isDigit (digit_char d)"
proof -
  assume "d < 10"
  then have "d \<in> {0, 1, 2, 3, 4, 5, 6, 7, 8, 9}" by auto
  then show ?thesis by (auto simp: isDigit_def digit_char_def)
qed

lemma show_nat_digits: "\<forall>c \<in> set (show_nat n). isDigit c"
proof (induction n rule: show_nat.induct)
  case (1 n)
  show ?case
  proof (cases "n < 10")
    case True
    then show ?thesis by (subst show_nat.simps) (simp add: digit_char_isDigit)
  next
    case False
    with 1 show ?thesis
      by (subst show_nat.simps) (auto simp: digit_char_isDigit)
  qed
qed

lemma digit_val_digit_char: "d < 10 \<Longrightarrow> digit_val (digit_char d) = d"
proof -
  assume "d < 10"
  then have "d \<in> {0, 1, 2, 3, 4, 5, 6, 7, 8, 9}" by auto
  then show ?thesis by (auto simp: digit_val_def digit_char_def)
qed

lemma read_show_nat: "read_nat (show_nat n) = n"
proof (induction n rule: show_nat.induct)
  case (1 n)
  show ?case
  proof (cases "n < 10")
    case True
    then show ?thesis
      by (subst show_nat.simps) (simp add: read_nat_def digit_val_digit_char)
  next
    case False
    then have "read_nat (show_nat (n div 10)) = n div 10" using 1 by simp
    then show ?thesis using False
      by (subst show_nat.simps) (simp add: read_nat_def digit_val_digit_char)
  qed
qed

lemma show_nat_inj: "show_nat m = show_nat n \<Longrightarrow> m = n"
  by (metis read_show_nat)

lemma isDigit_not_dash: "isDigit c \<Longrightarrow> c \<noteq> CHR ''-''"
  by (auto simp: isDigit_def)

lemma digits_dash_split:
  assumes "\<forall>c \<in> set a. isDigit c" and "\<forall>c \<in> set b. isDigit c"
    and "a @ CHR ''-'' # x = b @ CHR ''-'' # y"
  shows "a = b"
  using assms
proof (induction a arbitrary: b)
  case Nil
  then show ?case by (cases b) (auto dest: isDigit_not_dash)
next
  case (Cons c a)
  show ?case
  proof (cases b)
    case Nil
    with Cons.prems show ?thesis by (auto dest: isDigit_not_dash)
  next
    case (Cons d b')
    with Cons.prems have "c = d" and "a @ CHR ''-'' # x = b' @ CHR ''-'' # y" by auto
    moreover have "\<forall>c \<in> set a. isDigit c" "\<forall>c \<in> set b'. isDigit c"
      using Cons.prems Cons by auto
    ultimately show ?thesis using Cons.IH Cons by blast
  qed
qed

lemma newId_inj: "newId now i = newId now' j \<Longrightarrow> i = j"
proof -
  assume "newId now i = newId now' j"
  then have "show_nat i @ CHR ''-'' # show_nat (now i)
      = show_nat j @ CHR ''-'' # show_nat (now' j)"
    by (simp add: newId_def)
  then have "show_nat i = show_nat j"
    using digits_dash_split show_nat_digits by blast
  then show ?thesis by (rule show_nat_inj)
qed

subsection \<open>Scoring on finish\<close>

text \<open>
  Claim C1. For a session with active questions \<open>Q\<close> and committed answers \<open>A\<close>,
  \<open>finishQuiz\<close> puts exactly one new attempt in front of the history (the earlier attempts
  follow it unchanged, the length grows by one); its score is the number of questions of
  \<open>Q\<close> whose committed answer equals \<open>correctAnswer\<close>, its total is the length of \<open>Q\<close>;
  the session is marked finished, and \<open>Q\<close> and \<open>A\<close> themselves are not touched. The score
  is a function of \<open>Q\<close> and \<open>A\<close> alone. With five questions of which the first and third
  are answered correctly, the second incorrectly and the last two not at all, the score
  is 2 and the total 5.
\<close>

theorem finishQuiz_appends_scored_attempt:
  "attempts (finishQuiz now1 now2 s) =
     \<lparr> id_a = ''attempt-'' @ show_nat now1, timestamp = now2,
       score = length (filter (\<lambda>q. userAnswers (quizState s) (id_q q) = Some (correctAnswer q))
                 (questions (quizState s))),
       total_a = length (questions (quizState s)) \<rparr> # attempts s
   \<and> length (attempts (finishQuiz now1 now2 s)) = length (attempts s) + 1
   \<and> isFinished (quizState (finishQuiz now1 now2 s))
   \<and> questions (quizState (finishQuiz now1 now2 s)) = questions (quizState s)
   \<and> userAnswers (quizState (finishQuiz now1 now2 s)) = userAnswers (quizState s)
   \<and> (questions (quizState s) = questions (quizState t)
        \<and> userAnswers (quizState s) = userAnswers (quizState t)
      \<longrightarrow> score (hd (attempts (finishQuiz now1 now2 s)))
          = score (hd (attempts (finishQuiz now3 now4 t))))
   \<and> (questions (quizState s) = [q1, q2, q3, q4, q5]
        \<and> userAnswers (quizState s) (id_q q1) = Some (correctAnswer q1)
        \<and> userAnswers (quizState s) (id_q q2) = Some a2 \<and> a2 \<noteq> correctAnswer q2
        \<and> userAnswers (quizState s) (id_q q3) = Some (correctAnswer q3)
        \<and> userAnswers (quizState s) (id_q q4) = None
        \<and> userAnswers (quizState s) (id_q q5) = None
      \<longrightarrow> score (hd (attempts (finishQuiz now1 now2 s))) = 2
          \<and> total_a (hd (attempts (finishQuiz now1 now2 s))) = 5)"
  by (simp add: finishQuiz_def correctCount_def Let_def)

theorem finishQuiz_appends_scored_attempt_witness:
  "questions (quizState exampleApp)
     = [exampleQuestion ''q1'' ''A'' (9 / 10), exampleQuestion ''q2'' ''B'' (7 / 10),
        exampleQuestion ''q3'' ''C'' (9 / 10), exampleQuestion ''q4'' ''D'' (9 / 10),
        exampleQuestion ''q5'' ''A'' (8 / 10)]
   \<and> userAnswers (quizState exampleApp) ''q2'' = Some ''C''
   \<and> score (hd (attempts (finishQuiz 1700000000000 1700000000001 exampleApp))) = 2
   \<and> total_a (hd (attempts (finishQuiz 1700000000000 1700000000001 exampleApp))) = 5
   \<and> length (attempts (finishQuiz 1700000000000 1700000000001 exampleApp))
       = length (attempts exampleApp) + 1
   \<and> score (hd (attempts (finishQuiz 1700000000000 1700000000001 exampleApp)))
       = score (hd (attempts (finishQuiz 5 6 (exampleApp\<lparr> mode := RESULTS \<rparr>))))"
proof -
  have Q: "questions (quizState exampleApp)
     = [exampleQuestion ''q1'' ''A'' (9 / 10), exampleQuestion ''q2'' ''B'' (7 / 10),
        exampleQuestion ''q3'' ''C'' (9 / 10), exampleQuestion ''q4'' ''D'' (9 / 10),
        exampleQuestion ''q5'' ''A'' (8 / 10)]"
    by (simp add: exampleApp_def exampleQuestions_def)
  have A: "userAnswers (quizState exampleApp) (id_q (exampleQuestion ''q1'' ''A'' (9 / 10)))
        = Some (correctAnswer (exampleQuestion ''q1'' ''A'' (9 / 10)))
     \<and> userAnswers (quizState exampleApp) (id_q (exampleQuestion ''q2'' ''B'' (7 / 10)))
        = Some ''C''
     \<and> ''C'' \<noteq> correctAnswer (exampleQuestion ''q2'' ''B'' (7 / 10))
     \<and> userAnswers (quizState exampleApp) (id_q (exampleQuestion ''q3'' ''C'' (9 / 10)))
        = Some (correctAnswer (exampleQuestion ''q3'' ''C'' (9 / 10)))
     \<and> userAnswers (quizState exampleApp) (id_q (exampleQuestion ''q4'' ''D'' (9 / 10))) = None
     \<and> userAnswers (quizState exampleApp) (id_q (exampleQuestion ''q5'' ''A'' (8 / 10))) = None"
    by (simp add: exampleApp_def exampleQuestion_def)
  have S: "questions (quizState exampleApp) = questions (quizState (exampleApp\<lparr> mode := RESULTS \<rparr>))
     \<and> userAnswers (quizState exampleApp) = userAnswers (quizState (exampleApp\<lparr> mode := RESULTS \<rparr>))"
    by simp
  have U: "userAnswers (quizState exampleApp) ''q2'' = Some ''C''"
    by (simp add: exampleApp_def)
  note T = finishQuiz_appends_scored_attempt
         [where s = exampleApp and t = "exampleApp\<lparr> mode := RESULTS \<rparr>"
            and ?now1.0 = 1700000000000 and ?now2.0 = 1700000000001
            and ?now3.0 = 5 and ?now4.0 = 6
            and ?q1.0 = "exampleQuestion ''q1'' ''A'' (9 / 10)"
            and ?q2.0 = "exampleQuestion ''q2'' ''B'' (7 / 10)"
            and ?q3.0 = "exampleQuestion ''q3'' ''C'' (9 / 10)"
            and ?q4.0 = "exampleQuestion ''q4'' ''D'' (9 / 10)"
            and ?q5.0 = "exampleQuestion ''q5'' ''A'' (8 / 10)"
            and ?a2.0 = "''C''"]
  from T Q A U S show ?thesis by blast
qed

subsection \<open>Safety of the confirm handler\<close>

text \<open>
  Claim C10. With a pending answer set, \<open>handleConfirmAnswer\<close> is safe exactly when the
  session has questions and \<open>0 \<le> currentQuestionIndex < length questions\<close>: then the read
  of the current question succeeds and the answer is committed under its id; with an
  empty session or an index out of range the handler has no test of its own and the read
  of \<open>currentQ.id\<close> throws a \<open>TypeError\<close>.
\<close>

theorem handleConfirmAnswer_safe_iff_index_in_range:
  assumes "pendingAnswer s = Some p" and "p \<noteq> []"
  shows "(questions (quizState s) \<noteq> []
            \<and> 0 \<le> currentQuestionIndex (quizState s)
            \<and> currentQuestionIndex (quizState s) < int (length (questions (quizState s)))
          \<longrightarrow> handleConfirmAnswer s =
                Inr (s\<lparr> quizState :=
                          (quizState s)\<lparr> userAnswers :=
                             (userAnswers (quizState s))
                               (id_q (questions (quizState s) ! nat (currentQuestionIndex (quizState s)))
                                  \<mapsto> p) \<rparr>,
                        pendingAnswer := None \<rparr>))
       \<and> (questions (quizState s) = []
            \<or> currentQuestionIndex (quizState s) < 0
            \<or> int (length (questions (quizState s))) \<le> currentQuestionIndex (quizState s)
          \<longrightarrow> handleConfirmAnswer s = Inl (TypeError (nullReadMessage ''undefined'' ''id'')))"
  using assms by (auto simp: handleConfirmAnswer_def arrayAt_def)

theorem handleConfirmAnswer_safe_iff_index_in_range_witness:
  "handleConfirmAnswer (exampleApp\<lparr> pendingAnswer := Some ''D'' \<rparr>)
     = Inr (exampleApp\<lparr> quizState :=
              (quizState exampleApp)\<lparr> userAnswers :=
                 (userAnswers (quizState exampleApp))(''q4'' \<mapsto> ''D'') \<rparr>,
            pendingAnswer := None \<rparr>)
   \<and> handleConfirmAnswer
         (exampleApp\<lparr> quizState := freshQuizState [], pendingAnswer := Some ''D'' \<rparr>)
     = Inl (TypeError (nullReadMessage ''undefined'' ''id''))
   \<and> handleConfirmAnswer
         (exampleApp\<lparr> quizState := (quizState exampleApp)\<lparr> currentQuestionIndex := 5 \<rparr>,
                      pendingAnswer := Some ''D'' \<rparr>)
     = Inl (TypeError (nullReadMessage ''undefined'' ''id''))"
proof -
  have p: "''D'' \<noteq> ([] :: string)" by simp
  have a: "pendingAnswer (exampleApp\<lparr> pendingAnswer := Some ''D'' \<rparr>) = Some ''D''" by simp
  have b: "pendingAnswer (exampleApp\<lparr> quizState := freshQuizState [], pendingAnswer := Some ''D'' \<rparr>)
             = Some ''D''" by simp
  have c: "pendingAnswer (exampleApp\<lparr> quizState := (quizState exampleApp)\<lparr> currentQuestionIndex := 5 \<rparr>,
                      pendingAnswer := Some ''D'' \<rparr>) = Some ''D''" by simp
  have ra: "questions (quizState (exampleApp\<lparr> pendingAnswer := Some ''D'' \<rparr>)) \<noteq> []
     \<and> 0 \<le> currentQuestionIndex (quizState (exampleApp\<lparr> pendingAnswer := Some ''D'' \<rparr>))
     \<and> currentQuestionIndex (quizState (exampleApp\<lparr> pendingAnswer := Some ''D'' \<rparr>))
         < int (length (questions (quizState (exampleApp\<lparr> pendingAnswer := Some ''D'' \<rparr>))))"
    by (simp add: exampleApp_def exampleQuestions_def)
  have ia: "id_q (questions (quizState (exampleApp\<lparr> pendingAnswer := Some ''D'' \<rparr>))
              ! nat (currentQuestionIndex (quizState (exampleApp\<lparr> pendingAnswer := Some ''D'' \<rparr>))))
            = ''q4''"
    by (simp add: exampleApp_def exampleQuestions_def exampleQuestion_def)
  have rb: "questions (quizState (exampleApp\<lparr> quizState := freshQuizState [],
              pendingAnswer := Some ''D'' \<rparr>)) = []"
    by (simp add: freshQuizState_def)
  have rc: "int (length (questions (quizState
               (exampleApp\<lparr> quizState := (quizState exampleApp)\<lparr> currentQuestionIndex := 5 \<rparr>,
                      pendingAnswer := Some ''D'' \<rparr>))))
            \<le> currentQuestionIndex (quizState
               (exampleApp\<lparr> quizState := (quizState exampleApp)\<lparr> currentQuestionIndex := 5 \<rparr>,
                      pendingAnswer := Some ''D'' \<rparr>))"
    by (simp add: exampleApp_def exampleQuestions_def)
  have 1: "handleConfirmAnswer (exampleApp\<lparr> pendingAnswer := Some ''D'' \<rparr>)
     = Inr (exampleApp\<lparr> quizState :=
              (quizState exampleApp)\<lparr> userAnswers :=
                 (userAnswers (quizState exampleApp))(''q4'' \<mapsto> ''D'') \<rparr>,
            pendingAnswer := None \<rparr>)"
    using handleConfirmAnswer_safe_iff_index_in_range [OF a p] ra ia by simp
  have 2: "handleConfirmAnswer
         (exampleApp\<lparr> quizState := freshQuizState [], pendingAnswer := Some ''D'' \<rparr>)
     = Inl (TypeError (nullReadMessage ''undefined'' ''id''))"
    using handleConfirmAnswer_safe_iff_index_in_range [OF b p] rb by blast
  have 3: "handleConfirmAnswer
         (exampleApp\<lparr> quizState := (quizState exampleApp)\<lparr> currentQuestionIndex := 5 \<rparr>,
                      pendingAnswer := Some ''D'' \<rparr>)
     = Inl (TypeError (nullReadMessage ''undefined'' ''id''))"
    using handleConfirmAnswer_safe_iff_index_in_range [OF c p] rc by blast
  from 1 2 3 show ?thesis by blast
qed

subsection \<open>Committed answers are final\<close>

lemma handleConfirmAnswer_cases:
  assumes "handleConfirmAnswer s = Inr s'"
  shows "s' = s \<or>
    (\<exists>p q. pendingAnswer s = Some p \<and> p \<noteq> [] \<and> currentQuestion s = Some q
        \<and> s' = s\<lparr> quizState := (quizState s)\<lparr> userAnswers :=
                        (userAnswers (quizState s))(id_q q \<mapsto> p) \<rparr>,
                    pendingAnswer := None \<rparr>)"
proof (cases "pendingAnswer s")
  case None
  with assms show ?thesis by (simp add: handleConfirmAnswer_def)
next
  case (Some p)
  show ?thesis
  proof (cases "p = []")
    case True
    with Some assms show ?thesis by (simp add: handleConfirmAnswer_def)
  next
    case False
    show ?thesis
    proof (cases "currentQuestion s")
      case None
      with Some False assms show ?thesis
        by (simp add: handleConfirmAnswer_def currentQuestion_def)
    next
      case (Some q)
      with \<open>pendingAnswer s = Some p\<close> False assms show ?thesis
        by (simp add: handleConfirmAnswer_def currentQuestion_def)
    qed
  qed
qed

lemma unanswered_commit_cases:
  assumes h: "handleConfirmAnswer s = Inr s'" and n: "\<not> hasAnsweredCurrent s"
  shows "s' = s \<or>
    (\<exists>p q. pendingAnswer s = Some p \<and> p \<noteq> [] \<and> currentQuestion s = Some q
        \<and> \<not> truthyStr (userAnswers (quizState s) (id_q q))
        \<and> s' = s\<lparr> quizState := (quizState s)\<lparr> userAnswers :=
                        (userAnswers (quizState s))(id_q q \<mapsto> p) \<rparr>,
                    pendingAnswer := None \<rparr>)"
proof -
  from handleConfirmAnswer_cases [OF h] show ?thesis
  proof
    assume "s' = s" then show ?thesis by simp
  next
    assume "\<exists>p q. pendingAnswer s = Some p \<and> p \<noteq> [] \<and> currentQuestion s = Some q
        \<and> s' = s\<lparr> quizState := (quizState s)\<lparr> userAnswers :=
                        (userAnswers (quizState s))(id_q q \<mapsto> p) \<rparr>,
                    pendingAnswer := None \<rparr>"
    then obtain p q where a: "pendingAnswer s = Some p \<and> p \<noteq> [] \<and> currentQuestion s = Some q
        \<and> s' = s\<lparr> quizState := (quizState s)\<lparr> userAnswers :=
                        (userAnswers (quizState s))(id_q q \<mapsto> p) \<rparr>,
                    pendingAnswer := None \<rparr>" by (elim exE)
    from a have c: "currentQuestion s = Some q" by (elim conjE)
    from n c have "\<not> truthyStr (userAnswers (quizState s) (id_q q))"
      by (simp add: hasAnsweredCurrent_def)
    with a have "pendingAnswer s = Some p \<and> p \<noteq> [] \<and> currentQuestion s = Some q
        \<and> \<not> truthyStr (userAnswers (quizState s) (id_q q))
        \<and> s' = s\<lparr> quizState := (quizState s)\<lparr> userAnswers :=
                        (userAnswers (quizState s))(id_q q \<mapsto> p) \<rparr>,
                    pendingAnswer := None \<rparr>" by (elim conjE, intro conjI)
    then show ?thesis by (intro disjI2 exI)
  qed
qed

lemma confirmAnswer_A_cases:
  assumes "confirmAnswer_A s = Inr s'"
  shows "s' = s \<or>
    (\<exists>p q. pendingAnswer s = Some p \<and> p \<noteq> [] \<and> currentQuestion s = Some q
        \<and> \<not> truthyStr (userAnswers (quizState s) (id_q q))
        \<and> s' = s\<lparr> quizState := (quizState s)\<lparr> userAnswers :=
                        (userAnswers (quizState s))(id_q q \<mapsto> p) \<rparr>,
                    pendingAnswer := None \<rparr>)"
proof (cases "confirmButtonShown_A s")
  case False
  with assms show ?thesis by (simp add: confirmAnswer_A_def)
next
  case True
  with assms have h: "handleConfirmAnswer s = Inr s'" by (simp add: confirmAnswer_A_def)
  from True have n: "\<not> hasAnsweredCurrent s" by (simp add: confirmButtonShown_A_def)
  from unanswered_commit_cases [OF h n] show ?thesis .
qed

lemma confirmAnswer_B_cases:
  assumes "confirmAnswer_B s = Inr s'"
  shows "s' = s \<or>
    (\<exists>p q. pendingAnswer s = Some p \<and> p \<noteq> [] \<and> currentQuestion s = Some q
        \<and> \<not> truthyStr (userAnswers (quizState s) (id_q q))
        \<and> s' = s\<lparr> quizState := (quizState s)\<lparr> userAnswers :=
                        (userAnswers (quizState s))(id_q q \<mapsto> p) \<rparr>,
                    pendingAnswer := None \<rparr>)"
proof (cases "confirmButtonShown_B s")
  case False
  with assms show ?thesis by (simp add: confirmAnswer_B_def)
next
  case True
  with assms have h: "handleConfirmAnswer s = Inr s'" by (simp add: confirmAnswer_B_def)
  from True have n: "\<not> hasAnsweredCurrent s" by (simp add: confirmButtonShown_B_def)
  from unanswered_commit_cases [OF h n] show ?thesis .
qed

lemma commit_keeps:
  assumes "s' = s \<or>
    (\<exists>p q. pendingAnswer s = Some p \<and> p \<noteq> [] \<and> currentQuestion s = Some q
        \<and> \<not> truthyStr (userAnswers (quizState s) (id_q q))
        \<and> s' = s\<lparr> quizState := (quizState s)\<lparr> userAnswers :=
                        (userAnswers (quizState s))(id_q q \<mapsto> p) \<rparr>,
                    pendingAnswer := None \<rparr>)"
    and "\<forall>k v. userAnswers (quizState s) k = Some v \<longrightarrow> v \<noteq> []"
  shows "(userAnswers (quizState s) k = Some v \<longrightarrow> userAnswers (quizState s') k = Some v)
       \<and> (\<forall>k v. userAnswers (quizState s') k = Some v \<longrightarrow> v \<noteq> [])"
proof -
  from assms(1)
  show ?thesis
  proof
    assume "s' = s"
    then show ?thesis using assms(2) by blast
  next
    assume "\<exists>p q. pendingAnswer s = Some p \<and> p \<noteq> [] \<and> currentQuestion s = Some q
        \<and> \<not> truthyStr (userAnswers (quizState s) (id_q q))
        \<and> s' = s\<lparr> quizState := (quizState s)\<lparr> userAnswers :=
                        (userAnswers (quizState s))(id_q q \<mapsto> p) \<rparr>,
                    pendingAnswer := None \<rparr>"
    then obtain p q where full: "pendingAnswer s = Some p \<and> p \<noteq> [] \<and> currentQuestion s = Some q
        \<and> \<not> truthyStr (userAnswers (quizState s) (id_q q))
        \<and> s' = s\<lparr> quizState := (quizState s)\<lparr> userAnswers :=
                        (userAnswers (quizState s))(id_q q \<mapsto> p) \<rparr>,
                    pendingAnswer := None \<rparr>"
      by (elim exE)
    from full have p: "p \<noteq> []" by (elim conjE)
    from full have n: "\<not> truthyStr (userAnswers (quizState s) (id_q q))" by (elim conjE)
    from full have s': "s' = s\<lparr> quizState := (quizState s)\<lparr> userAnswers :=
                        (userAnswers (quizState s))(id_q q \<mapsto> p) \<rparr>,
                    pendingAnswer := None \<rparr>" by (elim conjE)
    have none: "userAnswers (quizState s) (id_q q) = None"
    proof (cases "userAnswers (quizState s) (id_q q)")
      case None
      then show ?thesis .
    next
      case (Some w)
      with assms(2) have "w \<noteq> []" by blast
      with Some n show ?thesis by simp
    qed
    have ua: "userAnswers (quizState s') = (userAnswers (quizState s))(id_q q \<mapsto> p)"
      by (simp add: s')
    have 1: "userAnswers (quizState s) k = Some v \<longrightarrow> userAnswers (quizState s') k = Some v"
    proof
      assume h: "userAnswers (quizState s) k = Some v"
      with none have "k \<noteq> id_q q" by auto
      with h show "userAnswers (quizState s') k = Some v" by (simp add: ua)
    qed
    have 2: "\<forall>k v. userAnswers (quizState s') k = Some v \<longrightarrow> v \<noteq> []"
    proof (intro allI impI)
      fix k' v'
      assume h: "userAnswers (quizState s') k' = Some v'"
      show "v' \<noteq> []"
      proof (cases "k' = id_q q")
        case True
        with h have "v' = p" by (simp add: ua)
        with p show ?thesis by simp
      next
        case False
        with h have "userAnswers (quizState s) k' = Some v'" by (simp add: ua)
        with assms(2) show ?thesis by blast
      qed
    qed
    from 1 2 show ?thesis by blast
  qed
qed

lemma commit_other_fields:
  assumes "s' = s \<or>
    (\<exists>p q. pendingAnswer s = Some p \<and> p \<noteq> [] \<and> currentQuestion s = Some q
        \<and> \<not> truthyStr (userAnswers (quizState s) (id_q q))
        \<and> s' = s\<lparr> quizState := (quizState s)\<lparr> userAnswers :=
                        (userAnswers (quizState s))(id_q q \<mapsto> p) \<rparr>,
                    pendingAnswer := None \<rparr>)"
  shows "attempts s' = attempts s" and "questions_App s' = questions_App s"
proof -
  from assms have "attempts s' = attempts s \<and> questions_App s' = questions_App s"
  proof
    assume "s' = s"
    then show ?thesis by simp
  next
    assume "\<exists>p q. pendingAnswer s = Some p \<and> p \<noteq> [] \<and> currentQuestion s = Some q
        \<and> \<not> truthyStr (userAnswers (quizState s) (id_q q))
        \<and> s' = s\<lparr> quizState := (quizState s)\<lparr> userAnswers :=
                        (userAnswers (quizState s))(id_q q \<mapsto> p) \<rparr>,
                    pendingAnswer := None \<rparr>"
    then obtain p q where full: "pendingAnswer s = Some p \<and> p \<noteq> [] \<and> currentQuestion s = Some q
        \<and> \<not> truthyStr (userAnswers (quizState s) (id_q q))
        \<and> s' = s\<lparr> quizState := (quizState s)\<lparr> userAnswers :=
                        (userAnswers (quizState s))(id_q q \<mapsto> p) \<rparr>,
                    pendingAnswer := None \<rparr>"
      by (elim exE)
    from full have "s' = s\<lparr> quizState := (quizState s)\<lparr> userAnswers :=
                        (userAnswers (quizState s))(id_q q \<mapsto> p) \<rparr>,
                    pendingAnswer := None \<rparr>" by (elim conjE)
    then show ?thesis by simp
  qed
  then show "attempts s' = attempts s" and "questions_App s' = questions_App s"
    by simp_all
qed

lemma answers_selectOption: "userAnswers (quizState (selectOption opt s)) = userAnswers (quizState s)"
  by (simp add: selectOption_def)

lemma answers_finishQuiz: "userAnswers (quizState (finishQuiz now1 now2 s)) = userAnswers (quizState s)"
  by (simp add: finishQuiz_def Let_def)

lemma answers_goToNext: "userAnswers (quizState (goToNext now1 now2 s)) = userAnswers (quizState s)"
  by (simp add: goToNext_def answers_finishQuiz)

lemma answers_goToPrev_A: "userAnswers (quizState (goToPrev_A s)) = userAnswers (quizState s)"
  by (simp add: goToPrev_A_def)

lemma answers_goToPrev_B: "userAnswers (quizState (goToPrev_B s)) = userAnswers (quizState s)"
  by (simp add: goToPrev_B_def)

lemma answers_jumpToQuestion_A: "userAnswers (quizState (jumpToQuestion_A i s)) = userAnswers (quizState s)"
  by (simp add: jumpToQuestion_A_def)

lemma answers_jumpToQuestion_B: "userAnswers (quizState (jumpToQuestion_B i s)) = userAnswers (quizState s)"
  by (simp add: jumpToQuestion_B_def)

lemma answers_saveEditedQuestion:
  "userAnswers (quizState (saveEditedQuestion i u s)) = userAnswers (quizState s)"
  by (simp add: saveEditedQuestion_def)

lemmas answers_kept = answers_selectOption answers_finishQuiz answers_goToNext answers_goToPrev_A
  answers_goToPrev_B answers_jumpToQuestion_A answers_jumpToQuestion_B answers_saveEditedQuestion

lemma step_A_other:
  assumes "step_A e s = Inr s'" and "\<not> recreatesSession e" and "e \<noteq> ConfirmAnswer"
  shows "userAnswers (quizState s') = userAnswers (quizState s)"
  using assms by (cases e) (auto simp: answers_kept)

lemma step_B_other:
  assumes "step_B e s = Inr s'" and "\<not> recreatesSession e" and "e \<noteq> ConfirmAnswer"
  shows "userAnswers (quizState s') = userAnswers (quizState s)"
  using assms by (cases e) (auto simp: answers_kept)

lemma step_A_keeps:
  assumes "step_A e s = Inr s'" and "\<not> recreatesSession e"
    and "\<forall>k v. userAnswers (quizState s) k = Some v \<longrightarrow> v \<noteq> []"
  shows "(userAnswers (quizState s) k = Some v \<longrightarrow> userAnswers (quizState s') k = Some v)
       \<and> (\<forall>k v. userAnswers (quizState s') k = Some v \<longrightarrow> v \<noteq> [])"
proof (cases "e = ConfirmAnswer")
  case True
  with assms(1) have "confirmAnswer_A s = Inr s'" by simp
  from commit_keeps [OF confirmAnswer_A_cases [OF this] assms(3)] show ?thesis .
next
  case False
  from step_A_other [OF assms(1,2) False] assms(3) show ?thesis by simp
qed

lemma step_B_keeps:
  assumes "step_B e s = Inr s'" and "\<not> recreatesSession e"
    and "\<forall>k v. userAnswers (quizState s) k = Some v \<longrightarrow> v \<noteq> []"
  shows "(userAnswers (quizState s) k = Some v \<longrightarrow> userAnswers (quizState s') k = Some v)
       \<and> (\<forall>k v. userAnswers (quizState s') k = Some v \<longrightarrow> v \<noteq> [])"
proof (cases "e = ConfirmAnswer")
  case True
  with assms(1) have "confirmAnswer_B s = Inr s'" by simp
  from commit_keeps [OF confirmAnswer_B_cases [OF this] assms(3)] show ?thesis .
next
  case False
  from step_B_other [OF assms(1,2) False] assms(3) show ?thesis by simp
qed

lemma run_A_keeps:
  assumes "run_A es s = Inr t" and "list_all (\<lambda>e. \<not> recreatesSession e) es"
    and "\<forall>k v. userAnswers (quizState s) k = Some v \<longrightarrow> v \<noteq> []"
  shows "(userAnswers (quizState s) k = Some v \<longrightarrow> userAnswers (quizState t) k = Some v)
       \<and> (\<forall>k v. userAnswers (quizState t) k = Some v \<longrightarrow> v \<noteq> [])"
  using assms
proof (induction es arbitrary: s)
  case Nil
  then show ?case by simp
next
  case (Cons e es)
  from Cons.prems(1) obtain s' where e: "step_A e s = Inr s'" and r: "run_A es s' = Inr t"
    by (auto split: sum.splits)
  from Cons.prems(2) have ne: "\<not> recreatesSession e" and nes: "list_all (\<lambda>e. \<not> recreatesSession e) es"
    by simp_all
  from step_A_keeps [OF e ne Cons.prems(3)]
  have k: "userAnswers (quizState s) k = Some v \<longrightarrow> userAnswers (quizState s') k = Some v"
    and i: "\<forall>k v. userAnswers (quizState s') k = Some v \<longrightarrow> v \<noteq> []" by blast+
  from Cons.IH [OF r nes i] k show ?case by blast
qed

lemma run_B_keeps:
  assumes "run_B es s = Inr t" and "list_all (\<lambda>e. \<not> recreatesSession e) es"
    and "\<forall>k v. userAnswers (quizState s) k = Some v \<longrightarrow> v \<noteq> []"
  shows "(userAnswers (quizState s) k = Some v \<longrightarrow> userAnswers (quizState t) k = Some v)
       \<and> (\<forall>k v. userAnswers (quizState t) k = Some v \<longrightarrow> v \<noteq> [])"
  using assms
proof (induction es arbitrary: s)
  case Nil
  then show ?case by simp
next
  case (Cons e es)
  from Cons.prems(1) obtain s' where e: "step_B e s = Inr s'" and r: "run_B es s' = Inr t"
    by (auto split: sum.splits)
  from Cons.prems(2) have ne: "\<not> recreatesSession e" and nes: "list_all (\<lambda>e. \<not> recreatesSession e) es"
    by simp_all
  from step_B_keeps [OF e ne Cons.prems(3)]
  have k: "userAnswers (quizState s) k = Some v \<longrightarrow> userAnswers (quizState s') k = Some v"
    and i: "\<forall>k v. userAnswers (quizState s') k = Some v \<longrightarrow> v \<noteq> []" by blast+
  from Cons.IH [OF r nes i] k show ?case by blast
qed

lemma run_A_append: "run_A (es1 @ es2) s = (case run_A es1 s of Inl x \<Rightarrow> Inl x | Inr s' \<Rightarrow> run_A es2 s')"
  by (induction es1 arbitrary: s) (auto split: sum.splits)

lemma run_B_append: "run_B (es1 @ es2) s = (case run_B es1 s of Inl x \<Rightarrow> Inl x | Inr s' \<Rightarrow> run_B es2 s')"
  by (induction es1 arbitrary: s) (auto split: sum.splits)

lemma handleConfirmAnswer_commits:
  assumes "pendingAnswer s = Some p" and "p \<noteq> []" and "currentQuestion s = Some q"
  shows "handleConfirmAnswer s =
            Inr (s\<lparr> quizState := (quizState s)\<lparr> userAnswers :=
                        (userAnswers (quizState s))(id_q q \<mapsto> p) \<rparr>,
                    pendingAnswer := None \<rparr>)"
  using assms by (simp add: handleConfirmAnswer_def currentQuestion_def)

lemma currentQuestion_session_nonempty:
  assumes "currentQuestion s = Some q"
  shows "length (questions (quizState s)) > 0"
  using assms by (auto simp: currentQuestion_def arrayAt_def split: if_splits)

lemma handleConfirmAnswer_nothing_pending:
  "\<not> truthyStr (pendingAnswer s) \<Longrightarrow> handleConfirmAnswer s = Inr s"
  by (cases "pendingAnswer s") (simp_all add: handleConfirmAnswer_def)

text \<open>
  Claim C6. The Confirm control commits \<open>answers[currentQuestion.id] = pendingAnswer\<close> and
  then clears the pending answer, and it does so only when a pending answer is set and
  the current question has no committed answer; in every other case it changes nothing.
  (The test for the pending answer is in \<open>handleConfirmAnswer\<close>, the test for a committed
  answer is the condition under which the control is rendered.) Consequently, in a session
  whose committed answers are non-empty texts, as they are from the creation of the session
  on, an answer that is present after some operations is still there, unchanged, after any
  further operations that do not build a new session; this holds in both variants.
  Where the control is drawn, under these two conditions it does commit: in variant A on
  the quiz screen, in variant B on the quiz screen while the quiz has questions. Where the
  control is not drawn, a click changes nothing: off the quiz screen, without a pending
  answer, on an answered question, and in variant A while the session has no questions,
  in variant B while the quiz has none.
\<close>

theorem confirmAnswer_commits_once:
  "(confirmAnswer_A s = Inr s' \<longrightarrow>
      s' = s \<or>
      (\<exists>p q. pendingAnswer s = Some p \<and> p \<noteq> [] \<and> currentQuestion s = Some q
         \<and> \<not> truthyStr (userAnswers (quizState s) (id_q q))
         \<and> s' = s\<lparr> quizState := (quizState s)\<lparr> userAnswers :=
                         (userAnswers (quizState s))(id_q q \<mapsto> p) \<rparr>,
                     pendingAnswer := None \<rparr>))
   \<and> (confirmAnswer_B s = Inr s' \<longrightarrow>
      s' = s \<or>
      (\<exists>p q. pendingAnswer s = Some p \<and> p \<noteq> [] \<and> currentQuestion s = Some q
         \<and> \<not> truthyStr (userAnswers (quizState s) (id_q q))
         \<and> s' = s\<lparr> quizState := (quizState s)\<lparr> userAnswers :=
                         (userAnswers (quizState s))(id_q q \<mapsto> p) \<rparr>,
                     pendingAnswer := None \<rparr>))
   \<and> ((\<forall>k v. userAnswers (quizState s0) k = Some v \<longrightarrow> v \<noteq> [])
        \<and> list_all (\<lambda>e. \<not> recreatesSession e) (es1 @ es2)
        \<and> run_A es1 s0 = Inr t \<and> run_A (es1 @ es2) s0 = Inr u
        \<and> userAnswers (quizState t) k = Some v
      \<longrightarrow> userAnswers (quizState u) k = Some v)
   \<and> ((\<forall>k v. userAnswers (quizState s0) k = Some v \<longrightarrow> v \<noteq> [])
        \<and> list_all (\<lambda>e. \<not> recreatesSession e) (fs1 @ fs2)
        \<and> run_B fs1 s0 = Inr t \<and> run_B (fs1 @ fs2) s0 = Inr u
        \<and> userAnswers (quizState t) k = Some v
      \<longrightarrow> userAnswers (quizState u) k = Some v)
   \<and> (mode s = QUIZ \<and> pendingAnswer s = Some p \<and> p \<noteq> [] \<and> currentQuestion s = Some q
        \<and> \<not> truthyStr (userAnswers (quizState s) (id_q q))
      \<longrightarrow> confirmAnswer_A s =
            Inr (s\<lparr> quizState := (quizState s)\<lparr> userAnswers :=
                        (userAnswers (quizState s))(id_q q \<mapsto> p) \<rparr>,
                    pendingAnswer := None \<rparr>))
   \<and> (mode s = QUIZ \<and> questions_App s \<noteq> []
        \<and> pendingAnswer s = Some p \<and> p \<noteq> [] \<and> currentQuestion s = Some q
        \<and> \<not> truthyStr (userAnswers (quizState s) (id_q q))
      \<longrightarrow> confirmAnswer_B s =
            Inr (s\<lparr> quizState := (quizState s)\<lparr> userAnswers :=
                        (userAnswers (quizState s))(id_q q \<mapsto> p) \<rparr>,
                    pendingAnswer := None \<rparr>))
   \<and> (mode s \<noteq> QUIZ \<or> questions (quizState s) = [] \<or> \<not> truthyStr (pendingAnswer s)
        \<or> hasAnsweredCurrent s
      \<longrightarrow> confirmAnswer_A s = Inr s)
   \<and> (mode s \<noteq> QUIZ \<or> questions_App s = [] \<or> \<not> truthyStr (pendingAnswer s)
        \<or> hasAnsweredCurrent s
      \<longrightarrow> confirmAnswer_B s = Inr s)"
proof (intro conjI impI)
  assume "confirmAnswer_A s = Inr s'"
  then show "s' = s \<or>
      (\<exists>p q. pendingAnswer s = Some p \<and> p \<noteq> [] \<and> currentQuestion s = Some q
         \<and> \<not> truthyStr (userAnswers (quizState s) (id_q q))
         \<and> s' = s\<lparr> quizState := (quizState s)\<lparr> userAnswers :=
                         (userAnswers (quizState s))(id_q q \<mapsto> p) \<rparr>,
                     pendingAnswer := None \<rparr>)"
    by (rule confirmAnswer_A_cases)
next
  assume "confirmAnswer_B s = Inr s'"
  then show "s' = s \<or>
      (\<exists>p q. pendingAnswer s = Some p \<and> p \<noteq> [] \<and> currentQuestion s = Some q
         \<and> \<not> truthyStr (userAnswers (quizState s) (id_q q))
         \<and> s' = s\<lparr> quizState := (quizState s)\<lparr> userAnswers :=
                         (userAnswers (quizState s))(id_q q \<mapsto> p) \<rparr>,
                     pendingAnswer := None \<rparr>)"
    by (rule confirmAnswer_B_cases)
next
  assume h: "(\<forall>k v. userAnswers (quizState s0) k = Some v \<longrightarrow> v \<noteq> [])
        \<and> list_all (\<lambda>e. \<not> recreatesSession e) (es1 @ es2)
        \<and> run_A es1 s0 = Inr t \<and> run_A (es1 @ es2) s0 = Inr u
        \<and> userAnswers (quizState t) k = Some v"
  from h have i: "\<forall>k v. userAnswers (quizState s0) k = Some v \<longrightarrow> v \<noteq> []" by (elim conjE)
  from h have l1: "list_all (\<lambda>e. \<not> recreatesSession e) es1"
    and l2: "list_all (\<lambda>e. \<not> recreatesSession e) es2" by simp_all
  from h have r1: "run_A es1 s0 = Inr t" by (elim conjE)
  from h have "run_A (es1 @ es2) s0 = Inr u" by (elim conjE)
  with r1 have r2: "run_A es2 t = Inr u" by (simp add: run_A_append)
  from h have a: "userAnswers (quizState t) k = Some v" by (elim conjE)
  note it = run_A_keeps [OF r1 l1 i, THEN conjunct2]
  from run_A_keeps [OF r2 l2 it, THEN conjunct1] a
  show "userAnswers (quizState u) k = Some v" by (rule mp)
next
  assume h: "(\<forall>k v. userAnswers (quizState s0) k = Some v \<longrightarrow> v \<noteq> [])
        \<and> list_all (\<lambda>e. \<not> recreatesSession e) (fs1 @ fs2)
        \<and> run_B fs1 s0 = Inr t \<and> run_B (fs1 @ fs2) s0 = Inr u
        \<and> userAnswers (quizState t) k = Some v"
  from h have i: "\<forall>k v. userAnswers (quizState s0) k = Some v \<longrightarrow> v \<noteq> []" by (elim conjE)
  from h have l1: "list_all (\<lambda>e. \<not> recreatesSession e) fs1"
    and l2: "list_all (\<lambda>e. \<not> recreatesSession e) fs2" by simp_all
  from h have r1: "run_B fs1 s0 = Inr t" by (elim conjE)
  from h have "run_B (fs1 @ fs2) s0 = Inr u" by (elim conjE)
  with r1 have r2: "run_B fs2 t = Inr u" by (simp add: run_B_append)
  from h have a: "userAnswers (quizState t) k = Some v" by (elim conjE)
  note it = run_B_keeps [OF r1 l1 i, THEN conjunct2]
  from run_B_keeps [OF r2 l2 it, THEN conjunct1] a
  show "userAnswers (quizState u) k = Some v" by (rule mp)
next
  assume h: "mode s = QUIZ \<and> pendingAnswer s = Some p \<and> p \<noteq> [] \<and> currentQuestion s = Some q
        \<and> \<not> truthyStr (userAnswers (quizState s) (id_q q))"
  from h have m: "mode s = QUIZ" by (elim conjE)
  from h have pa: "pendingAnswer s = Some p" by (elim conjE)
  from h have pn: "p \<noteq> []" by (elim conjE)
  from h have cq: "currentQuestion s = Some q" by (elim conjE)
  from h have na: "\<not> truthyStr (userAnswers (quizState s) (id_q q))" by (elim conjE)
  note len = currentQuestion_session_nonempty [OF cq]
  from cq na have nh: "\<not> hasAnsweredCurrent s"
    by (simp add: hasAnsweredCurrent_def)
  from m len pa pn nh have shown: "confirmButtonShown_A s"
    by (simp add: confirmButtonShown_A_def)
  from shown handleConfirmAnswer_commits [OF pa pn cq]
  show "confirmAnswer_A s =
            Inr (s\<lparr> quizState := (quizState s)\<lparr> userAnswers :=
                        (userAnswers (quizState s))(id_q q \<mapsto> p) \<rparr>,
                    pendingAnswer := None \<rparr>)"
    by (simp add: confirmAnswer_A_def)
next
  assume h: "mode s = QUIZ \<and> questions_App s \<noteq> []
        \<and> pendingAnswer s = Some p \<and> p \<noteq> [] \<and> currentQuestion s = Some q
        \<and> \<not> truthyStr (userAnswers (quizState s) (id_q q))"
  from h have m: "mode s = QUIZ" by (elim conjE)
  from h have len: "questions_App s \<noteq> []" by (elim conjE)
  from h have pa: "pendingAnswer s = Some p" by (elim conjE)
  from h have pn: "p \<noteq> []" by (elim conjE)
  from h have cq: "currentQuestion s = Some q" by (elim conjE)
  from h have na: "\<not> truthyStr (userAnswers (quizState s) (id_q q))" by (elim conjE)
  from cq na have nh: "\<not> hasAnsweredCurrent s"
    by (simp add: hasAnsweredCurrent_def)
  from m len pa pn nh have shown: "confirmButtonShown_B s"
    by (simp add: confirmButtonShown_B_def)
  from shown handleConfirmAnswer_commits [OF pa pn cq]
  show "confirmAnswer_B s =
            Inr (s\<lparr> quizState := (quizState s)\<lparr> userAnswers :=
                        (userAnswers (quizState s))(id_q q \<mapsto> p) \<rparr>,
                    pendingAnswer := None \<rparr>)"
    by (simp add: confirmAnswer_B_def)
next
  assume h: "mode s \<noteq> QUIZ \<or> questions (quizState s) = [] \<or> \<not> truthyStr (pendingAnswer s)
        \<or> hasAnsweredCurrent s"
  show "confirmAnswer_A s = Inr s"
  proof (cases "confirmButtonShown_A s")
    case False
    then show ?thesis by (simp add: confirmAnswer_A_def)
  next
    case True
    with h have "False" by (auto simp: confirmButtonShown_A_def)
    then show ?thesis ..
  qed
next
  assume h: "mode s \<noteq> QUIZ \<or> questions_App s = [] \<or> \<not> truthyStr (pendingAnswer s)
        \<or> hasAnsweredCurrent s"
  show "confirmAnswer_B s = Inr s"
  proof (cases "confirmButtonShown_B s")
    case False
    then show ?thesis by (simp add: confirmAnswer_B_def)
  next
    case True
    with h have "False" by (auto simp: confirmButtonShown_B_def)
    then show ?thesis ..
  qed
qed

theorem confirmAnswer_commits_once_witness:
  "confirmAnswer_A (exampleApp\<lparr> pendingAnswer := Some ''D'' \<rparr>)
     = Inr (exampleApp\<lparr> quizState := (quizState exampleApp)\<lparr> userAnswers :=
                (userAnswers (quizState exampleApp))(''q4'' \<mapsto> ''D'') \<rparr>,
             pendingAnswer := None \<rparr>)
   \<and> confirmAnswer_B (exampleApp\<lparr> pendingAnswer := Some ''D'' \<rparr>)
     = Inr (exampleApp\<lparr> quizState := (quizState exampleApp)\<lparr> userAnswers :=
                (userAnswers (quizState exampleApp))(''q4'' \<mapsto> ''D'') \<rparr>,
             pendingAnswer := None \<rparr>)
   \<and> confirmAnswer_A (exampleApp\<lparr> quizState := freshQuizState [], pendingAnswer := Some ''D'' \<rparr>)
     = Inr (exampleApp\<lparr> quizState := freshQuizState [], pendingAnswer := Some ''D'' \<rparr>)
   \<and> confirmAnswer_B (exampleApp\<lparr> questions_App := [], pendingAnswer := Some ''D'' \<rparr>)
     = Inr (exampleApp\<lparr> questions_App := [], pendingAnswer := Some ''D'' \<rparr>)
   \<and> (case run_A ([SelectOption ''D'', ConfirmAnswer]
                    @ [JumpToQuestion 0, SelectOption ''B'', ConfirmAnswer]) exampleApp of
          Inl x \<Rightarrow> False
        | Inr u \<Rightarrow> userAnswers (quizState u) ''q4'' = Some ''D'')
   \<and> (case run_B ([SelectOption ''D'', ConfirmAnswer]
                    @ [JumpToQuestion 0, SelectOption ''B'', ConfirmAnswer]) exampleApp of
          Inl x \<Rightarrow> False
        | Inr u \<Rightarrow> userAnswers (quizState u) ''q4'' = Some ''D'')"
proof -
  let ?S = "exampleApp\<lparr> pendingAnswer := Some ''D'' \<rparr>"
  let ?T = "exampleApp\<lparr> quizState := (quizState exampleApp)\<lparr> userAnswers :=
                (userAnswers (quizState exampleApp))(''q4'' \<mapsto> ''D'') \<rparr>,
             pendingAnswer := None \<rparr>"
  let ?U = "?T\<lparr> quizState := (quizState ?T)\<lparr> currentQuestionIndex := 0 \<rparr> \<rparr>"
  let ?EA = "exampleApp\<lparr> quizState := freshQuizState [], pendingAnswer := Some ''D'' \<rparr>"
  let ?EB = "exampleApp\<lparr> questions_App := [], pendingAnswer := Some ''D'' \<rparr>"
  note defs = confirmAnswer_A_def confirmButtonShown_A_def confirmAnswer_B_def
    confirmButtonShown_B_def hasAnsweredCurrent_def
    currentQuestion_def arrayAt_def handleConfirmAnswer_def selectOption_def
    jumpToQuestion_A_def jumpToQuestion_B_def exampleApp_def exampleQuestions_def
    exampleQuestion_def
  have inv: "\<forall>k v. userAnswers (quizState exampleApp) k = Some v \<longrightarrow> v \<noteq> []"
    by (auto simp: exampleApp_def split: if_splits)
  have la: "list_all (\<lambda>e. \<not> recreatesSession e)
             ([SelectOption ''D'', ConfirmAnswer]
              @ [JumpToQuestion 0, SelectOption ''B'', ConfirmAnswer :: filter_A event])"
    by simp
  have lb: "list_all (\<lambda>e. \<not> recreatesSession e)
             ([SelectOption ''D'', ConfirmAnswer]
              @ [JumpToQuestion 0, SelectOption ''B'', ConfirmAnswer :: filter_B event])"
    by simp
  have a1: "run_A [SelectOption ''D'', ConfirmAnswer] exampleApp = Inr ?T"
    by (simp add: defs)
  have a2: "run_A ([SelectOption ''D'', ConfirmAnswer]
                    @ [JumpToQuestion 0, SelectOption ''B'', ConfirmAnswer]) exampleApp = Inr ?U"
    by (simp add: defs)
  have b1: "run_B [SelectOption ''D'', ConfirmAnswer] exampleApp = Inr ?T"
    by (simp add: defs)
  have b2: "run_B ([SelectOption ''D'', ConfirmAnswer]
                    @ [JumpToQuestion 0, SelectOption ''B'', ConfirmAnswer]) exampleApp = Inr ?U"
    by (simp add: defs)
  have t: "userAnswers (quizState ?T) ''q4'' = Some ''D''"
    by simp
  note th = confirmAnswer_commits_once
    [where s = ?S and s' = ?T
       and ?s0.0 = exampleApp and t = ?T and u = ?U and k = "''q4''" and v = "''D''"
       and ?es1.0 = "[SelectOption ''D'', ConfirmAnswer]"
       and ?es2.0 = "[JumpToQuestion 0, SelectOption ''B'', ConfirmAnswer]"
       and ?fs1.0 = "[SelectOption ''D'', ConfirmAnswer]"
       and ?fs2.0 = "[JumpToQuestion 0, SelectOption ''B'', ConfirmAnswer]"
       and p = "''D''" and q = "exampleQuestion ''q4'' ''D'' (9 / 10)"]
  have hc: "mode ?S = QUIZ
        \<and> pendingAnswer ?S = Some ''D''
        \<and> ''D'' \<noteq> []
        \<and> currentQuestion ?S = Some (exampleQuestion ''q4'' ''D'' (9 / 10))
        \<and> \<not> truthyStr (userAnswers (quizState ?S)
                          (id_q (exampleQuestion ''q4'' ''D'' (9 / 10))))"
    by (simp add: defs)
  have hm: "mode ?S = QUIZ" and hq: "questions_App ?S \<noteq> []"
    by (simp_all add: exampleApp_def exampleQuestions_def)
  from hc have hr: "pendingAnswer ?S = Some ''D''
        \<and> ''D'' \<noteq> []
        \<and> currentQuestion ?S = Some (exampleQuestion ''q4'' ''D'' (9 / 10))
        \<and> \<not> truthyStr (userAnswers (quizState ?S)
                          (id_q (exampleQuestion ''q4'' ''D'' (9 / 10))))"
    by (rule conjunct2)
  from conjI [OF hm conjI [OF hq hr]]
  have hd: "mode ?S = QUIZ \<and> questions_App ?S \<noteq> []
        \<and> pendingAnswer ?S = Some ''D''
        \<and> ''D'' \<noteq> []
        \<and> currentQuestion ?S = Some (exampleQuestion ''q4'' ''D'' (9 / 10))
        \<and> \<not> truthyStr (userAnswers (quizState ?S)
                          (id_q (exampleQuestion ''q4'' ''D'' (9 / 10))))"
    .
  from th [THEN conjunct2, THEN conjunct2, THEN conjunct2, THEN conjunct2, THEN conjunct1] hc
  have "confirmAnswer_A ?S
      = Inr (?S\<lparr> quizState := (quizState ?S)
                 \<lparr> userAnswers :=
                     (userAnswers (quizState ?S))
                       (id_q (exampleQuestion ''q4'' ''D'' (9 / 10)) \<mapsto> ''D'') \<rparr>,
               pendingAnswer := None \<rparr>)"
    by (rule mp)
  then have ca: "confirmAnswer_A ?S = Inr ?T"
    by (simp add: exampleQuestion_def)
  from th [THEN conjunct2, THEN conjunct2, THEN conjunct2, THEN conjunct2, THEN conjunct2,
           THEN conjunct1] hd
  have "confirmAnswer_B ?S
      = Inr (?S\<lparr> quizState := (quizState ?S)
                 \<lparr> userAnswers :=
                     (userAnswers (quizState ?S))
                       (id_q (exampleQuestion ''q4'' ''D'' (9 / 10)) \<mapsto> ''D'') \<rparr>,
               pendingAnswer := None \<rparr>)"
    by (rule mp)
  then have cb: "confirmAnswer_B ?S = Inr ?T"
    by (simp add: exampleQuestion_def)
  have ea: "mode ?EA \<noteq> QUIZ \<or> questions (quizState ?EA) = [] \<or> \<not> truthyStr (pendingAnswer ?EA)
        \<or> hasAnsweredCurrent ?EA"
    by (simp add: freshQuizState_def)
  have eb: "mode ?EB \<noteq> QUIZ \<or> questions_App ?EB = [] \<or> \<not> truthyStr (pendingAnswer ?EB)
        \<or> hasAnsweredCurrent ?EB"
    by simp
  from confirmAnswer_commits_once [where s = ?EA, THEN conjunct2, THEN conjunct2, THEN conjunct2,
         THEN conjunct2, THEN conjunct2, THEN conjunct2, THEN conjunct1] ea
  have na: "confirmAnswer_A ?EA = Inr ?EA" by (rule mp)
  from confirmAnswer_commits_once [where s = ?EB, THEN conjunct2, THEN conjunct2, THEN conjunct2,
         THEN conjunct2, THEN conjunct2, THEN conjunct2, THEN conjunct2] eb
  have nb: "confirmAnswer_B ?EB = Inr ?EB" by (rule mp)
  have ha: "(\<forall>k v. userAnswers (quizState exampleApp) k = Some v \<longrightarrow> v \<noteq> [])
        \<and> list_all (\<lambda>e. \<not> recreatesSession e)
             ([SelectOption ''D'', ConfirmAnswer]
              @ [JumpToQuestion 0, SelectOption ''B'', ConfirmAnswer :: filter_A event])
        \<and> run_A [SelectOption ''D'', ConfirmAnswer] exampleApp = Inr ?T
        \<and> run_A ([SelectOption ''D'', ConfirmAnswer]
                    @ [JumpToQuestion 0, SelectOption ''B'', ConfirmAnswer]) exampleApp = Inr ?U
        \<and> userAnswers (quizState ?T) ''q4'' = Some ''D''"
    using inv la a1 a2 t by (intro conjI)
  have hb: "(\<forall>k v. userAnswers (quizState exampleApp) k = Some v \<longrightarrow> v \<noteq> [])
        \<and> list_all (\<lambda>e. \<not> recreatesSession e)
             ([SelectOption ''D'', ConfirmAnswer]
              @ [JumpToQuestion 0, SelectOption ''B'', ConfirmAnswer :: filter_B event])
        \<and> run_B [SelectOption ''D'', ConfirmAnswer] exampleApp = Inr ?T
        \<and> run_B ([SelectOption ''D'', ConfirmAnswer]
                    @ [JumpToQuestion 0, SelectOption ''B'', ConfirmAnswer]) exampleApp = Inr ?U
        \<and> userAnswers (quizState ?T) ''q4'' = Some ''D''"
    using inv lb b1 b2 t by (intro conjI)
  from th [THEN conjunct2, THEN conjunct2, THEN conjunct1] ha
  have ua: "userAnswers (quizState ?U) ''q4'' = Some ''D''" by (rule mp)
  from th [THEN conjunct2, THEN conjunct2, THEN conjunct2, THEN conjunct1] hb
  have ub: "userAnswers (quizState ?U) ''q4'' = Some ''D''" by (rule mp)
  have ra: "(case run_A ([SelectOption ''D'', ConfirmAnswer]
                    @ [JumpToQuestion 0, SelectOption ''B'', ConfirmAnswer]) exampleApp of
          Inl x \<Rightarrow> False
        | Inr u \<Rightarrow> userAnswers (quizState u) ''q4'' = Some ''D'')"
    by (simp only: a2 sum.case ua)
  have rb: "(case run_B ([SelectOption ''D'', ConfirmAnswer]
                    @ [JumpToQuestion 0, SelectOption ''B'', ConfirmAnswer]) exampleApp of
          Inl x \<Rightarrow> False
        | Inr u \<Rightarrow> userAnswers (quizState u) ''q4'' = Some ''D'')"
    by (simp only: a2 b2 sum.case ub)
  from ca cb na nb ra rb show ?thesis by (intro conjI)
qed

subsection \<open>The history of attempts\<close>

lemma attempts_catchUpload: "attempts (catchUpload fb e s) = attempts s"
  by (simp add: catchUpload_def)

lemma attempts_handleFileUpload_B: "attempts (handleFileUpload_B u s) = attempts s"
  by (simp add: handleFileUpload_B_def attempts_catchUpload Let_def split: sum.splits)

lemma attempts_handleFileUpload_A:
  "attempts (handleFileUpload_A u s) = attempts s
   \<or> (attempts (handleFileUpload_A u s) = []
      \<and> quizState (handleFileUpload_A u s) = freshQuizState (questions_App (handleFileUpload_A u s))
      \<and> (\<exists>r. extraction u = Inr r \<and> questions_App (handleFileUpload_A u s) = questions_ER r))"
  by (simp add: handleFileUpload_A_def attempts_catchUpload Let_def split: sum.splits)

lemma attempts_selectOption: "attempts (selectOption opt s) = attempts s"
  by (simp add: selectOption_def)

lemma attempts_finishQuiz: "\<exists>a. attempts (finishQuiz now1 now2 s) = a # attempts s"
  by (simp add: finishQuiz_def Let_def)

lemma attempts_goToNext:
  "attempts (goToNext now1 now2 s) = attempts s
   \<or> (\<exists>a. attempts (goToNext now1 now2 s) = a # attempts s)"
  by (simp add: goToNext_def attempts_finishQuiz)

lemma attempts_goToPrev_A: "attempts (goToPrev_A s) = attempts s"
  by (simp add: goToPrev_A_def)

lemma attempts_goToPrev_B: "attempts (goToPrev_B s) = attempts s"
  by (simp add: goToPrev_B_def)

lemma attempts_jumpToQuestion_A: "attempts (jumpToQuestion_A i s) = attempts s"
  by (simp add: jumpToQuestion_A_def)

lemma attempts_jumpToQuestion_B: "attempts (jumpToQuestion_B i s) = attempts s"
  by (simp add: jumpToQuestion_B_def)

lemma attempts_saveEditedQuestion: "attempts (saveEditedQuestion i u s) = attempts s"
  by (simp add: saveEditedQuestion_def)

lemma attempts_resetQuiz_A: "attempts (resetQuiz_A flt s) = attempts s"
  by (simp add: resetQuiz_A_def Let_def)

lemma attempts_resetQuiz_B: "attempts (resetQuiz_B flt s) = attempts s"
  by (simp add: resetQuiz_B_def Let_def)

lemmas attempts_kept = attempts_selectOption attempts_goToPrev_A attempts_goToPrev_B
  attempts_jumpToQuestion_A attempts_jumpToQuestion_B attempts_saveEditedQuestion
  attempts_resetQuiz_A attempts_resetQuiz_B attempts_handleFileUpload_B

lemma step_A_attempts:
  assumes "step_A e s = Inr s'"
  shows "attempts s' = attempts s
     \<or> (\<exists>a. attempts s' = a # attempts s)
     \<or> (attempts s' = [] \<and> quizState s' = freshQuizState (questions_App s')
        \<and> ((e = ClearAllData True \<and> questions_App s' = [])
           \<or> (\<exists>u r. e = FileUpload u \<and> extraction u = Inr r
                \<and> questions_App s' = questions_ER r)))"
proof (cases e)
  case (FileUpload u)
  with assms have s': "s' = handleFileUpload_A u s" by simp
  from attempts_handleFileUpload_A [of u s] show ?thesis
    unfolding s' FileUpload by blast
next
  case (ClearAllData c)
  with assms show ?thesis by (cases c) (auto simp: clearAllData_A_def)
next
  case ConfirmAnswer
  with assms have "confirmAnswer_A s = Inr s'" by simp
  from commit_other_fields(1) [OF confirmAnswer_A_cases [OF this]] show ?thesis by simp
next
  case (GoToNext n1 n2)
  with assms have s': "s' = goToNext n1 n2 s" by simp
  from attempts_goToNext [of n1 n2 s] show ?thesis unfolding s' by blast
next
  case (FinishQuiz n1 n2)
  with assms have s': "s' = finishQuiz n1 n2 s" by simp
  from attempts_finishQuiz [of n1 n2 s] show ?thesis unfolding s' by blast
qed (use assms in \<open>auto simp: attempts_kept\<close>)

lemma step_B_attempts:
  assumes "step_B e s = Inr s'"
  shows "attempts s' = attempts s
     \<or> (\<exists>a. attempts s' = a # attempts s)
     \<or> (e = ClearAllData True \<and> attempts s' = [] \<and> questions_App s' = []
        \<and> quizState s' = freshQuizState [])"
proof (cases e)
  case (ClearAllData c)
  with assms show ?thesis by (cases c) (auto simp: clearAllData_B_def)
next
  case ConfirmAnswer
  with assms have "confirmAnswer_B s = Inr s'" by simp
  from commit_other_fields(1) [OF confirmAnswer_B_cases [OF this]] show ?thesis by simp
next
  case (GoToNext n1 n2)
  with assms have s': "s' = goToNext n1 n2 s" by simp
  from attempts_goToNext [of n1 n2 s] show ?thesis unfolding s' by blast
next
  case (FinishQuiz n1 n2)
  with assms have s': "s' = finishQuiz n1 n2 s" by simp
  from attempts_finishQuiz [of n1 n2 s] show ?thesis unfolding s' by blast
qed (use assms in \<open>auto simp: attempts_kept\<close>)

text \<open>
  Claim C8, as the code has it. No operation changes or removes a single attempt: after
  every operation the history is the one before, or the one before with one new attempt
  in front, or empty. In variant B it becomes empty only through the confirmed reset of
  all data, which empties the quiz and the session with it. In variant A it also becomes
  empty through a successful upload, which replaces the quiz and the session at the same
  time (\<open>handleFileUpload\<close> calls \<open>setAttempts([])\<close>); an upload that fails leaves the history
  as it was.
\<close>

theorem attempts_kept_prepended_or_reset:
  "(step_A e s = Inr s' \<longrightarrow>
      attempts s' = attempts s
      \<or> (\<exists>a. attempts s' = a # attempts s)
      \<or> (attempts s' = [] \<and> quizState s' = freshQuizState (questions_App s')
         \<and> ((e = ClearAllData True \<and> questions_App s' = [])
            \<or> (\<exists>u r. e = FileUpload u \<and> extraction u = Inr r
                 \<and> questions_App s' = questions_ER r))))
   \<and> (step_B f s = Inr s'' \<longrightarrow>
      attempts s'' = attempts s
      \<or> (\<exists>a. attempts s'' = a # attempts s)
      \<or> (f = ClearAllData True \<and> attempts s'' = [] \<and> questions_App s'' = []
         \<and> quizState s'' = freshQuizState []))"
  using step_A_attempts [of e s s'] step_B_attempts [of f s s''] by (intro conjI impI)

text \<open>
  The claim as stated fails in variant A: the upload of a new document empties a history
  that held an attempt.
\<close>

theorem upload_A_empties_history_counterexample:
  "attempts exampleApp = [exampleAttempt]
   \<and> attempts (handleFileUpload_A exampleUpload exampleApp) = []"
  by (simp add: exampleApp_def handleFileUpload_A_def exampleUpload_def Let_def
        matchPageMarker_def startsWith_def isDigit_def trim_def isWhiteSpace_def)

theorem attempts_kept_prepended_or_reset_witness:
  "step_A (FinishQuiz 5 6) exampleApp = Inr (finishQuiz 5 6 exampleApp)
   \<and> step_B (FileUpload exampleUpload) exampleApp
       = Inr (handleFileUpload_B exampleUpload exampleApp)
   \<and> (attempts (finishQuiz 5 6 exampleApp) = attempts exampleApp
      \<or> (\<exists>a. attempts (finishQuiz 5 6 exampleApp) = a # attempts exampleApp)
      \<or> attempts (finishQuiz 5 6 exampleApp) = [])
   \<and> attempts (finishQuiz 5 6 exampleApp) \<noteq> []
   \<and> attempts (handleFileUpload_B exampleUpload exampleApp) = [exampleAttempt]"
proof -
  have a: "step_A (FinishQuiz 5 6) exampleApp = Inr (finishQuiz 5 6 exampleApp)" by simp
  have b: "step_B (FileUpload exampleUpload) exampleApp
       = Inr (handleFileUpload_B exampleUpload exampleApp)" by simp
  note th = attempts_kept_prepended_or_reset
    [where e = "FinishQuiz 5 6" and s = exampleApp and s' = "finishQuiz 5 6 exampleApp"
       and f = "FileUpload exampleUpload"
       and s'' = "handleFileUpload_B exampleUpload exampleApp"]
  from th [THEN conjunct1] a
  have da: "attempts (finishQuiz 5 6 exampleApp) = attempts exampleApp
      \<or> (\<exists>a. attempts (finishQuiz 5 6 exampleApp) = a # attempts exampleApp)
      \<or> (attempts (finishQuiz 5 6 exampleApp) = []
         \<and> quizState (finishQuiz 5 6 exampleApp)
             = freshQuizState (questions_App (finishQuiz 5 6 exampleApp))
         \<and> ((FinishQuiz 5 6 = (ClearAllData True :: filter_A event)
              \<and> questions_App (finishQuiz 5 6 exampleApp) = [])
            \<or> (\<exists>u r. FinishQuiz 5 6 = (FileUpload u :: filter_A event) \<and> extraction u = Inr r
                 \<and> questions_App (finishQuiz 5 6 exampleApp) = questions_ER r)))"
    by (rule mp)
  then have da': "attempts (finishQuiz 5 6 exampleApp) = attempts exampleApp
      \<or> (\<exists>a. attempts (finishQuiz 5 6 exampleApp) = a # attempts exampleApp)
      \<or> attempts (finishQuiz 5 6 exampleApp) = []"
    by blast
  from th [THEN conjunct2] b
  have db: "attempts (handleFileUpload_B exampleUpload exampleApp) = attempts exampleApp
      \<or> (\<exists>a. attempts (handleFileUpload_B exampleUpload exampleApp) = a # attempts exampleApp)
      \<or> (FileUpload exampleUpload = (ClearAllData True :: filter_B event)
         \<and> attempts (handleFileUpload_B exampleUpload exampleApp) = []
         \<and> questions_App (handleFileUpload_B exampleUpload exampleApp) = []
         \<and> quizState (handleFileUpload_B exampleUpload exampleApp) = freshQuizState [])"
    by (rule mp)
  have ne: "attempts (finishQuiz 5 6 exampleApp) \<noteq> []"
    by (simp add: finishQuiz_def Let_def)
  have len: "length (attempts (handleFileUpload_B exampleUpload exampleApp)) = 1"
    by (simp add: attempts_handleFileUpload_B exampleApp_def)
  have ea: "attempts exampleApp = [exampleAttempt]" by (simp add: exampleApp_def)
  from db len have eb: "attempts (handleFileUpload_B exampleUpload exampleApp) = [exampleAttempt]"
    unfolding ea by auto
  from a b da' ne eb show ?thesis by (intro conjI)
qed

subsection \<open>Retake filters\<close>

text \<open>
  Claim C4, as the code has it. \<open>resetQuiz\<close> selects from the master sequence: with no
  filter or the filter \<open>all\<close> the whole sequence, unchanged; with \<open>incorrect\<close> exactly the
  questions that have no committed answer or whose committed answer differs from
  \<open>correctAnswer\<close>; with \<open>low-confidence\<close> (variant A only; the type of variant B has no such
  filter) exactly the questions whose confidence is below 0.8. When the selection is not
  empty, a new session over it is started. When it is empty no session is started and
  the quiz, the session, the pending answer and the screen stay as they are; variant A
  then reports the condition in the error banner, variant B changes nothing at all and
  reports nothing.
\<close>

theorem resetQuiz_selects_or_keeps_session:
  "resetQuiz_A flt s =
     (let selection =
            (case flt of
               None \<Rightarrow> questions_App s
             | Some FilterAll \<Rightarrow> questions_App s
             | Some FilterIncorrect \<Rightarrow>
                 filter (\<lambda>q. case userAnswers (quizState s) (id_q q) of
                               None \<Rightarrow> True
                             | Some a \<Rightarrow> a \<noteq> correctAnswer q)
                   (questions_App s)
             | Some FilterLowConfidence \<Rightarrow>
                 filter (\<lambda>q. confidence q < 8 / 10) (questions_App s))
      in if selection = []
         then s\<lparr> error := Some ''No questions match the filter.'' \<rparr>
         else s\<lparr> quizState :=
                   \<lparr> questions = selection, currentQuestionIndex = 0, userAnswers = Map.empty,
                     isFinished = False, isReviewMode = False, quizName = None \<rparr>,
                 pendingAnswer := None, mode := QUIZ \<rparr>)
   \<and> resetQuiz_B flt' s =
     (let selection =
            (case flt' of
               None \<Rightarrow> questions_App s
             | Some FilterAll_B \<Rightarrow> questions_App s
             | Some FilterIncorrect_B \<Rightarrow>
                 filter (\<lambda>q. case userAnswers (quizState s) (id_q q) of
                               None \<Rightarrow> True
                             | Some a \<Rightarrow> a \<noteq> correctAnswer q)
                   (questions_App s))
      in if selection = []
         then s
         else s\<lparr> quizState :=
                   \<lparr> questions = selection, currentQuestionIndex = 0, userAnswers = Map.empty,
                     isFinished = False, isReviewMode = False, quizName = None \<rparr>,
                 pendingAnswer := None, mode := QUIZ \<rparr>)"
proof -
  have eq: "(\<lambda>q. userAnswers (quizState s) (id_q q) \<noteq> Some (correctAnswer q))
          = (\<lambda>q. case userAnswers (quizState s) (id_q q) of
                   None \<Rightarrow> True | Some a \<Rightarrow> a \<noteq> correctAnswer q)"
    by (auto split: option.splits)
  have A: "resetQuiz_A flt s =
     (let selection =
            (case flt of
               None \<Rightarrow> questions_App s
             | Some FilterAll \<Rightarrow> questions_App s
             | Some FilterIncorrect \<Rightarrow>
                 filter (\<lambda>q. case userAnswers (quizState s) (id_q q) of
                               None \<Rightarrow> True
                             | Some a \<Rightarrow> a \<noteq> correctAnswer q)
                   (questions_App s)
             | Some FilterLowConfidence \<Rightarrow>
                 filter (\<lambda>q. confidence q < 8 / 10) (questions_App s))
      in if selection = []
         then s\<lparr> error := Some ''No questions match the filter.'' \<rparr>
         else s\<lparr> quizState :=
                   \<lparr> questions = selection, currentQuestionIndex = 0, userAnswers = Map.empty,
                     isFinished = False, isReviewMode = False, quizName = None \<rparr>,
                 pendingAnswer := None, mode := QUIZ \<rparr>)"
  proof (cases flt)
    case None
    then show ?thesis by (simp add: resetQuiz_A_def freshQuizState_def Let_def)
  next
    case (Some m)
    then show ?thesis
      by (cases m) (simp_all add: resetQuiz_A_def freshQuizState_def Let_def eq)
  qed
  have B: "resetQuiz_B flt' s =
     (let selection =
            (case flt' of
               None \<Rightarrow> questions_App s
             | Some FilterAll_B \<Rightarrow> questions_App s
             | Some FilterIncorrect_B \<Rightarrow>
                 filter (\<lambda>q. case userAnswers (quizState s) (id_q q) of
                               None \<Rightarrow> True
                             | Some a \<Rightarrow> a \<noteq> correctAnswer q)
                   (questions_App s))
      in if selection = []
         then s
         else s\<lparr> quizState :=
                   \<lparr> questions = selection, currentQuestionIndex = 0, userAnswers = Map.empty,
                     isFinished = False, isReviewMode = False, quizName = None \<rparr>,
                 pendingAnswer := None, mode := QUIZ \<rparr>)"
  proof (cases flt')
    case None
    then show ?thesis by (simp add: resetQuiz_B_def freshQuizState_def Let_def)
  next
    case (Some m)
    then show ?thesis
      by (cases m) (simp_all add: resetQuiz_B_def freshQuizState_def Let_def eq)
  qed
  from A B show ?thesis by (rule conjI)
qed

text \<open>
  The claim as stated fails in variant B: when every question was answered correctly the
  retake of the incorrect ones selects nothing, and \<open>resetQuiz\<close> returns with the state,
  the error banner included, exactly as it was.
\<close>

theorem resetQuiz_B_empty_is_silent_counterexample:
  "filter (\<lambda>q. userAnswers (quizState exampleFinishedApp) (id_q q) \<noteq> Some (correctAnswer q))
     (questions_App exampleFinishedApp) = []
   \<and> error exampleFinishedApp = None
   \<and> resetQuiz_B (Some FilterIncorrect_B) exampleFinishedApp = exampleFinishedApp"
  by (simp add: resetQuiz_B_def exampleFinishedApp_def exampleApp_def exampleQuestions_def
        exampleQuestion_def Let_def)

subsection \<open>Failures of the extraction\<close>

lemma extract_A_empty:
  "extractMCQsFromText_A parse now (Inr None) = Inl (Error ''Gemini returned an empty response.'')
   \<and> extractMCQsFromText_A parse now (Inr (Some []))
       = Inl (Error ''Gemini returned an empty response.'')"
  by (simp add: extractMCQsFromText_A_def tryExtract_A_def)

lemma extract_A_malformed:
  assumes "reply \<noteq> []" and "parse (cleanText_A reply) = Inl m"
  shows "extractMCQsFromText_A parse now (Inr (Some reply))
     = Inl (Error (''Failed to parse Gemini response as JSON. ''
                   @ ''The model may have returned invalid data.''))"
  using assms by (simp add: extractMCQsFromText_A_def tryExtract_A_def)

lemma extract_A_schema:
  assumes "reply \<noteq> []" and "parse (cleanText_A reply) = Inr data" and "data \<noteq> JNull"
    and "case getProp data ''questions'' of Some (JArr items) \<Rightarrow> False | _ \<Rightarrow> True"
  shows "extractMCQsFromText_A parse now (Inr (Some reply))
     = Inl (Error ''Gemini response was not in the expected format.'')"
  using assms
  by (cases data)
     (auto simp: extractMCQsFromText_A_def tryExtract_A_def split: option.splits json.splits)

lemma extract_B_single_error:
  assumes "extractMCQsFromText_B parse now backend = Inl e"
  shows "e = Error (''Failed to convert PDF to MCQs. The document might be too large ''
                    @ ''or the text might be unreadable.'')"
  using assms by (simp add: extractMCQsFromText_B_def split: sum.splits)

lemma extract_B_fails:
  "(\<exists>e. extractMCQsFromText_B parse now (Inr None) = Inl e)
   \<and> (\<exists>e. extractMCQsFromText_B parse now (Inr (Some [])) = Inl e)
   \<and> (reply \<noteq> [] \<and> parse (cleanText_B reply) = Inl m
        \<longrightarrow> (\<exists>e. extractMCQsFromText_B parse now (Inr (Some reply)) = Inl e))
   \<and> (reply \<noteq> [] \<and> parse (cleanText_B reply) = Inr data
        \<and> (case getProp data ''questions'' of Some (JArr items) \<Rightarrow> False | _ \<Rightarrow> True)
        \<longrightarrow> (\<exists>e. extractMCQsFromText_B parse now (Inr (Some reply)) = Inl e))"
  by (cases data)
     (auto simp: extractMCQsFromText_B_def tryExtract_B_def split: option.splits json.splits)

lemma catchUpload_keeps:
  "questions_App (catchUpload fb e s) = questions_App s
   \<and> quizName_App (catchUpload fb e s) = quizName_App s
   \<and> quizState (catchUpload fb e s) = quizState s
   \<and> attempts (catchUpload fb e s) = attempts s
   \<and> mode (catchUpload fb e s) = UPLOAD
   \<and> (fb \<noteq> [] \<longrightarrow> (\<exists>m. error (catchUpload fb e s) = Some m \<and> m \<noteq> []))"
  by (simp add: catchUpload_def)

lemma upload_A_failure:
  assumes "fileType u = Some ''application/pdf''"
    and "case extraction u of Inl e \<Rightarrow> True | Inr r \<Rightarrow> questions_ER r = []"
  shows "questions_App (handleFileUpload_A u s) = questions_App s
   \<and> quizName_App (handleFileUpload_A u s) = quizName_App s
   \<and> quizState (handleFileUpload_A u s) = quizState s
   \<and> attempts (handleFileUpload_A u s) = attempts s
   \<and> mode (handleFileUpload_A u s) = UPLOAD
   \<and> (\<exists>m. error (handleFileUpload_A u s) = Some m \<and> m \<noteq> [])"
  using assms
  by (simp add: handleFileUpload_A_def catchUpload_def Let_def split: sum.splits)

lemma upload_B_failure:
  assumes "fileType u = Some ''application/pdf''"
    and "case extraction u of Inl e \<Rightarrow> True | Inr r \<Rightarrow> questions_ER r = []"
  shows "questions_App (handleFileUpload_B u s) = questions_App s
   \<and> quizName_App (handleFileUpload_B u s) = quizName_App s
   \<and> quizState (handleFileUpload_B u s) = quizState s
   \<and> attempts (handleFileUpload_B u s) = attempts s
   \<and> mode (handleFileUpload_B u s) = UPLOAD
   \<and> (\<exists>m. error (handleFileUpload_B u s) = Some m \<and> m \<noteq> [])"
  using assms
  by (simp add: handleFileUpload_B_def catchUpload_def Let_def split: sum.splits)

text \<open>
  Claim C2, as the code has it. When the call to the backend has resolved, the extractor
  of variant A fails with one of three messages that differ from each other: one when
  the reply has no content, one when \<open>JSON.parse\<close> rejects the normalized content, and one
  when the content decodes to a value other than \<open>null\<close> whose \<open>questions\<close> is absent or not
  an array. The extractor of variant B fails in the same three situations, but its
  \<open>catch\<close> replaces whatever was thrown, so every failure carries one and the same message.
  In both variants, an upload whose extraction fails, or yields no question, returns to
  the upload screen with a non-empty message and leaves the quiz, its name, the session
  and the history as they were.
\<close>

theorem extraction_failure_kinds:
  "extractMCQsFromText_A parse now (Inr None) = Inl (Error ''Gemini returned an empty response.'')
   \<and> extractMCQsFromText_A parse now (Inr (Some []))
       = Inl (Error ''Gemini returned an empty response.'')
   \<and> (reply \<noteq> [] \<and> parse (cleanText_A reply) = Inl m
      \<longrightarrow> extractMCQsFromText_A parse now (Inr (Some reply))
          = Inl (Error (''Failed to parse Gemini response as JSON. ''
                        @ ''The model may have returned invalid data.'')))
   \<and> (reply' \<noteq> [] \<and> parse (cleanText_A reply') = Inr data \<and> data \<noteq> JNull
        \<and> (case getProp data ''questions'' of Some (JArr items) \<Rightarrow> False | _ \<Rightarrow> True)
      \<longrightarrow> extractMCQsFromText_A parse now (Inr (Some reply'))
          = Inl (Error ''Gemini response was not in the expected format.''))
   \<and> distinct [''Gemini returned an empty response.'',
                ''Failed to parse Gemini response as JSON. ''
                  @ ''The model may have returned invalid data.'',
                ''Gemini response was not in the expected format.'']
   \<and> (\<exists>e. extractMCQsFromText_B parse now (Inr None) = Inl e)
   \<and> (\<exists>e. extractMCQsFromText_B parse now (Inr (Some [])) = Inl e)
   \<and> (reply \<noteq> [] \<and> parse (cleanText_B reply) = Inl m
      \<longrightarrow> (\<exists>e. extractMCQsFromText_B parse now (Inr (Some reply)) = Inl e))
   \<and> (reply' \<noteq> [] \<and> parse (cleanText_B reply') = Inr data
        \<and> (case getProp data ''questions'' of Some (JArr items) \<Rightarrow> False | _ \<Rightarrow> True)
      \<longrightarrow> (\<exists>e. extractMCQsFromText_B parse now (Inr (Some reply')) = Inl e))
   \<and> (extractMCQsFromText_B parse now backend = Inl e
      \<longrightarrow> e = Error (''Failed to convert PDF to MCQs. The document might be too large ''
                      @ ''or the text might be unreadable.''))
   \<and> (fileType u = Some ''application/pdf''
        \<and> (case extraction u of Inl e \<Rightarrow> True | Inr r \<Rightarrow> questions_ER r = [])
      \<longrightarrow> questions_App (handleFileUpload_A u s) = questions_App s
          \<and> quizName_App (handleFileUpload_A u s) = quizName_App s
          \<and> quizState (handleFileUpload_A u s) = quizState s
          \<and> attempts (handleFileUpload_A u s) = attempts s
          \<and> mode (handleFileUpload_A u s) = UPLOAD
          \<and> (\<exists>m. error (handleFileUpload_A u s) = Some m \<and> m \<noteq> [])
          \<and> questions_App (handleFileUpload_B u s) = questions_App s
          \<and> quizName_App (handleFileUpload_B u s) = quizName_App s
          \<and> quizState (handleFileUpload_B u s) = quizState s
          \<and> attempts (handleFileUpload_B u s) = attempts s
          \<and> mode (handleFileUpload_B u s) = UPLOAD
          \<and> (\<exists>m. error (handleFileUpload_B u s) = Some m \<and> m \<noteq> []))"
proof -
  note e = extract_A_empty [where parse = parse and now = now]
  have m: "reply \<noteq> [] \<and> parse (cleanText_A reply) = Inl m
      \<longrightarrow> extractMCQsFromText_A parse now (Inr (Some reply))
          = Inl (Error (''Failed to parse Gemini response as JSON. ''
                        @ ''The model may have returned invalid data.''))"
  proof
    assume "reply \<noteq> [] \<and> parse (cleanText_A reply) = Inl m"
    then have a: "reply \<noteq> []" and b: "parse (cleanText_A reply) = Inl m" by simp_all
    from extract_A_malformed
           [where parse = parse and now = now and reply = reply and m = m, OF a b]
    show "extractMCQsFromText_A parse now (Inr (Some reply))
          = Inl (Error (''Failed to parse Gemini response as JSON. ''
                        @ ''The model may have returned invalid data.''))" .
  qed
  have sc: "reply' \<noteq> [] \<and> parse (cleanText_A reply') = Inr data \<and> data \<noteq> JNull
        \<and> (case getProp data ''questions'' of Some (JArr items) \<Rightarrow> False | _ \<Rightarrow> True)
      \<longrightarrow> extractMCQsFromText_A parse now (Inr (Some reply'))
          = Inl (Error ''Gemini response was not in the expected format.'')"
  proof
    assume h: "reply' \<noteq> [] \<and> parse (cleanText_A reply') = Inr data \<and> data \<noteq> JNull
        \<and> (case getProp data ''questions'' of Some (JArr items) \<Rightarrow> False | _ \<Rightarrow> True)"
    from h have a: "reply' \<noteq> []" by (elim conjE)
    from h have b: "parse (cleanText_A reply') = Inr data" by (elim conjE)
    from h have c: "data \<noteq> JNull" by (elim conjE)
    from h have d: "case getProp data ''questions'' of Some (JArr items) \<Rightarrow> False | _ \<Rightarrow> True"
      by (elim conjE)
    from extract_A_schema
           [where parse = parse and now = now and reply = reply' and data = data, OF a b c d]
    show "extractMCQsFromText_A parse now (Inr (Some reply'))
          = Inl (Error ''Gemini response was not in the expected format.'')" .
  qed
  have d: "distinct [''Gemini returned an empty response.'',
                ''Failed to parse Gemini response as JSON. ''
                  @ ''The model may have returned invalid data.'',
                ''Gemini response was not in the expected format.'']"
    by simp
  note b1 = extract_B_fails [where parse = parse and now = now and reply = reply and m = m
      and data = data]
  note b2 = extract_B_fails [where parse = parse and now = now and reply = reply' and m = m
      and data = data]
  have b: "extractMCQsFromText_B parse now backend = Inl e
      \<longrightarrow> e = Error (''Failed to convert PDF to MCQs. The document might be too large ''
                      @ ''or the text might be unreadable.'')"
  proof
    assume a: "extractMCQsFromText_B parse now backend = Inl e"
    from extract_B_single_error
           [where parse = parse and now = now and backend = backend and e = e, OF a]
    show "e = Error (''Failed to convert PDF to MCQs. The document might be too large ''
                      @ ''or the text might be unreadable.'')" .
  qed
  have up: "fileType u = Some ''application/pdf''
        \<and> (case extraction u of Inl e \<Rightarrow> True | Inr r \<Rightarrow> questions_ER r = [])
      \<longrightarrow> questions_App (handleFileUpload_A u s) = questions_App s
          \<and> quizName_App (handleFileUpload_A u s) = quizName_App s
          \<and> quizState (handleFileUpload_A u s) = quizState s
          \<and> attempts (handleFileUpload_A u s) = attempts s
          \<and> mode (handleFileUpload_A u s) = UPLOAD
          \<and> (\<exists>m. error (handleFileUpload_A u s) = Some m \<and> m \<noteq> [])
          \<and> questions_App (handleFileUpload_B u s) = questions_App s
          \<and> quizName_App (handleFileUpload_B u s) = quizName_App s
          \<and> quizState (handleFileUpload_B u s) = quizState s
          \<and> attempts (handleFileUpload_B u s) = attempts s
          \<and> mode (handleFileUpload_B u s) = UPLOAD
          \<and> (\<exists>m. error (handleFileUpload_B u s) = Some m \<and> m \<noteq> [])"
  proof
    assume h: "fileType u = Some ''application/pdf''
        \<and> (case extraction u of Inl e \<Rightarrow> True | Inr r \<Rightarrow> questions_ER r = [])"
    from h have h1: "fileType u = Some ''application/pdf''" by (elim conjE)
    from h have h2: "case extraction u of Inl e \<Rightarrow> True | Inr r \<Rightarrow> questions_ER r = []"
      by (elim conjE)
    note A = upload_A_failure [OF h1 h2, of s]
    note B = upload_B_failure [OF h1 h2, of s]
    from A B
    show "questions_App (handleFileUpload_A u s) = questions_App s
          \<and> quizName_App (handleFileUpload_A u s) = quizName_App s
          \<and> quizState (handleFileUpload_A u s) = quizState s
          \<and> attempts (handleFileUpload_A u s) = attempts s
          \<and> mode (handleFileUpload_A u s) = UPLOAD
          \<and> (\<exists>m. error (handleFileUpload_A u s) = Some m \<and> m \<noteq> [])
          \<and> questions_App (handleFileUpload_B u s) = questions_App s
          \<and> quizName_App (handleFileUpload_B u s) = quizName_App s
          \<and> quizState (handleFileUpload_B u s) = quizState s
          \<and> attempts (handleFileUpload_B u s) = attempts s
          \<and> mode (handleFileUpload_B u s) = UPLOAD
          \<and> (\<exists>m. error (handleFileUpload_B u s) = Some m \<and> m \<noteq> [])"
      by (elim conjE, intro conjI)
  qed
  note bb = conjI [OF b1 [THEN conjunct2, THEN conjunct2, THEN conjunct1]
                      b2 [THEN conjunct2, THEN conjunct2, THEN conjunct2]]
  from e [THEN conjunct1] e [THEN conjunct2] m sc d
       b1 [THEN conjunct1] b1 [THEN conjunct2, THEN conjunct1]
       bb [THEN conjunct1] bb [THEN conjunct2] b up
  show ?thesis by (intro conjI)
qed

theorem extraction_failure_kinds_witness:
  "extractMCQsFromText_A exampleParse exampleNow (Inr (Some ''not json''))
     = Inl (Error (''Failed to parse Gemini response as JSON. ''
                   @ ''The model may have returned invalid data.''))
   \<and> extractMCQsFromText_A exampleParse exampleNow (Inr (Some ''{}''))
     = Inl (Error ''Gemini response was not in the expected format.'')
   \<and> extractMCQsFromText_B exampleParse exampleNow (Inr None)
     = Inl (Error (''Failed to convert PDF to MCQs. The document might be too large ''
                   @ ''or the text might be unreadable.''))
   \<and> quizState (handleFileUpload_A
         (exampleUpload\<lparr> extraction :=
            Inl (Error ''Gemini response was not in the expected format.'') \<rparr>) exampleApp)
       = quizState exampleApp
   \<and> mode (handleFileUpload_A
         (exampleUpload\<lparr> extraction :=
            Inl (Error ''Gemini response was not in the expected format.'') \<rparr>) exampleApp)
       = UPLOAD
   \<and> attempts (handleFileUpload_B
         (exampleUpload\<lparr> extraction :=
            Inl (Error ''Gemini response was not in the expected format.'') \<rparr>) exampleApp)
       = attempts exampleApp"
proof -
  let ?u = "exampleUpload\<lparr> extraction :=
              Inl (Error ''Gemini response was not in the expected format.'') \<rparr>"
  let ?e = "Error (''Failed to convert PDF to MCQs. The document might be too large ''
                   @ ''or the text might be unreadable.'')"
  note th = extraction_failure_kinds
    [where parse = exampleParse and now = exampleNow and reply = "''not json''"
       and m = "''Unexpected token''" and reply' = "''{}''" and data = "JObj []"
       and backend = "Inr None" and e = ?e and u = ?u and s = exampleApp]
  have h3: "''not json'' \<noteq> [] \<and> exampleParse (cleanText_A ''not json'') = Inl ''Unexpected token''"
    by (simp add: cleanText_A_def trim_def isWhiteSpace_def startsWith_def fence_def
          exampleParse_def tableParse_def scenarioDocument_def strayDocument_def)
  have h4: "''{}'' \<noteq> [] \<and> exampleParse (cleanText_A ''{}'') = Inr (JObj []) \<and> JObj [] \<noteq> JNull
        \<and> (case getProp (JObj []) ''questions'' of Some (JArr items) \<Rightarrow> False | _ \<Rightarrow> True)"
    by (simp add: cleanText_A_def trim_def isWhiteSpace_def startsWith_def fence_def
          exampleParse_def tableParse_def scenarioDocument_def strayDocument_def)
  have h10: "extractMCQsFromText_B exampleParse exampleNow (Inr None) = Inl ?e"
    by (simp add: extractMCQsFromText_B_def tryExtract_B_def)
  have h11: "fileType ?u = Some ''application/pdf''
        \<and> (case extraction ?u of Inl e \<Rightarrow> True | Inr r \<Rightarrow> questions_ER r = [])"
    by (simp add: exampleUpload_def)
  from th [THEN conjunct2, THEN conjunct2, THEN conjunct1] h3
  have c3: "extractMCQsFromText_A exampleParse exampleNow (Inr (Some ''not json''))
     = Inl (Error (''Failed to parse Gemini response as JSON. ''
                   @ ''The model may have returned invalid data.''))"
    by (rule mp)
  from th [THEN conjunct2, THEN conjunct2, THEN conjunct2, THEN conjunct1] h4
  have c4: "extractMCQsFromText_A exampleParse exampleNow (Inr (Some ''{}''))
     = Inl (Error ''Gemini response was not in the expected format.'')"
    by (rule mp)
  from th [THEN conjunct2, THEN conjunct2, THEN conjunct2, THEN conjunct2, THEN conjunct2,
           THEN conjunct2, THEN conjunct2, THEN conjunct2, THEN conjunct2, THEN conjunct2] h11
  have c11: "questions_App (handleFileUpload_A ?u exampleApp) = questions_App exampleApp
          \<and> quizName_App (handleFileUpload_A ?u exampleApp) = quizName_App exampleApp
          \<and> quizState (handleFileUpload_A ?u exampleApp) = quizState exampleApp
          \<and> attempts (handleFileUpload_A ?u exampleApp) = attempts exampleApp
          \<and> mode (handleFileUpload_A ?u exampleApp) = UPLOAD
          \<and> (\<exists>m. error (handleFileUpload_A ?u exampleApp) = Some m \<and> m \<noteq> [])
          \<and> questions_App (handleFileUpload_B ?u exampleApp) = questions_App exampleApp
          \<and> quizName_App (handleFileUpload_B ?u exampleApp) = quizName_App exampleApp
          \<and> quizState (handleFileUpload_B ?u exampleApp) = quizState exampleApp
          \<and> attempts (handleFileUpload_B ?u exampleApp) = attempts exampleApp
          \<and> mode (handleFileUpload_B ?u exampleApp) = UPLOAD
          \<and> (\<exists>m. error (handleFileUpload_B ?u exampleApp) = Some m \<and> m \<noteq> [])"
    by (rule mp)
  from c11 have q: "quizState (handleFileUpload_A ?u exampleApp) = quizState exampleApp"
    by (elim conjE)
  from c11 have md: "mode (handleFileUpload_A ?u exampleApp) = UPLOAD"
    by (elim conjE)
  from c11 have at: "attempts (handleFileUpload_B ?u exampleApp) = attempts exampleApp"
    by (elim conjE)
  from c3 c4 h10 q md at show ?thesis by (intro conjI)
qed

text \<open>
  The claim as stated fails in variant B: an empty reply, a reply that is not JSON and a
  reply without \<open>questions\<close> end in the same error, so the caller cannot tell the three
  kinds apart.
\<close>

theorem extract_B_kinds_collapse_counterexample:
  "extractMCQsFromText_B exampleParse exampleNow (Inr None)
     = Inl (Error (''Failed to convert PDF to MCQs. The document might be too large ''
                   @ ''or the text might be unreadable.''))
   \<and> extractMCQsFromText_B exampleParse exampleNow (Inr (Some ''not json''))
     = Inl (Error (''Failed to convert PDF to MCQs. The document might be too large ''
                   @ ''or the text might be unreadable.''))
   \<and> extractMCQsFromText_B exampleParse exampleNow (Inr (Some ''{}''))
     = Inl (Error (''Failed to convert PDF to MCQs. The document might be too large ''
                   @ ''or the text might be unreadable.''))"
  by (simp add: extractMCQsFromText_B_def tryExtract_B_def cleanText_B_def trim_def
        isWhiteSpace_def exampleParse_def tableParse_def scenarioDocument_def
        strayDocument_def)

subsection \<open>Normalization of the reply\<close>

lemma trim_core:
  assumes "\<forall>c \<in> set ws1. isWhiteSpace c" and "\<forall>c \<in> set ws2. isWhiteSpace c"
    and "x \<noteq> []" and "\<not> isWhiteSpace (hd x)" and "\<not> isWhiteSpace (last x)"
  shows "trim (ws1 @ x @ ws2) = x"
proof -
  from assms(3,4) have dx: "dropWhile isWhiteSpace (x @ ws2) = x @ ws2"
    by (cases x) simp_all
  have "dropWhile isWhiteSpace (ws1 @ (x @ ws2)) = dropWhile isWhiteSpace (x @ ws2)"
    using assms(1) by (simp add: dropWhile_append)
  with dx have front: "dropWhile isWhiteSpace (ws1 @ x @ ws2) = x @ ws2"
    by simp
  from assms(3,5) have drx: "dropWhile isWhiteSpace (rev x) = rev x"
    by (cases x rule: rev_cases) simp_all
  have "dropWhile isWhiteSpace (rev ws2 @ rev x) = dropWhile isWhiteSpace (rev x)"
    using assms(2) by (simp add: dropWhile_append)
  with drx have rear: "dropWhile isWhiteSpace (rev ws2 @ rev x) = rev x"
    by simp
  show ?thesis by (simp add: trim_def front rear)
qed

lemma backquote_not_space: "\<not> isWhiteSpace (CHR 0x60)"
  by (simp add: isWhiteSpace_def)

lemma trim_blank:
  assumes "\<forall>c \<in> set ws. isWhiteSpace c"
  shows "trim ws = []"
proof -
  from assms have e: "dropWhile isWhiteSpace ws = []" by simp
  show ?thesis unfolding trim_def e by simp
qed

lemma trim_surrounded:
  assumes a: "\<forall>c \<in> set ws1. isWhiteSpace c" and b: "\<forall>c \<in> set ws2. isWhiteSpace c"
    and x: "x = [] \<or> (\<not> isWhiteSpace (hd x) \<and> \<not> isWhiteSpace (last x))"
  shows "trim (ws1 @ x @ ws2) = x"
proof (cases "x = []")
  case True
  from a b have "\<forall>c \<in> set (ws1 @ ws2). isWhiteSpace c" by auto
  from trim_blank [OF this] True show ?thesis by simp
next
  case False
  with x have "\<not> isWhiteSpace (hd x)" and "\<not> isWhiteSpace (last x)" by simp_all
  with a b False show ?thesis by (intro trim_core)
qed

lemma stripLeadingFence_opening:
  assumes w: "w = [] \<or> w = ''json''" and n: "n = [] \<or> n = [CHR 0x0A]"
    and nw: "w = [] \<longrightarrow> take 4 (n @ r) \<noteq> ''json''"
    and nn: "n = [] \<longrightarrow> take 1 r \<noteq> [CHR 0x0A]"
  shows "stripLeadingFence (fence @ w @ n @ r) = r"
proof -
  from w n show ?thesis
  proof (elim disjE)
    assume "w = []" and "n = []"
    with nw nn show ?thesis
      by (simp add: stripLeadingFence_def startsWith_def fence_def eval_nat_numeral)
  next
    assume "w = []" and "n = [CHR 0x0A]"
    then show ?thesis
      by (simp add: stripLeadingFence_def startsWith_def fence_def)
  next
    assume "w = ''json''" and "n = []"
    with nn show ?thesis
      by (simp add: stripLeadingFence_def startsWith_def fence_def eval_nat_numeral)
  next
    assume "w = ''json''" and "n = [CHR 0x0A]"
    then show ?thesis
      by (simp add: stripLeadingFence_def startsWith_def fence_def)
  qed
qed

lemma endsWith_split:
  assumes "endsWith s p"
  shows "\<exists>x. s = x @ p"
proof -
  from assms have "drop (length s - length p) s = p" by (simp add: endsWith_def)
  then have "s = take (length s - length p) s @ p"
    by (metis append_take_drop_id)
  then show ?thesis ..
qed

lemma stripTrailingFence_closing:
  assumes e: "e = [] \<or> e = fence \<or> e = CHR 0x0A # fence"
    and ne: "e = fence \<longrightarrow> d = [] \<or> last d \<noteq> CHR 0x0A"
    and nf: "e = [] \<longrightarrow> (\<forall>x. d \<noteq> x @ fence)"
  shows "stripTrailingFence (d @ e) = d"
proof -
  from e show ?thesis
  proof (elim disjE)
    assume e0: "e = []"
    with nf have no: "\<forall>x. d \<noteq> x @ fence" by simp
    have a: "\<not> endsWith d (CHR 0x0A # fence)"
    proof
      assume "endsWith d (CHR 0x0A # fence)"
      from endsWith_split [OF this] obtain x where "d = x @ CHR 0x0A # fence" ..
      then have "d = (x @ [CHR 0x0A]) @ fence" by simp
      with no show False by blast
    qed
    have b: "\<not> endsWith d fence"
    proof
      assume "endsWith d fence"
      from endsWith_split [OF this] obtain x where "d = x @ fence" ..
      with no show False by blast
    qed
    from a b e0 show ?thesis by (simp add: stripTrailingFence_def)
  next
    assume e1: "e = fence"
    with ne have dl: "d = [] \<or> last d \<noteq> CHR 0x0A" by simp
    have a: "\<not> endsWith (d @ fence) (CHR 0x0A # fence)"
    proof
      assume "endsWith (d @ fence) (CHR 0x0A # fence)"
      from endsWith_split [OF this] obtain x where "d @ fence = x @ CHR 0x0A # fence" ..
      then have "d @ fence = (x @ [CHR 0x0A]) @ fence" by simp
      then have "d = x @ [CHR 0x0A]" by (simp only: append_same_eq)
      with dl show False by simp
    qed
    have b: "endsWith (d @ fence) fence" by (simp add: endsWith_def)
    have c: "take (length (d @ fence) - 3) (d @ fence) = d" by (simp add: fence_def)
    from a b c e1 show ?thesis by (simp only: stripTrailingFence_def if_True if_False)
  next
    assume e2: "e = CHR 0x0A # fence"
    have b: "endsWith (d @ CHR 0x0A # fence) (CHR 0x0A # fence)" by (simp add: endsWith_def)
    have c: "take (length (d @ CHR 0x0A # fence) - 4) (d @ CHR 0x0A # fence) = d"
      by (simp add: fence_def)
    from b c e2 show ?thesis by (simp only: stripTrailingFence_def if_True)
  qed
qed

lemma cleanText_A_reading:
  assumes w: "w = [] \<or> w = ''json''" and n: "n = [] \<or> n = [CHR 0x0A]"
    and e: "e = [] \<or> e = fence \<or> e = CHR 0x0A # fence"
    and nw: "w = [] \<longrightarrow> take 4 (n @ d @ e) \<noteq> ''json''"
    and nn: "n = [] \<longrightarrow> take 1 (d @ e) \<noteq> [CHR 0x0A]"
    and ne: "e = fence \<longrightarrow> d = [] \<or> last d \<noteq> CHR 0x0A"
    and nf: "e = [] \<longrightarrow> (\<forall>x. d \<noteq> x @ fence)"
    and t: "trim t = fence @ w @ n @ d @ e"
  shows "cleanText_A t = d"
proof -
  have s: "startsWith (fence @ w @ n @ d @ e) fence" by (simp add: startsWith_def)
  have l: "stripLeadingFence (fence @ w @ n @ (d @ e)) = d @ e"
    using w n nw nn by (rule stripLeadingFence_opening)
  have r: "stripTrailingFence (d @ e) = d"
    using e ne nf by (rule stripTrailingFence_closing)
  from s l r show ?thesis by (simp add: cleanText_A_def t)
qed

lemma opening_word:
  "\<exists>w r1. r0 = w @ r1 \<and> (w = [] \<or> w = ''json'') \<and> (w = [] \<longrightarrow> take 4 r1 \<noteq> ''json'')"
proof (cases "take 4 r0 = ''json''")
  case True
  then have "r0 = ''json'' @ drop 4 r0" by (metis append_take_drop_id)
  then show ?thesis by blast
next
  case False
  then have "r0 = [] @ r0 \<and> ([] = [] \<or> [] = ''json'') \<and> ([] = ([]::string) \<longrightarrow> take 4 r0 \<noteq> ''json'')"
    by simp
  then show ?thesis by (intro exI)
qed

lemma opening_newline:
  "\<exists>n r2. r1 = n @ r2 \<and> (n = [] \<or> n = [CHR 0x0A]) \<and> (n = [] \<longrightarrow> take 1 r2 \<noteq> [CHR 0x0A])"
proof (cases "take 1 r1 = [CHR 0x0A]")
  case True
  then have "r1 = [CHR 0x0A] @ drop 1 r1" by (metis append_take_drop_id)
  then show ?thesis by blast
next
  case False
  then have "r1 = [] @ r1 \<and> ([] = [] \<or> [] = [CHR 0x0A]) \<and> ([] = ([]::string) \<longrightarrow> take 1 r1 \<noteq> [CHR 0x0A])"
    by simp
  then show ?thesis by (intro exI)
qed

lemma closing_fence:
  "\<exists>d e. r2 = d @ e \<and> (e = [] \<or> e = fence \<or> e = CHR 0x0A # fence)
      \<and> (e = fence \<longrightarrow> d = [] \<or> last d \<noteq> CHR 0x0A)
      \<and> (e = [] \<longrightarrow> (\<forall>x. d \<noteq> x @ fence))"
proof (cases "\<exists>x. r2 = x @ CHR 0x0A # fence")
  case True
  then obtain x where "r2 = x @ CHR 0x0A # fence" ..
  then have "r2 = x @ (CHR 0x0A # fence)
      \<and> (CHR 0x0A # fence = [] \<or> CHR 0x0A # fence = fence \<or> CHR 0x0A # fence = CHR 0x0A # fence)
      \<and> (CHR 0x0A # fence = fence \<longrightarrow> x = [] \<or> last x \<noteq> CHR 0x0A)
      \<and> (CHR 0x0A # fence = [] \<longrightarrow> (\<forall>y. x \<noteq> y @ fence))"
    by (simp add: fence_def)
  then show ?thesis by (intro exI)
next
  case False
  note nolf = this
  show ?thesis
  proof (cases "\<exists>x. r2 = x @ fence")
    case True
    then obtain x where x: "r2 = x @ fence" ..
    have "x = [] \<or> last x \<noteq> CHR 0x0A"
    proof (rule ccontr)
      assume "\<not> (x = [] \<or> last x \<noteq> CHR 0x0A)"
      then have "x \<noteq> []" and "last x = CHR 0x0A" by simp_all
      then have "x = butlast x @ [CHR 0x0A]" by (metis append_butlast_last_id)
      with x have "r2 = butlast x @ CHR 0x0A # fence" by (metis append_Cons append_Nil append_assoc)
      with nolf show False by blast
    qed
    with x have "r2 = x @ fence
      \<and> (fence = [] \<or> fence = fence \<or> fence = CHR 0x0A # fence)
      \<and> (fence = fence \<longrightarrow> x = [] \<or> last x \<noteq> CHR 0x0A)
      \<and> (fence = [] \<longrightarrow> (\<forall>y. x \<noteq> y @ fence))"
      by (simp add: fence_def)
    then show ?thesis by (intro exI)
  next
    case False
    then have "r2 = r2 @ []
      \<and> ([] = [] \<or> [] = fence \<or> [] = CHR 0x0A # fence)
      \<and> ([] = fence \<longrightarrow> r2 = [] \<or> last r2 \<noteq> CHR 0x0A)
      \<and> ([] = ([]::string) \<longrightarrow> (\<forall>y. r2 \<noteq> y @ fence))"
      by (simp add: fence_def)
    then show ?thesis by (intro exI)
  qed
qed

lemma fenced_reading_exists:
  assumes "take 3 c = fence"
  shows "\<exists>w n d e. (w = [] \<or> w = ''json'') \<and> (n = [] \<or> n = [CHR 0x0A])
      \<and> (e = [] \<or> e = fence \<or> e = CHR 0x0A # fence)
      \<and> (w = [] \<longrightarrow> take 4 (n @ d @ e) \<noteq> ''json'')
      \<and> (n = [] \<longrightarrow> take 1 (d @ e) \<noteq> [CHR 0x0A])
      \<and> (e = fence \<longrightarrow> d = [] \<or> last d \<noteq> CHR 0x0A)
      \<and> (e = [] \<longrightarrow> (\<forall>x. d \<noteq> x @ fence))
      \<and> c = fence @ w @ n @ d @ e"
proof -
  from assms have c: "c = fence @ drop 3 c" by (metis append_take_drop_id)
  from opening_word [of "drop 3 c"] obtain w r1 where
    w1: "drop 3 c = w @ r1" and w2: "w = [] \<or> w = ''json''"
    and w3: "w = [] \<longrightarrow> take 4 r1 \<noteq> ''json''" by (elim exE conjE)
  from opening_newline [of r1] obtain n r2 where
    n1: "r1 = n @ r2" and n2: "n = [] \<or> n = [CHR 0x0A]"
    and n3: "n = [] \<longrightarrow> take 1 r2 \<noteq> [CHR 0x0A]" by (elim exE conjE)
  from closing_fence [of r2] obtain d e where
    e1: "r2 = d @ e" and e2: "e = [] \<or> e = fence \<or> e = CHR 0x0A # fence"
    and e3: "e = fence \<longrightarrow> d = [] \<or> last d \<noteq> CHR 0x0A"
    and e4: "e = [] \<longrightarrow> (\<forall>x. d \<noteq> x @ fence)" by (elim exE conjE)
  from w3 n1 e1 have w3': "w = [] \<longrightarrow> take 4 (n @ d @ e) \<noteq> ''json''" by simp
  from n3 e1 have n3': "n = [] \<longrightarrow> take 1 (d @ e) \<noteq> [CHR 0x0A]" by simp
  from c w1 n1 e1 have c': "c = fence @ w @ n @ d @ e" by simp
  from w2 n2 e2 w3' n3' e3 e4 c'
  have "(w = [] \<or> w = ''json'') \<and> (n = [] \<or> n = [CHR 0x0A])
      \<and> (e = [] \<or> e = fence \<or> e = CHR 0x0A # fence)
      \<and> (w = [] \<longrightarrow> take 4 (n @ d @ e) \<noteq> ''json'')
      \<and> (n = [] \<longrightarrow> take 1 (d @ e) \<noteq> [CHR 0x0A])
      \<and> (e = fence \<longrightarrow> d = [] \<or> last d \<noteq> CHR 0x0A)
      \<and> (e = [] \<longrightarrow> (\<forall>x. d \<noteq> x @ fence))
      \<and> c = fence @ w @ n @ d @ e" by (intro conjI)
  then show ?thesis by (intro exI)
qed

lemma extract_A_decoded:
  assumes ne: "reply \<noteq> []" and p: "parse (cleanText_A reply) = Inr data"
    and q: "getProp data ''questions'' = Some (JArr items)"
  shows "extractMCQsFromText_A parse now (Inr (Some reply))
     = Inr (JObj [(''title'',
                   (case getProp data ''title'' of
                      None \<Rightarrow> JStr ''Untitled Quiz''
                    | Some t \<Rightarrow> if truthy t then t else JStr ''Untitled Quiz'')),
                  (''questions'', JArr (assignIds now items))])"
proof -
  from q obtain fs where d: "data = JObj fs" by (cases data) simp_all
  show ?thesis
    using ne p q unfolding d
    by (simp add: extractMCQsFromText_A_def tryExtract_A_def)
qed

lemma extract_B_decoded:
  assumes ne: "reply \<noteq> []" and p: "parse (cleanText_B reply) = Inr data"
    and q: "getProp data ''questions'' = Some (JArr items)"
  shows "extractMCQsFromText_B parse now (Inr (Some reply))
     = Inr (JObj [(''title'',
                   (case getProp data ''title'' of
                      None \<Rightarrow> JStr ''QuizAI Generated Quiz''
                    | Some t \<Rightarrow> if truthy t then t else JStr ''QuizAI Generated Quiz'')),
                  (''questions'', JArr (assignIds now items))])"
proof -
  from q obtain fs where d: "data = JObj fs" by (cases data) simp_all
  show ?thesis
    using ne p q unfolding d
    by (simp add: extractMCQsFromText_B_def tryExtract_B_def)
qed

lemma extract_A_rejected:
  assumes "reply \<noteq> []" and "parse (cleanText_A reply) = Inl m"
  shows "extractMCQsFromText_A parse now (Inr (Some reply))
     = Inl (Error (''Failed to parse Gemini response as JSON. ''
                   @ ''The model may have returned invalid data.''))"
  using assms by (simp add: extractMCQsFromText_A_def tryExtract_A_def)

lemma extract_B_rejected:
  assumes "reply \<noteq> []" and "parse (cleanText_B reply) = Inl m"
  shows "extractMCQsFromText_B parse now (Inr (Some reply))
     = Inl (Error (''Failed to convert PDF to MCQs. The document might be too large ''
                   @ ''or the text might be unreadable.''))"
  using assms by (simp add: extractMCQsFromText_B_def tryExtract_B_def)

lemma strip_fences:
  "stripTrailingFence (stripLeadingFence (fence @ ''json'' @ [CHR 0x0A] @ d @ [CHR 0x0A] @ fence)) = d
   \<and> stripTrailingFence (stripLeadingFence (fence @ [CHR 0x0A] @ d @ [CHR 0x0A] @ fence)) = d"
  by (simp add: stripLeadingFence_def stripTrailingFence_def startsWith_def endsWith_def
        fence_def)

lemma cleanText_A_fenced:
  assumes "\<forall>c \<in> set ws1. isWhiteSpace c" and "\<forall>c \<in> set ws2. isWhiteSpace c"
  shows "cleanText_A (ws1 @ (fence @ ''json'' @ [CHR 0x0A] @ d @ [CHR 0x0A] @ fence) @ ws2) = d"
    and "cleanText_A (ws1 @ (fence @ [CHR 0x0A] @ d @ [CHR 0x0A] @ fence) @ ws2) = d"
proof -
  have 1: "trim (ws1 @ (fence @ ''json'' @ [CHR 0x0A] @ d @ [CHR 0x0A] @ fence) @ ws2)
        = fence @ ''json'' @ [CHR 0x0A] @ d @ [CHR 0x0A] @ fence"
    by (rule trim_core [OF assms]) (simp_all add: fence_def backquote_not_space)
  have 2: "trim (ws1 @ (fence @ [CHR 0x0A] @ d @ [CHR 0x0A] @ fence) @ ws2)
        = fence @ [CHR 0x0A] @ d @ [CHR 0x0A] @ fence"
    by (rule trim_core [OF assms]) (simp_all add: fence_def backquote_not_space)
  have s1: "startsWith (fence @ ''json'' @ [CHR 0x0A] @ d @ [CHR 0x0A] @ fence) fence"
    by (simp add: startsWith_def fence_def)
  have s2: "startsWith (fence @ [CHR 0x0A] @ d @ [CHR 0x0A] @ fence) fence"
    by (simp add: startsWith_def fence_def)
  show "cleanText_A (ws1 @ (fence @ ''json'' @ [CHR 0x0A] @ d @ [CHR 0x0A] @ fence) @ ws2) = d"
    unfolding cleanText_A_def Let_def 1 using s1 strip_fences [of d] by simp
  show "cleanText_A (ws1 @ (fence @ [CHR 0x0A] @ d @ [CHR 0x0A] @ fence) @ ws2) = d"
    unfolding cleanText_A_def Let_def 2 using s2 strip_fences [of d] by simp
qed

lemma scenarioReply_fenced:
  "scenarioReply = [] @ (fence @ ''json'' @ [CHR 0x0A] @ scenarioDocument @ [CHR 0x0A] @ fence) @ []"
  by (simp add: scenarioReply_def scenarioDocument_def fence_def)

lemma cleanText_A_scenario: "cleanText_A scenarioReply = scenarioDocument"
proof -
  have "cleanText_A ([] @ (fence @ ''json'' @ [CHR 0x0A] @ scenarioDocument @ [CHR 0x0A] @ fence) @ [])
      = scenarioDocument"
    by (rule cleanText_A_fenced(1)) simp_all
  then show ?thesis by (simp only: scenarioReply_fenced [symmetric])
qed

lemma show_nat_0: "show_nat 0 = ''0''"
  by (simp add: show_nat.simps digit_char_def)

lemma asExtractionResult_scenario:
  "asExtractionResult
     (JObj [(''title'', JStr ''T''),
            (''questions'', JArr (assignIds now
               [JObj [(''question'', JStr ''Q1''),
                      (''options'', JArr [JStr ''A'', JStr ''B'', JStr ''C'', JStr ''D'']),
                      (''correctAnswer'', JStr ''B''),
                      (''explanation'', JStr ''E''),
                      (''pageNumber'', JNum 1),
                      (''confidence'', JNum (9 / 10))]]))])
   = Some \<lparr> title = ''T'',
            questions_ER =
              [\<lparr> id_q = ''q-0-'' @ show_nat (now 0), question = ''Q1'',
                 options = [''A'', ''B'', ''C'', ''D''], correctAnswer = ''B'',
                 explanation = ''E'', pageNumber = 1, confidence = 9 / 10 \<rparr>] \<rparr>"
  by (simp add: asExtractionResult_def asMCQ_def assignIds_def enumerate_eq_zip spreadWithId_def
        newId_def show_nat_0)

lemma extract_A_scenario:
  assumes "parse scenarioDocument = Inr scenarioValue"
  shows "extractMCQsFromText_A parse now (Inr (Some scenarioReply))
     = Inr (JObj [(''title'', JStr ''T''),
            (''questions'', JArr (assignIds now
               [JObj [(''question'', JStr ''Q1''),
                      (''options'', JArr [JStr ''A'', JStr ''B'', JStr ''C'', JStr ''D'']),
                      (''correctAnswer'', JStr ''B''),
                      (''explanation'', JStr ''E''),
                      (''pageNumber'', JNum 1),
                      (''confidence'', JNum (9 / 10))]]))])"
proof -
  have ne: "scenarioReply \<noteq> []" by (simp add: scenarioReply_def)
  show ?thesis
    using ne assms
    by (simp add: extractMCQsFromText_A_def tryExtract_A_def cleanText_A_scenario
          scenarioValue_def)
qed

lemma cleanText_B_scenario: "cleanText_B scenarioReply = scenarioReply"
  by (simp add: cleanText_B_def scenarioReply_def trim_def isWhiteSpace_def)

lemma extract_B_scenario:
  assumes "parse scenarioReply = Inl m"
  shows "extractMCQsFromText_B parse now (Inr (Some scenarioReply))
     = Inl (Error (''Failed to convert PDF to MCQs. The document might be too large ''
                   @ ''or the text might be unreadable.''))"
proof -
  have ne: "scenarioReply \<noteq> []" by (simp add: scenarioReply_def)
  show ?thesis
    using ne assms
    by (simp add: extractMCQsFromText_B_def tryExtract_B_def cleanText_B_scenario)
qed

text \<open>
  Claim C3, as the code has it. The extractor of variant A trims the reply and, when the
  trimmed text starts with three backquotes, removes them together with the word \<open>json\<close>
  and one line feed where these follow, and removes three backquotes at the end together
  with one line feed before them where there is one: a document wrapped in such a fence,
  with or without the word \<open>json\<close> and with any white space around the fence, is handed
  to the decoder as it is; a reply without a fence is only trimmed. For the reply of the
  scenario the decoder receives the document of the scenario, and when it decodes that
  document the extraction succeeds with the title \<open>T\<close> and exactly one question, whose id
  is newly made from its index and the clock and whose page number is 1. The extractor of
  variant B only trims: it hands the fenced reply of the scenario to the decoder
  unchanged, and when the decoder rejects it the extraction fails.

  In general, a trimmed text that starts with the three backquotes reads in exactly one
  way as the backquotes, the word \<open>json\<close> or nothing (\<open>w\<close>), a line feed or nothing (\<open>n\<close>),
  a body \<open>d\<close>, and a closing \<open>e\<close> that is a line feed with three backquotes, three
  backquotes alone, or nothing, where each optional part is taken whenever it is there;
  the body is what the decoder receives. Trimming removes the white space around a text
  that neither starts nor ends with white space. The outcome of the extraction is the
  decoder's verdict on the text so prepared: the questions of the decoded value with
  their new ids, or the failure of the variant.
\<close>

theorem fence_stripping_and_scenario:
  "((\<forall>c \<in> set ws1. isWhiteSpace c) \<and> (\<forall>c \<in> set ws2. isWhiteSpace c)
      \<longrightarrow> cleanText_A (ws1 @ (fence @ ''json'' @ [CHR 0x0A] @ d @ [CHR 0x0A] @ fence) @ ws2) = d
        \<and> cleanText_A (ws1 @ (fence @ [CHR 0x0A] @ d @ [CHR 0x0A] @ fence) @ ws2) = d)
   \<and> (\<not> startsWith (trim t) fence \<longrightarrow> cleanText_A t = trim t)
   \<and> cleanText_B t = trim t
   \<and> cleanText_A scenarioReply = scenarioDocument
   \<and> cleanText_B scenarioReply = scenarioReply
   \<and> (parse scenarioDocument = Inr scenarioValue
      \<longrightarrow> (\<exists>r. extractMCQsFromText_A parse now (Inr (Some scenarioReply)) = Inr r
             \<and> asExtractionResult r =
                 Some \<lparr> title = ''T'',
                        questions_ER =
                          [\<lparr> id_q = ''q-0-'' @ show_nat (now 0), question = ''Q1'',
                             options = [''A'', ''B'', ''C'', ''D''], correctAnswer = ''B'',
                             explanation = ''E'', pageNumber = 1, confidence = 9 / 10 \<rparr>] \<rparr>))
   \<and> (parse scenarioReply = Inl m
      \<longrightarrow> extractMCQsFromText_B parse now (Inr (Some scenarioReply))
          = Inl (Error (''Failed to convert PDF to MCQs. The document might be too large ''
                        @ ''or the text might be unreadable.'')))
   \<and> ((w = [] \<or> w = ''json'') \<and> (n = [] \<or> n = [CHR 0x0A])
        \<and> (e = [] \<or> e = fence \<or> e = CHR 0x0A # fence)
        \<and> (w = [] \<longrightarrow> take 4 (n @ b @ e) \<noteq> ''json'')
        \<and> (n = [] \<longrightarrow> take 1 (b @ e) \<noteq> [CHR 0x0A])
        \<and> (e = fence \<longrightarrow> b = [] \<or> last b \<noteq> CHR 0x0A)
        \<and> (e = [] \<longrightarrow> (\<forall>x. b \<noteq> x @ fence))
        \<and> trim t = fence @ w @ n @ b @ e
      \<longrightarrow> cleanText_A t = b)
   \<and> (take 3 (trim t) = fence
      \<longrightarrow> (\<exists>w n b e. (w = [] \<or> w = ''json'') \<and> (n = [] \<or> n = [CHR 0x0A])
             \<and> (e = [] \<or> e = fence \<or> e = CHR 0x0A # fence)
             \<and> (w = [] \<longrightarrow> take 4 (n @ b @ e) \<noteq> ''json'')
             \<and> (n = [] \<longrightarrow> take 1 (b @ e) \<noteq> [CHR 0x0A])
             \<and> (e = fence \<longrightarrow> b = [] \<or> last b \<noteq> CHR 0x0A)
             \<and> (e = [] \<longrightarrow> (\<forall>x. b \<noteq> x @ fence))
             \<and> trim t = fence @ w @ n @ b @ e))
   \<and> ((\<forall>c \<in> set ws1. isWhiteSpace c) \<and> (\<forall>c \<in> set ws2. isWhiteSpace c)
        \<and> (x = [] \<or> (\<not> isWhiteSpace (hd x) \<and> \<not> isWhiteSpace (last x)))
      \<longrightarrow> trim (ws1 @ x @ ws2) = x)
   \<and> (reply \<noteq> [] \<and> parse (cleanText_A reply) = Inr data
        \<and> getProp data ''questions'' = Some (JArr items)
      \<longrightarrow> extractMCQsFromText_A parse now (Inr (Some reply))
          = Inr (JObj [(''title'',
                        (case getProp data ''title'' of
                           None \<Rightarrow> JStr ''Untitled Quiz''
                         | Some t \<Rightarrow> if truthy t then t else JStr ''Untitled Quiz'')),
                       (''questions'', JArr (assignIds now items))]))
   \<and> (reply \<noteq> [] \<and> parse (cleanText_A reply) = Inl m
      \<longrightarrow> extractMCQsFromText_A parse now (Inr (Some reply))
          = Inl (Error (''Failed to parse Gemini response as JSON. ''
                        @ ''The model may have returned invalid data.'')))
   \<and> (reply \<noteq> [] \<and> parse (trim reply) = Inr data
        \<and> getProp data ''questions'' = Some (JArr items)
      \<longrightarrow> extractMCQsFromText_B parse now (Inr (Some reply))
          = Inr (JObj [(''title'',
                        (case getProp data ''title'' of
                           None \<Rightarrow> JStr ''QuizAI Generated Quiz''
                         | Some t \<Rightarrow> if truthy t then t else JStr ''QuizAI Generated Quiz'')),
                       (''questions'', JArr (assignIds now items))]))
   \<and> (reply \<noteq> [] \<and> parse (trim reply) = Inl m
      \<longrightarrow> extractMCQsFromText_B parse now (Inr (Some reply))
          = Inl (Error (''Failed to convert PDF to MCQs. The document might be too large ''
                        @ ''or the text might be unreadable.'')))"
proof -
  have 1: "(\<forall>c \<in> set ws1. isWhiteSpace c) \<and> (\<forall>c \<in> set ws2. isWhiteSpace c)
      \<longrightarrow> cleanText_A (ws1 @ (fence @ ''json'' @ [CHR 0x0A] @ d @ [CHR 0x0A] @ fence) @ ws2) = d
        \<and> cleanText_A (ws1 @ (fence @ [CHR 0x0A] @ d @ [CHR 0x0A] @ fence) @ ws2) = d"
  proof
    assume h: "(\<forall>c \<in> set ws1. isWhiteSpace c) \<and> (\<forall>c \<in> set ws2. isWhiteSpace c)"
    from h have a: "\<forall>c \<in> set ws1. isWhiteSpace c" by (elim conjE)
    from h have b: "\<forall>c \<in> set ws2. isWhiteSpace c" by (elim conjE)
    from cleanText_A_fenced(1) [OF a b, of d] cleanText_A_fenced(2) [OF a b, of d]
    show "cleanText_A (ws1 @ (fence @ ''json'' @ [CHR 0x0A] @ d @ [CHR 0x0A] @ fence) @ ws2) = d
        \<and> cleanText_A (ws1 @ (fence @ [CHR 0x0A] @ d @ [CHR 0x0A] @ fence) @ ws2) = d"
      by (rule conjI)
  qed
  have 2: "\<not> startsWith (trim t) fence \<longrightarrow> cleanText_A t = trim t"
    by (simp add: cleanText_A_def Let_def)
  have 3: "cleanText_B t = trim t"
    by (simp add: cleanText_B_def)
  have 6: "parse scenarioDocument = Inr scenarioValue
      \<longrightarrow> (\<exists>r. extractMCQsFromText_A parse now (Inr (Some scenarioReply)) = Inr r
             \<and> asExtractionResult r =
                 Some \<lparr> title = ''T'',
                        questions_ER =
                          [\<lparr> id_q = ''q-0-'' @ show_nat (now 0), question = ''Q1'',
                             options = [''A'', ''B'', ''C'', ''D''], correctAnswer = ''B'',
                             explanation = ''E'', pageNumber = 1, confidence = 9 / 10 \<rparr>] \<rparr>)"
  proof
    assume p: "parse scenarioDocument = Inr scenarioValue"
    note r = extract_A_scenario [where parse = parse and now = now, OF p]
    from r asExtractionResult_scenario [of now]
    show "\<exists>r. extractMCQsFromText_A parse now (Inr (Some scenarioReply)) = Inr r
             \<and> asExtractionResult r =
                 Some \<lparr> title = ''T'',
                        questions_ER =
                          [\<lparr> id_q = ''q-0-'' @ show_nat (now 0), question = ''Q1'',
                             options = [''A'', ''B'', ''C'', ''D''], correctAnswer = ''B'',
                             explanation = ''E'', pageNumber = 1, confidence = 9 / 10 \<rparr>] \<rparr>"
      by (intro exI conjI)
  qed
  have 7: "parse scenarioReply = Inl m
      \<longrightarrow> extractMCQsFromText_B parse now (Inr (Some scenarioReply))
          = Inl (Error (''Failed to convert PDF to MCQs. The document might be too large ''
                        @ ''or the text might be unreadable.''))"
  proof
    assume p: "parse scenarioReply = Inl m"
    from extract_B_scenario [where parse = parse and now = now and m = m, OF p]
    show "extractMCQsFromText_B parse now (Inr (Some scenarioReply))
          = Inl (Error (''Failed to convert PDF to MCQs. The document might be too large ''
                        @ ''or the text might be unreadable.''))" .
  qed
  have 8: "(w = [] \<or> w = ''json'') \<and> (n = [] \<or> n = [CHR 0x0A])
        \<and> (e = [] \<or> e = fence \<or> e = CHR 0x0A # fence)
        \<and> (w = [] \<longrightarrow> take 4 (n @ b @ e) \<noteq> ''json'')
        \<and> (n = [] \<longrightarrow> take 1 (b @ e) \<noteq> [CHR 0x0A])
        \<and> (e = fence \<longrightarrow> b = [] \<or> last b \<noteq> CHR 0x0A)
        \<and> (e = [] \<longrightarrow> (\<forall>x. b \<noteq> x @ fence))
        \<and> trim t = fence @ w @ n @ b @ e
      \<longrightarrow> cleanText_A t = b"
  proof
    assume h: "(w = [] \<or> w = ''json'') \<and> (n = [] \<or> n = [CHR 0x0A])
        \<and> (e = [] \<or> e = fence \<or> e = CHR 0x0A # fence)
        \<and> (w = [] \<longrightarrow> take 4 (n @ b @ e) \<noteq> ''json'')
        \<and> (n = [] \<longrightarrow> take 1 (b @ e) \<noteq> [CHR 0x0A])
        \<and> (e = fence \<longrightarrow> b = [] \<or> last b \<noteq> CHR 0x0A)
        \<and> (e = [] \<longrightarrow> (\<forall>x. b \<noteq> x @ fence))
        \<and> trim t = fence @ w @ n @ b @ e"
    from h have w: "w = [] \<or> w = ''json''" by (elim conjE)
    from h have n: "n = [] \<or> n = [CHR 0x0A]" by (elim conjE)
    from h have e: "e = [] \<or> e = fence \<or> e = CHR 0x0A # fence" by (elim conjE)
    from h have nw: "w = [] \<longrightarrow> take 4 (n @ b @ e) \<noteq> ''json''" by (elim conjE)
    from h have nn: "n = [] \<longrightarrow> take 1 (b @ e) \<noteq> [CHR 0x0A]" by (elim conjE)
    from h have ne: "e = fence \<longrightarrow> b = [] \<or> last b \<noteq> CHR 0x0A" by (elim conjE)
    from h have nf: "e = [] \<longrightarrow> (\<forall>x. b \<noteq> x @ fence)" by (elim conjE)
    from h have tt: "trim t = fence @ w @ n @ b @ e" by (elim conjE)
    from w n e nw nn ne nf tt show "cleanText_A t = b" by (rule cleanText_A_reading)
  qed
  have 9: "take 3 (trim t) = fence
      \<longrightarrow> (\<exists>w n b e. (w = [] \<or> w = ''json'') \<and> (n = [] \<or> n = [CHR 0x0A])
             \<and> (e = [] \<or> e = fence \<or> e = CHR 0x0A # fence)
             \<and> (w = [] \<longrightarrow> take 4 (n @ b @ e) \<noteq> ''json'')
             \<and> (n = [] \<longrightarrow> take 1 (b @ e) \<noteq> [CHR 0x0A])
             \<and> (e = fence \<longrightarrow> b = [] \<or> last b \<noteq> CHR 0x0A)
             \<and> (e = [] \<longrightarrow> (\<forall>x. b \<noteq> x @ fence))
             \<and> trim t = fence @ w @ n @ b @ e)"
    by (rule impI) (rule fenced_reading_exists)
  have 10: "(\<forall>c \<in> set ws1. isWhiteSpace c) \<and> (\<forall>c \<in> set ws2. isWhiteSpace c)
        \<and> (x = [] \<or> (\<not> isWhiteSpace (hd x) \<and> \<not> isWhiteSpace (last x)))
      \<longrightarrow> trim (ws1 @ x @ ws2) = x"
  proof
    assume h: "(\<forall>c \<in> set ws1. isWhiteSpace c) \<and> (\<forall>c \<in> set ws2. isWhiteSpace c)
        \<and> (x = [] \<or> (\<not> isWhiteSpace (hd x) \<and> \<not> isWhiteSpace (last x)))"
    from h have a: "\<forall>c \<in> set ws1. isWhiteSpace c" by (elim conjE)
    from h have b: "\<forall>c \<in> set ws2. isWhiteSpace c" by (elim conjE)
    from h have c: "x = [] \<or> (\<not> isWhiteSpace (hd x) \<and> \<not> isWhiteSpace (last x))"
      by (elim conjE)
    from a b c show "trim (ws1 @ x @ ws2) = x" by (rule trim_surrounded)
  qed
  have 11: "reply \<noteq> [] \<and> parse (cleanText_A reply) = Inr data
        \<and> getProp data ''questions'' = Some (JArr items)
      \<longrightarrow> extractMCQsFromText_A parse now (Inr (Some reply))
          = Inr (JObj [(''title'',
                        (case getProp data ''title'' of
                           None \<Rightarrow> JStr ''Untitled Quiz''
                         | Some t \<Rightarrow> if truthy t then t else JStr ''Untitled Quiz'')),
                       (''questions'', JArr (assignIds now items))])"
  proof
    assume h: "reply \<noteq> [] \<and> parse (cleanText_A reply) = Inr data
        \<and> getProp data ''questions'' = Some (JArr items)"
    from h have a: "reply \<noteq> []" by (elim conjE)
    from h have b: "parse (cleanText_A reply) = Inr data" by (elim conjE)
    from h have c: "getProp data ''questions'' = Some (JArr items)" by (elim conjE)
    from extract_A_decoded [where parse = parse and now = now, OF a b c]
    show "extractMCQsFromText_A parse now (Inr (Some reply))
          = Inr (JObj [(''title'',
                        (case getProp data ''title'' of
                           None \<Rightarrow> JStr ''Untitled Quiz''
                         | Some t \<Rightarrow> if truthy t then t else JStr ''Untitled Quiz'')),
                       (''questions'', JArr (assignIds now items))])" .
  qed
  have 12: "reply \<noteq> [] \<and> parse (cleanText_A reply) = Inl m
      \<longrightarrow> extractMCQsFromText_A parse now (Inr (Some reply))
          = Inl (Error (''Failed to parse Gemini response as JSON. ''
                        @ ''The model may have returned invalid data.''))"
  proof
    assume h: "reply \<noteq> [] \<and> parse (cleanText_A reply) = Inl m"
    from h have a: "reply \<noteq> []" by (elim conjE)
    from h have b: "parse (cleanText_A reply) = Inl m" by (elim conjE)
    from extract_A_rejected [where parse = parse and now = now, OF a b]
    show "extractMCQsFromText_A parse now (Inr (Some reply))
          = Inl (Error (''Failed to parse Gemini response as JSON. ''
                        @ ''The model may have returned invalid data.''))" .
  qed
  have 13: "reply \<noteq> [] \<and> parse (trim reply) = Inr data
        \<and> getProp data ''questions'' = Some (JArr items)
      \<longrightarrow> extractMCQsFromText_B parse now (Inr (Some reply))
          = Inr (JObj [(''title'',
                        (case getProp data ''title'' of
                           None \<Rightarrow> JStr ''QuizAI Generated Quiz''
                         | Some t \<Rightarrow> if truthy t then t else JStr ''QuizAI Generated Quiz'')),
                       (''questions'', JArr (assignIds now items))])"
  proof
    assume h: "reply \<noteq> [] \<and> parse (trim reply) = Inr data
        \<and> getProp data ''questions'' = Some (JArr items)"
    from h have a: "reply \<noteq> []" by (elim conjE)
    from h have "parse (trim reply) = Inr data" by (elim conjE)
    then have b: "parse (cleanText_B reply) = Inr data" by (simp only: cleanText_B_def)
    from h have c: "getProp data ''questions'' = Some (JArr items)" by (elim conjE)
    from extract_B_decoded [where parse = parse and now = now, OF a b c]
    show "extractMCQsFromText_B parse now (Inr (Some reply))
          = Inr (JObj [(''title'',
                        (case getProp data ''title'' of
                           None \<Rightarrow> JStr ''QuizAI Generated Quiz''
                         | Some t \<Rightarrow> if truthy t then t else JStr ''QuizAI Generated Quiz'')),
                       (''questions'', JArr (assignIds now items))])" .
  qed
  have 14: "reply \<noteq> [] \<and> parse (trim reply) = Inl m
      \<longrightarrow> extractMCQsFromText_B parse now (Inr (Some reply))
          = Inl (Error (''Failed to convert PDF to MCQs. The document might be too large ''
                        @ ''or the text might be unreadable.''))"
  proof
    assume h: "reply \<noteq> [] \<and> parse (trim reply) = Inl m"
    from h have a: "reply \<noteq> []" by (elim conjE)
    from h have "parse (trim reply) = Inl m" by (elim conjE)
    then have b: "parse (cleanText_B reply) = Inl m" by (simp only: cleanText_B_def)
    from extract_B_rejected [where parse = parse and now = now, OF a b]
    show "extractMCQsFromText_B parse now (Inr (Some reply))
          = Inl (Error (''Failed to convert PDF to MCQs. The document might be too large ''
                        @ ''or the text might be unreadable.''))" .
  qed
  from 1 2 3 cleanText_A_scenario cleanText_B_scenario 6 7 8 9 10 11 12 13 14
  show ?thesis by (intro conjI)
qed

theorem fence_stripping_and_scenario_witness:
  "cleanText_A ('' '' @ (fence @ ''json'' @ [CHR 0x0A] @ ''{}'' @ [CHR 0x0A] @ fence) @ [CHR 0x0A])
     = ''{}''
   \<and> cleanText_A ''{}'' = trim ''{}''
   \<and> (\<exists>r. extractMCQsFromText_A exampleParse exampleNow (Inr (Some scenarioReply)) = Inr r
        \<and> asExtractionResult r =
            Some \<lparr> title = ''T'',
                   questions_ER =
                     [\<lparr> id_q = ''q-0-1700000000000'', question = ''Q1'',
                        options = [''A'', ''B'', ''C'', ''D''], correctAnswer = ''B'',
                        explanation = ''E'', pageNumber = 1, confidence = 9 / 10 \<rparr>] \<rparr>)
   \<and> extractMCQsFromText_B exampleParse exampleNow (Inr (Some scenarioReply))
       = Inl (Error (''Failed to convert PDF to MCQs. The document might be too large ''
                     @ ''or the text might be unreadable.''))
   \<and> cleanText_A (fence @ ''json{}'' @ fence) = ''{}''
   \<and> cleanText_A (fence @ ''{}'' @ fence) = ''{}''
   \<and> cleanText_A (fence @ ''json'' @ [CHR 0x0A] @ ''{}'' @ fence) = ''{}''
   \<and> cleanText_A ('' '' @ fence @ ''{}'') = ''{}''
   \<and> (\<exists>w n b e. (w = [] \<or> w = ''json'') \<and> (n = [] \<or> n = [CHR 0x0A])
        \<and> (e = [] \<or> e = fence \<or> e = CHR 0x0A # fence)
        \<and> trim (fence @ ''json{}'' @ fence) = fence @ w @ n @ b @ e
        \<and> cleanText_A (fence @ ''json{}'' @ fence) = b)
   \<and> trim ([CHR 0x09, CHR 0x0D, CHR '' ''] @ ''{}'' @ [CHR 0x0A, CHR 0x0B, CHR 0x0C, CHR 0xA0])
       = ''{}''
   \<and> extractMCQsFromText_A exampleParse exampleNow
         (Inr (Some (fence @ ''json'' @ scenarioDocument @ fence)))
       = Inr (JObj [(''title'', JStr ''T''),
                    (''questions'', JArr (assignIds exampleNow
                       [JObj [(''question'', JStr ''Q1''),
                              (''options'', JArr [JStr ''A'', JStr ''B'', JStr ''C'', JStr ''D'']),
                              (''correctAnswer'', JStr ''B''),
                              (''explanation'', JStr ''E''),
                              (''pageNumber'', JNum 1),
                              (''confidence'', JNum (9 / 10))]]))])
   \<and> extractMCQsFromText_A exampleParse exampleNow (Inr (Some (fence @ ''json'')))
       = Inl (Error (''Failed to parse Gemini response as JSON. ''
                     @ ''The model may have returned invalid data.''))
   \<and> extractMCQsFromText_B exampleParse exampleNow
         (Inr (Some ('' '' @ scenarioDocument @ [CHR 0x0A])))
       = Inr (JObj [(''title'', JStr ''T''),
                    (''questions'', JArr (assignIds exampleNow
                       [JObj [(''question'', JStr ''Q1''),
                              (''options'', JArr [JStr ''A'', JStr ''B'', JStr ''C'', JStr ''D'']),
                              (''correctAnswer'', JStr ''B''),
                              (''explanation'', JStr ''E''),
                              (''pageNumber'', JNum 1),
                              (''confidence'', JNum (9 / 10))]]))])"
proof -
  note th = fence_stripping_and_scenario
    [where ?ws1.0 = "'' ''" and ?ws2.0 = "[CHR 0x0A]" and d = "''{}''" and t = "''{}''"
       and parse = exampleParse and now = exampleNow and m = "''Unexpected token''"]
  have h1: "(\<forall>c \<in> set '' ''. isWhiteSpace c) \<and> (\<forall>c \<in> set [CHR 0x0A]. isWhiteSpace c)"
    by (simp add: isWhiteSpace_def)
  have h2: "\<not> startsWith (trim ''{}'') fence"
    by (simp add: trim_def isWhiteSpace_def startsWith_def fence_def)
  have h6: "exampleParse scenarioDocument = Inr scenarioValue"
    by (simp add: exampleParse_def tableParse_def)
  have h7: "exampleParse scenarioReply = Inl ''Unexpected token''"
    by (simp add: exampleParse_def tableParse_def scenarioReply_def scenarioDocument_def
          strayDocument_def)
  have n: "''q-0-'' @ show_nat (exampleNow 0) = ''q-0-1700000000000''"
    by (simp add: exampleNow_def show_nat.simps digit_char_def)
  from th [THEN conjunct1] h1
  have c1: "cleanText_A ('' '' @ (fence @ ''json'' @ [CHR 0x0A] @ ''{}'' @ [CHR 0x0A] @ fence)
                          @ [CHR 0x0A]) = ''{}''
        \<and> cleanText_A ('' '' @ (fence @ [CHR 0x0A] @ ''{}'' @ [CHR 0x0A] @ fence) @ [CHR 0x0A])
           = ''{}''"
    by (rule mp)
  from th [THEN conjunct2, THEN conjunct1] h2
  have c2: "cleanText_A ''{}'' = trim ''{}''" by (rule mp)
  from th [THEN conjunct2, THEN conjunct2, THEN conjunct2, THEN conjunct2, THEN conjunct2,
           THEN conjunct1] h6
  have c6: "\<exists>r. extractMCQsFromText_A exampleParse exampleNow (Inr (Some scenarioReply)) = Inr r
        \<and> asExtractionResult r =
            Some \<lparr> title = ''T'',
                   questions_ER =
                     [\<lparr> id_q = ''q-0-'' @ show_nat (exampleNow 0), question = ''Q1'',
                        options = [''A'', ''B'', ''C'', ''D''], correctAnswer = ''B'',
                        explanation = ''E'', pageNumber = 1, confidence = 9 / 10 \<rparr>] \<rparr>"
    by (rule mp)
  from th [THEN conjunct2, THEN conjunct2, THEN conjunct2, THEN conjunct2, THEN conjunct2,
           THEN conjunct2, THEN conjunct1] h7
  have c7: "extractMCQsFromText_B exampleParse exampleNow (Inr (Some scenarioReply))
       = Inl (Error (''Failed to convert PDF to MCQs. The document might be too large ''
                     @ ''or the text might be unreadable.''))"
    by (rule mp)
  have nofence: "\<forall>x. ''{}'' \<noteq> x @ fence"
  proof
    fix x :: string
    have "length ''{}'' \<noteq> length (x @ fence)" by (simp add: fence_def)
    then show "''{}'' \<noteq> x @ fence" by metis
  qed
  have g1: "(''json'' = [] \<or> ''json'' = ''json'') \<and> (([]::string) = [] \<or> [] = [CHR 0x0A])
        \<and> (fence = [] \<or> fence = fence \<or> fence = CHR 0x0A # fence)
        \<and> (''json'' = [] \<longrightarrow> take 4 ([] @ ''{}'' @ fence) \<noteq> ''json'')
        \<and> (([]::string) = [] \<longrightarrow> take 1 (''{}'' @ fence) \<noteq> [CHR 0x0A])
        \<and> (fence = fence \<longrightarrow> ''{}'' = [] \<or> last ''{}'' \<noteq> CHR 0x0A)
        \<and> (fence = [] \<longrightarrow> (\<forall>x. ''{}'' \<noteq> x @ fence))
        \<and> trim (fence @ ''json{}'' @ fence) = fence @ ''json'' @ [] @ ''{}'' @ fence"
    by (simp add: fence_def trim_def isWhiteSpace_def)
  from fence_stripping_and_scenario
    [where w = "''json''" and n = "[]" and e = fence and b = "''{}''"
                  and t = "fence @ ''json{}'' @ fence",
     THEN conjunct2, THEN conjunct2, THEN conjunct2, THEN conjunct2, THEN conjunct2,
     THEN conjunct2, THEN conjunct2, THEN conjunct1] g1
  have c8: "cleanText_A (fence @ ''json{}'' @ fence) = ''{}''" by (rule mp)
  have g2: "(([]::string) = [] \<or> [] = ''json'') \<and> (([]::string) = [] \<or> [] = [CHR 0x0A])
        \<and> (fence = [] \<or> fence = fence \<or> fence = CHR 0x0A # fence)
        \<and> (([]::string) = [] \<longrightarrow> take 4 ([] @ ''{}'' @ fence) \<noteq> ''json'')
        \<and> (([]::string) = [] \<longrightarrow> take 1 (''{}'' @ fence) \<noteq> [CHR 0x0A])
        \<and> (fence = fence \<longrightarrow> ''{}'' = [] \<or> last ''{}'' \<noteq> CHR 0x0A)
        \<and> (fence = [] \<longrightarrow> (\<forall>x. ''{}'' \<noteq> x @ fence))
        \<and> trim (fence @ ''{}'' @ fence) = fence @ [] @ [] @ ''{}'' @ fence"
    by (simp add: fence_def trim_def isWhiteSpace_def)
  from fence_stripping_and_scenario
    [where w = "[]" and n = "[]" and e = fence and b = "''{}''"
                  and t = "fence @ ''{}'' @ fence",
     THEN conjunct2, THEN conjunct2, THEN conjunct2, THEN conjunct2, THEN conjunct2,
     THEN conjunct2, THEN conjunct2, THEN conjunct1] g2
  have c9: "cleanText_A (fence @ ''{}'' @ fence) = ''{}''" by (rule mp)
  have g3: "(''json'' = [] \<or> ''json'' = ''json'') \<and> ([CHR 0x0A] = [] \<or> [CHR 0x0A] = [CHR 0x0A])
        \<and> (fence = [] \<or> fence = fence \<or> fence = CHR 0x0A # fence)
        \<and> (''json'' = [] \<longrightarrow> take 4 ([CHR 0x0A] @ ''{}'' @ fence) \<noteq> ''json'')
        \<and> ([CHR 0x0A] = [] \<longrightarrow> take 1 (''{}'' @ fence) \<noteq> [CHR 0x0A])
        \<and> (fence = fence \<longrightarrow> ''{}'' = [] \<or> last ''{}'' \<noteq> CHR 0x0A)
        \<and> (fence = [] \<longrightarrow> (\<forall>x. ''{}'' \<noteq> x @ fence))
        \<and> trim (fence @ ''json'' @ [CHR 0x0A] @ ''{}'' @ fence)
            = fence @ ''json'' @ [CHR 0x0A] @ ''{}'' @ fence"
    by (simp add: fence_def trim_def isWhiteSpace_def)
  from fence_stripping_and_scenario
    [where w = "''json''" and n = "[CHR 0x0A]" and e = fence and b = "''{}''"
                  and t = "fence @ ''json'' @ [CHR 0x0A] @ ''{}'' @ fence",
     THEN conjunct2, THEN conjunct2, THEN conjunct2, THEN conjunct2, THEN conjunct2,
     THEN conjunct2, THEN conjunct2, THEN conjunct1] g3
  have c10: "cleanText_A (fence @ ''json'' @ [CHR 0x0A] @ ''{}'' @ fence) = ''{}''" by (rule mp)
  have g4a: "trim ('' '' @ fence @ ''{}'') = fence @ [] @ [] @ ''{}'' @ []"
    by (simp add: fence_def trim_def isWhiteSpace_def)
  have g4b: "take 4 ([] @ ''{}'' @ []) \<noteq> ''json''" and g4c: "take 1 (''{}'' @ []) \<noteq> [CHR 0x0A]"
    by simp_all
  from nofence g4a g4b g4c
  have g4: "(([]::string) = [] \<or> [] = ''json'') \<and> (([]::string) = [] \<or> [] = [CHR 0x0A])
        \<and> (([]::string) = [] \<or> [] = fence \<or> [] = CHR 0x0A # fence)
        \<and> (([]::string) = [] \<longrightarrow> take 4 ([] @ ''{}'' @ []) \<noteq> ''json'')
        \<and> (([]::string) = [] \<longrightarrow> take 1 (''{}'' @ []) \<noteq> [CHR 0x0A])
        \<and> ([] = fence \<longrightarrow> ''{}'' = [] \<or> last ''{}'' \<noteq> CHR 0x0A)
        \<and> (([]::string) = [] \<longrightarrow> (\<forall>x. ''{}'' \<noteq> x @ fence))
        \<and> trim ('' '' @ fence @ ''{}'') = fence @ [] @ [] @ ''{}'' @ []"
    by (simp add: fence_def)
  from fence_stripping_and_scenario
    [where w = "[]" and n = "[]" and e = "[]" and b = "''{}''"
                  and t = "'' '' @ fence @ ''{}''",
     THEN conjunct2, THEN conjunct2, THEN conjunct2, THEN conjunct2, THEN conjunct2,
     THEN conjunct2, THEN conjunct2, THEN conjunct1] g4
  have c11: "cleanText_A ('' '' @ fence @ ''{}'') = ''{}''" by (rule mp)
  have g5: "take 3 (trim (fence @ ''json{}'' @ fence)) = fence"
    by (simp add: fence_def trim_def isWhiteSpace_def)
  from fence_stripping_and_scenario
    [where t = "fence @ ''json{}'' @ fence",
     THEN conjunct2, THEN conjunct2, THEN conjunct2, THEN conjunct2, THEN conjunct2,
     THEN conjunct2, THEN conjunct2, THEN conjunct2, THEN conjunct1] g5
  have "\<exists>w n b e. (w = [] \<or> w = ''json'') \<and> (n = [] \<or> n = [CHR 0x0A])
             \<and> (e = [] \<or> e = fence \<or> e = CHR 0x0A # fence)
             \<and> (w = [] \<longrightarrow> take 4 (n @ b @ e) \<noteq> ''json'')
             \<and> (n = [] \<longrightarrow> take 1 (b @ e) \<noteq> [CHR 0x0A])
             \<and> (e = fence \<longrightarrow> b = [] \<or> last b \<noteq> CHR 0x0A)
             \<and> (e = [] \<longrightarrow> (\<forall>x. b \<noteq> x @ fence))
             \<and> trim (fence @ ''json{}'' @ fence) = fence @ w @ n @ b @ e"
    by (rule mp)
  then obtain w n b e where full: "(w = [] \<or> w = ''json'') \<and> (n = [] \<or> n = [CHR 0x0A])
             \<and> (e = [] \<or> e = fence \<or> e = CHR 0x0A # fence)
             \<and> (w = [] \<longrightarrow> take 4 (n @ b @ e) \<noteq> ''json'')
             \<and> (n = [] \<longrightarrow> take 1 (b @ e) \<noteq> [CHR 0x0A])
             \<and> (e = fence \<longrightarrow> b = [] \<or> last b \<noteq> CHR 0x0A)
             \<and> (e = [] \<longrightarrow> (\<forall>x. b \<noteq> x @ fence))
             \<and> trim (fence @ ''json{}'' @ fence) = fence @ w @ n @ b @ e"
    by (elim exE)
  from fence_stripping_and_scenario
    [where w = w and n = n and e = e and b = b
                  and t = "fence @ ''json{}'' @ fence",
     THEN conjunct2, THEN conjunct2, THEN conjunct2, THEN conjunct2, THEN conjunct2,
     THEN conjunct2, THEN conjunct2, THEN conjunct1] full
  have cb: "cleanText_A (fence @ ''json{}'' @ fence) = b" by (rule mp)
  from full have f1: "w = [] \<or> w = ''json''" by (elim conjE)
  from full have f2: "n = [] \<or> n = [CHR 0x0A]" by (elim conjE)
  from full have f3: "e = [] \<or> e = fence \<or> e = CHR 0x0A # fence" by (elim conjE)
  from full have f4: "trim (fence @ ''json{}'' @ fence) = fence @ w @ n @ b @ e" by (elim conjE)
  from f1 f2 f3 f4 cb
  have "(w = [] \<or> w = ''json'') \<and> (n = [] \<or> n = [CHR 0x0A])
        \<and> (e = [] \<or> e = fence \<or> e = CHR 0x0A # fence)
        \<and> trim (fence @ ''json{}'' @ fence) = fence @ w @ n @ b @ e
        \<and> cleanText_A (fence @ ''json{}'' @ fence) = b"
    by (intro conjI)
  then have c12: "\<exists>w n b e. (w = [] \<or> w = ''json'') \<and> (n = [] \<or> n = [CHR 0x0A])
        \<and> (e = [] \<or> e = fence \<or> e = CHR 0x0A # fence)
        \<and> trim (fence @ ''json{}'' @ fence) = fence @ w @ n @ b @ e
        \<and> cleanText_A (fence @ ''json{}'' @ fence) = b"
    by (intro exI)
  have g6: "(\<forall>c \<in> set [CHR 0x09, CHR 0x0D, CHR '' '']. isWhiteSpace c)
        \<and> (\<forall>c \<in> set [CHR 0x0A, CHR 0x0B, CHR 0x0C, CHR 0xA0]. isWhiteSpace c)
        \<and> (''{}'' = [] \<or> (\<not> isWhiteSpace (hd ''{}'') \<and> \<not> isWhiteSpace (last ''{}'')))"
    by (simp add: isWhiteSpace_def)
  from fence_stripping_and_scenario
    [where ?ws1.0 = "[CHR 0x09, CHR 0x0D, CHR '' '']"
       and ?ws2.0 = "[CHR 0x0A, CHR 0x0B, CHR 0x0C, CHR 0xA0]" and x = "''{}''",
     THEN conjunct2, THEN conjunct2, THEN conjunct2, THEN conjunct2, THEN conjunct2,
     THEN conjunct2, THEN conjunct2, THEN conjunct2, THEN conjunct2, THEN conjunct1] g6
  have c13: "trim ([CHR 0x09, CHR 0x0D, CHR '' ''] @ ''{}''
                      @ [CHR 0x0A, CHR 0x0B, CHR 0x0C, CHR 0xA0]) = ''{}''"
    by (rule mp)
  have sd: "scenarioDocument \<noteq> [] \<and> hd scenarioDocument = CHR ''{''
        \<and> last scenarioDocument = CHR ''}''"
    by (simp add: scenarioDocument_def)
  have nofence': "\<forall>x. scenarioDocument \<noteq> x @ fence"
  proof
    fix x :: string
    show "scenarioDocument \<noteq> x @ fence"
    proof
      assume "scenarioDocument = x @ fence"
      then have "last scenarioDocument = last (x @ fence)" by simp
      with sd show False by (simp add: fence_def)
    qed
  qed
  have tf: "trim ([] @ (fence @ ''json'' @ scenarioDocument @ fence) @ [])
        = fence @ ''json'' @ scenarioDocument @ fence"
    by (rule trim_core) (simp_all add: fence_def isWhiteSpace_def)
  from tf have tf': "trim (fence @ ''json'' @ scenarioDocument @ fence)
        = fence @ ''json'' @ [] @ scenarioDocument @ fence"
    by simp
  have t1: "take 1 (scenarioDocument @ fence) \<noteq> [CHR 0x0A]"
    by (simp add: scenarioDocument_def)
  from sd have l1: "last scenarioDocument \<noteq> CHR 0x0A" by simp
  have fne: "fence \<noteq> []" by (simp add: fence_def)
  have g7: "(''json'' = [] \<or> ''json'' = ''json'') \<and> (([]::string) = [] \<or> [] = [CHR 0x0A])
        \<and> (fence = [] \<or> fence = fence \<or> fence = CHR 0x0A # fence)
        \<and> (''json'' = [] \<longrightarrow> take 4 ([] @ scenarioDocument @ fence) \<noteq> ''json'')
        \<and> (([]::string) = [] \<longrightarrow> take 1 (scenarioDocument @ fence) \<noteq> [CHR 0x0A])
        \<and> (fence = fence \<longrightarrow> scenarioDocument = [] \<or> last scenarioDocument \<noteq> CHR 0x0A)
        \<and> (fence = [] \<longrightarrow> (\<forall>x. scenarioDocument \<noteq> x @ fence))
        \<and> trim (fence @ ''json'' @ scenarioDocument @ fence)
            = fence @ ''json'' @ [] @ scenarioDocument @ fence"
    using t1 l1 tf' nofence' fne by simp
  from fence_stripping_and_scenario
    [where w = "''json''" and n = "[]" and e = fence and b = scenarioDocument
                  and t = "fence @ ''json'' @ scenarioDocument @ fence",
     THEN conjunct2, THEN conjunct2, THEN conjunct2, THEN conjunct2, THEN conjunct2,
     THEN conjunct2, THEN conjunct2, THEN conjunct1] g7
  have cs: "cleanText_A (fence @ ''json'' @ scenarioDocument @ fence) = scenarioDocument"
    by (rule mp)
  have g8: "fence @ ''json'' @ scenarioDocument @ fence \<noteq> []
        \<and> exampleParse (cleanText_A (fence @ ''json'' @ scenarioDocument @ fence))
            = Inr scenarioValue
        \<and> getProp scenarioValue ''questions''
            = Some (JArr [JObj [(''question'', JStr ''Q1''),
                              (''options'', JArr [JStr ''A'', JStr ''B'', JStr ''C'', JStr ''D'']),
                              (''correctAnswer'', JStr ''B''),
                              (''explanation'', JStr ''E''),
                              (''pageNumber'', JNum 1),
                              (''confidence'', JNum (9 / 10))]])"
    unfolding cs h6 by (simp add: fence_def scenarioValue_def)
  from fence_stripping_and_scenario
    [where reply = "fence @ ''json'' @ scenarioDocument @ fence"
                    and parse = exampleParse and data = scenarioValue and now = exampleNow,
     THEN conjunct2, THEN conjunct2, THEN conjunct2, THEN conjunct2, THEN conjunct2,
     THEN conjunct2, THEN conjunct2, THEN conjunct2, THEN conjunct2, THEN conjunct2,
     THEN conjunct1] g8
  have "extractMCQsFromText_A exampleParse exampleNow
         (Inr (Some (fence @ ''json'' @ scenarioDocument @ fence)))
       = Inr (JObj [(''title'',
                     (case getProp scenarioValue ''title'' of
                        None \<Rightarrow> JStr ''Untitled Quiz''
                      | Some t \<Rightarrow> if truthy t then t else JStr ''Untitled Quiz'')),
                    (''questions'', JArr (assignIds exampleNow
                       [JObj [(''question'', JStr ''Q1''),
                              (''options'', JArr [JStr ''A'', JStr ''B'', JStr ''C'', JStr ''D'']),
                              (''correctAnswer'', JStr ''B''),
                              (''explanation'', JStr ''E''),
                              (''pageNumber'', JNum 1),
                              (''confidence'', JNum (9 / 10))]]))])"
    by (rule mp)
  then have c14: "extractMCQsFromText_A exampleParse exampleNow
         (Inr (Some (fence @ ''json'' @ scenarioDocument @ fence)))
       = Inr (JObj [(''title'', JStr ''T''),
                    (''questions'', JArr (assignIds exampleNow
                       [JObj [(''question'', JStr ''Q1''),
                              (''options'', JArr [JStr ''A'', JStr ''B'', JStr ''C'', JStr ''D'']),
                              (''correctAnswer'', JStr ''B''),
                              (''explanation'', JStr ''E''),
                              (''pageNumber'', JNum 1),
                              (''confidence'', JNum (9 / 10))]]))])"
    by (simp add: scenarioValue_def)
  have g9: "fence @ ''json'' \<noteq> []
        \<and> exampleParse (cleanText_A (fence @ ''json'')) = Inl ''Unexpected token''"
    by (simp add: fence_def cleanText_A_def trim_def isWhiteSpace_def startsWith_def
          stripLeadingFence_def stripTrailingFence_def endsWith_def exampleParse_def
          tableParse_def scenarioDocument_def strayDocument_def)
  from fence_stripping_and_scenario
    [where reply = "fence @ ''json''" and parse = exampleParse
                     and m = "''Unexpected token''" and now = exampleNow,
     THEN conjunct2, THEN conjunct2, THEN conjunct2, THEN conjunct2, THEN conjunct2,
     THEN conjunct2, THEN conjunct2, THEN conjunct2, THEN conjunct2, THEN conjunct2,
     THEN conjunct2, THEN conjunct1] g9
  have c15: "extractMCQsFromText_A exampleParse exampleNow (Inr (Some (fence @ ''json'')))
       = Inl (Error (''Failed to parse Gemini response as JSON. ''
                     @ ''The model may have returned invalid data.''))"
    by (rule mp)
  have tb: "trim ('' '' @ scenarioDocument @ [CHR 0x0A]) = scenarioDocument"
    using sd by (intro trim_core) (simp_all add: isWhiteSpace_def)
  have g10: "'' '' @ scenarioDocument @ [CHR 0x0A] \<noteq> []
        \<and> exampleParse (trim ('' '' @ scenarioDocument @ [CHR 0x0A])) = Inr scenarioValue
        \<and> getProp scenarioValue ''questions''
            = Some (JArr [JObj [(''question'', JStr ''Q1''),
                              (''options'', JArr [JStr ''A'', JStr ''B'', JStr ''C'', JStr ''D'']),
                              (''correctAnswer'', JStr ''B''),
                              (''explanation'', JStr ''E''),
                              (''pageNumber'', JNum 1),
                              (''confidence'', JNum (9 / 10))]])"
    unfolding tb h6 by (simp add: scenarioValue_def)
  from fence_stripping_and_scenario
    [where reply = "'' '' @ scenarioDocument @ [CHR 0x0A]"
                    and parse = exampleParse and data = scenarioValue and now = exampleNow,
     THEN conjunct2, THEN conjunct2, THEN conjunct2, THEN conjunct2, THEN conjunct2,
     THEN conjunct2, THEN conjunct2, THEN conjunct2, THEN conjunct2, THEN conjunct2,
     THEN conjunct2, THEN conjunct2, THEN conjunct1] g10
  have "extractMCQsFromText_B exampleParse exampleNow
         (Inr (Some ('' '' @ scenarioDocument @ [CHR 0x0A])))
       = Inr (JObj [(''title'',
                     (case getProp scenarioValue ''title'' of
                        None \<Rightarrow> JStr ''QuizAI Generated Quiz''
                      | Some t \<Rightarrow> if truthy t then t else JStr ''QuizAI Generated Quiz'')),
                    (''questions'', JArr (assignIds exampleNow
                       [JObj [(''question'', JStr ''Q1''),
                              (''options'', JArr [JStr ''A'', JStr ''B'', JStr ''C'', JStr ''D'']),
                              (''correctAnswer'', JStr ''B''),
                              (''explanation'', JStr ''E''),
                              (''pageNumber'', JNum 1),
                              (''confidence'', JNum (9 / 10))]]))])"
    by (rule mp)
  then have c16: "extractMCQsFromText_B exampleParse exampleNow
         (Inr (Some ('' '' @ scenarioDocument @ [CHR 0x0A])))
       = Inr (JObj [(''title'', JStr ''T''),
                    (''questions'', JArr (assignIds exampleNow
                       [JObj [(''question'', JStr ''Q1''),
                              (''options'', JArr [JStr ''A'', JStr ''B'', JStr ''C'', JStr ''D'']),
                              (''correctAnswer'', JStr ''B''),
                              (''explanation'', JStr ''E''),
                              (''pageNumber'', JNum 1),
                              (''confidence'', JNum (9 / 10))]]))])"
    by (simp add: scenarioValue_def)
  from c1 [THEN conjunct1] c2 c6 [unfolded n] c7 c8 c9 c10 c11 c12 c13 c14 c15 c16
  show ?thesis by (intro conjI)
qed

text \<open>
  The claim as stated fails in variant B: the fenced reply of the scenario is not
  stripped, the decoder rejects it and the extraction fails.
\<close>

theorem extract_B_fenced_scenario_fails_counterexample:
  "extractMCQsFromText_B exampleParse exampleNow (Inr (Some scenarioReply))
     = Inl (Error (''Failed to convert PDF to MCQs. The document might be too large ''
                   @ ''or the text might be unreadable.''))"
  by (simp add: extractMCQsFromText_B_def tryExtract_B_def cleanText_B_def trim_def
        isWhiteSpace_def exampleParse_def tableParse_def scenarioReply_def
        scenarioDocument_def strayDocument_def)

subsection \<open>Identifiers of the extracted questions\<close>

lemma getProp_spreadWithId_id: "getProp (spreadWithId q i) ''id'' = Some (JStr i)"
  by (simp add: spreadWithId_def update_conv')

lemma getProp_spreadWithId_other:
  "k \<noteq> ''id'' \<Longrightarrow> getProp (spreadWithId (JObj fs) i) k = getProp (JObj fs) k"
  by (simp add: spreadWithId_def update_conv')

lemma map_fst_zip_same:
  "length xs = length ys \<Longrightarrow> map (\<lambda>p. g (fst p)) (zip xs ys) = map g xs"
  by (induction xs ys rule: list_induct2) simp_all

lemma ids_assignIds:
  "map (\<lambda>q. getProp q ''id'') (assignIds now items)
     = map (\<lambda>index. Some (JStr (newId now index))) [0..<length items]"
proof -
  have "map (\<lambda>q. getProp q ''id'') (assignIds now items)
      = map (\<lambda>p. Some (JStr (newId now (fst p)))) (zip [0..<length items] items)"
    by (simp add: assignIds_def enumerate_eq_zip getProp_spreadWithId_id case_prod_unfold)
  also have "\<dots> = map (\<lambda>index. Some (JStr (newId now index))) [0..<length items]"
    by (rule map_fst_zip_same) simp
  finally show ?thesis .
qed

lemma distinct_ids_assignIds: "distinct (map (\<lambda>q. getProp q ''id'') (assignIds now items))"
proof -
  have "inj_on (\<lambda>index. Some (JStr (newId now index))) (set [0..<length items])"
    by (auto intro!: inj_onI dest: newId_inj)
  then show ?thesis
    unfolding ids_assignIds by (simp add: distinct_map)
qed

lemma newId_eq_iff: "newId now i = newId now' j \<longleftrightarrow> i = j \<and> now i = now' j"
proof
  assume eq: "newId now i = newId now' j"
  then have ij: "i = j" by (rule newId_inj)
  with eq have "show_nat (now i) = show_nat (now' j)" by (simp add: newId_def)
  then have "now i = now' j" by (rule show_nat_inj)
  with ij show "i = j \<and> now i = now' j" by simp
next
  assume h: "i = j \<and> now i = now' j"
  from h have a: "i = j" by (elim conjE)
  from h have b: "now i = now' j" by (elim conjE)
  show "newId now i = newId now' j"
    unfolding newId_def b a [symmetric] ..
qed

lemma ids_disjoint:
  assumes "\<forall>i. i < length items \<and> i < length items' \<longrightarrow> now i \<noteq> now' i"
  shows "set (map (\<lambda>q. getProp q ''id'') (assignIds now items))
       \<inter> set (map (\<lambda>q. getProp q ''id'') (assignIds now' items')) = {}"
  using assms unfolding ids_assignIds by (auto simp: newId_eq_iff)

lemma tryExtract_A_result:
  assumes "tryExtract_A parse now backend = Inr r"
  shows "\<exists>t items. r = JObj [(''title'', t), (''questions'', JArr (assignIds now items))]"
  using assms
  by (auto simp: tryExtract_A_def split: sum.splits option.splits if_splits json.splits)

lemma extract_A_result:
  assumes "extractMCQsFromText_A parse now backend = Inr r"
  shows "\<exists>t items. r = JObj [(''title'', t), (''questions'', JArr (assignIds now items))]"
proof -
  from assms have "tryExtract_A parse now backend = Inr r"
    by (simp add: extractMCQsFromText_A_def split: sum.splits js_error.splits)
  then show ?thesis by (rule tryExtract_A_result)
qed

lemma tryExtract_B_result:
  assumes "tryExtract_B parse now backend = Inr r"
  shows "\<exists>t items. r = JObj [(''title'', t), (''questions'', JArr (assignIds now items))]"
  using assms
  by (auto simp: tryExtract_B_def split: sum.splits option.splits if_splits json.splits)

lemma extract_B_result:
  assumes "extractMCQsFromText_B parse now backend = Inr r"
  shows "\<exists>t items. r = JObj [(''title'', t), (''questions'', JArr (assignIds now items))]"
proof -
  from assms have "tryExtract_B parse now backend = Inr r"
    by (simp add: extractMCQsFromText_B_def split: sum.splits)
  then show ?thesis by (rule tryExtract_B_result)
qed

lemma id_q_merge: "id_p u = None \<Longrightarrow> id_q (merge q u) = id_q q"
  by (simp add: merge_def)

lemma ids_saveEditedQuestion:
  assumes "id_p u = None"
  shows "map id_q (questions_App (saveEditedQuestion i u s)) = map id_q (questions_App s)"
    and "map id_q (questions (quizState (saveEditedQuestion i u s)))
         = map id_q (questions (quizState s))"
  using assms by (simp_all add: saveEditedQuestion_def id_q_merge)

lemma master_selectOption: "questions_App (selectOption opt s) = questions_App s"
  by (simp add: selectOption_def)

lemma master_finishQuiz: "questions_App (finishQuiz now1 now2 s) = questions_App s"
  by (simp add: finishQuiz_def Let_def)

lemma master_goToNext: "questions_App (goToNext now1 now2 s) = questions_App s"
  by (simp add: goToNext_def master_finishQuiz)

lemma master_goToPrev_A: "questions_App (goToPrev_A s) = questions_App s"
  by (simp add: goToPrev_A_def)

lemma master_goToPrev_B: "questions_App (goToPrev_B s) = questions_App s"
  by (simp add: goToPrev_B_def)

lemma master_jumpToQuestion_A: "questions_App (jumpToQuestion_A i s) = questions_App s"
  by (simp add: jumpToQuestion_A_def)

lemma master_jumpToQuestion_B: "questions_App (jumpToQuestion_B i s) = questions_App s"
  by (simp add: jumpToQuestion_B_def)

lemma master_resetQuiz_A: "questions_App (resetQuiz_A flt s) = questions_App s"
  by (simp add: resetQuiz_A_def Let_def)

lemma master_resetQuiz_B: "questions_App (resetQuiz_B flt s) = questions_App s"
  by (simp add: resetQuiz_B_def Let_def)

lemmas master_kept = master_selectOption master_finishQuiz master_goToNext master_goToPrev_A
  master_goToPrev_B master_jumpToQuestion_A master_jumpToQuestion_B master_resetQuiz_A
  master_resetQuiz_B

lemma step_A_ids:
  assumes "step_A e s = Inr s'"
    and "case e of FileUpload u \<Rightarrow> False | ClearAllData c \<Rightarrow> False
         | SaveEditedQuestion i u \<Rightarrow> id_p u = None | _ \<Rightarrow> True"
  shows "map id_q (questions_App s') = map id_q (questions_App s)"
proof (cases e)
  case ConfirmAnswer
  with assms(1) have "confirmAnswer_A s = Inr s'" by simp
  from commit_other_fields(2) [OF confirmAnswer_A_cases [OF this]] show ?thesis by simp
next
  case (SaveEditedQuestion i u)
  with assms have "s' = saveEditedQuestion i u s" and "id_p u = None" by simp_all
  then show ?thesis by (simp add: ids_saveEditedQuestion)
qed (use assms in \<open>auto simp: master_kept\<close>)

lemma step_B_ids:
  assumes "step_B e s = Inr s'"
    and "case e of FileUpload u \<Rightarrow> False | ClearAllData c \<Rightarrow> False
         | SaveEditedQuestion i u \<Rightarrow> id_p u = None | _ \<Rightarrow> True"
  shows "map id_q (questions_App s') = map id_q (questions_App s)"
proof (cases e)
  case ConfirmAnswer
  with assms(1) have "confirmAnswer_B s = Inr s'" by simp
  from commit_other_fields(2) [OF confirmAnswer_B_cases [OF this]] show ?thesis by simp
next
  case (SaveEditedQuestion i u)
  with assms have "s' = saveEditedQuestion i u s" and "id_p u = None" by simp_all
  then show ?thesis by (simp add: ids_saveEditedQuestion)
qed (use assms in \<open>auto simp: master_kept\<close>)

text \<open>
  Claim C5, as the code has it. The ids that one call of the extractor assigns are
  \<open>q-<index>-<Date.now()>\<close>; they are pairwise distinct within the call, whatever the clock
  reads, and they replace any \<open>id\<close> that the generated content brings. The questions of a
  successful call are exactly the records so labelled. Every operation other than an
  upload or the reset of all data leaves the ids of the quiz as they are, an edit
  included as long as it does not itself set \<open>id\<close> (no control of the application does).
  Two calls assign disjoint sets of ids when, at every index they share, the clock read
  differently in the two calls; the code has no other means against a reuse across calls.
\<close>

theorem assigned_ids_distinct_and_stable:
  "distinct (map (\<lambda>q. getProp q ''id'') (assignIds now items))
   \<and> map (\<lambda>q. getProp q ''id'') (assignIds now items)
       = map (\<lambda>index. Some (JStr (''q-'' @ show_nat index @ ''-'' @ show_nat (now index))))
           [0..<length items]
   \<and> getProp (spreadWithId q i) ''id'' = Some (JStr i)
   \<and> (extractMCQsFromText_A parse now backend = Inr r
      \<longrightarrow> (\<exists>t items. r = JObj [(''title'', t), (''questions'', JArr (assignIds now items))]))
   \<and> (extractMCQsFromText_B parse now backend = Inr r
      \<longrightarrow> (\<exists>t items. r = JObj [(''title'', t), (''questions'', JArr (assignIds now items))]))
   \<and> ((\<forall>i. i < length items \<and> i < length items' \<longrightarrow> now i \<noteq> now' i)
      \<longrightarrow> set (map (\<lambda>q. getProp q ''id'') (assignIds now items))
          \<inter> set (map (\<lambda>q. getProp q ''id'') (assignIds now' items')) = {})
   \<and> (step_A e s = Inr s'
        \<and> (case e of FileUpload u \<Rightarrow> False | ClearAllData c \<Rightarrow> False
            | SaveEditedQuestion i u \<Rightarrow> id_p u = None | _ \<Rightarrow> True)
      \<longrightarrow> map id_q (questions_App s') = map id_q (questions_App s))
   \<and> (step_B f s = Inr s''
        \<and> (case f of FileUpload u \<Rightarrow> False | ClearAllData c \<Rightarrow> False
            | SaveEditedQuestion i u \<Rightarrow> id_p u = None | _ \<Rightarrow> True)
      \<longrightarrow> map id_q (questions_App s'') = map id_q (questions_App s))"
proof -
  note 1 = distinct_ids_assignIds [of now items]
  note 2 = ids_assignIds [of now items, unfolded newId_def]
  note 3 = getProp_spreadWithId_id [of q i]
  have 4: "extractMCQsFromText_A parse now backend = Inr r
      \<longrightarrow> (\<exists>t items. r = JObj [(''title'', t), (''questions'', JArr (assignIds now items))])"
  proof
    assume a: "extractMCQsFromText_A parse now backend = Inr r"
    from extract_A_result [where parse = parse and now = now and backend = backend and r = r, OF a]
    show "\<exists>t items. r = JObj [(''title'', t), (''questions'', JArr (assignIds now items))]" .
  qed
  have 5: "extractMCQsFromText_B parse now backend = Inr r
      \<longrightarrow> (\<exists>t items. r = JObj [(''title'', t), (''questions'', JArr (assignIds now items))])"
  proof
    assume a: "extractMCQsFromText_B parse now backend = Inr r"
    from extract_B_result [where parse = parse and now = now and backend = backend and r = r, OF a]
    show "\<exists>t items. r = JObj [(''title'', t), (''questions'', JArr (assignIds now items))]" .
  qed
  have 6: "(\<forall>i. i < length items \<and> i < length items' \<longrightarrow> now i \<noteq> now' i)
      \<longrightarrow> set (map (\<lambda>q. getProp q ''id'') (assignIds now items))
          \<inter> set (map (\<lambda>q. getProp q ''id'') (assignIds now' items')) = {}"
  proof
    assume a: "\<forall>i. i < length items \<and> i < length items' \<longrightarrow> now i \<noteq> now' i"
    from ids_disjoint [where now = now and now' = now' and items = items and items' = items', OF a]
    show "set (map (\<lambda>q. getProp q ''id'') (assignIds now items))
          \<inter> set (map (\<lambda>q. getProp q ''id'') (assignIds now' items')) = {}" .
  qed
  have 7: "step_A e s = Inr s'
        \<and> (case e of FileUpload u \<Rightarrow> False | ClearAllData c \<Rightarrow> False
            | SaveEditedQuestion i u \<Rightarrow> id_p u = None | _ \<Rightarrow> True)
      \<longrightarrow> map id_q (questions_App s') = map id_q (questions_App s)"
  proof
    assume h: "step_A e s = Inr s'
        \<and> (case e of FileUpload u \<Rightarrow> False | ClearAllData c \<Rightarrow> False
            | SaveEditedQuestion i u \<Rightarrow> id_p u = None | _ \<Rightarrow> True)"
    from h have a: "step_A e s = Inr s'" by (elim conjE)
    from h have b: "case e of FileUpload u \<Rightarrow> False | ClearAllData c \<Rightarrow> False
            | SaveEditedQuestion i u \<Rightarrow> id_p u = None | _ \<Rightarrow> True" by (elim conjE)
    from step_A_ids [OF a b] show "map id_q (questions_App s') = map id_q (questions_App s)" .
  qed
  have 8: "step_B f s = Inr s''
        \<and> (case f of FileUpload u \<Rightarrow> False | ClearAllData c \<Rightarrow> False
            | SaveEditedQuestion i u \<Rightarrow> id_p u = None | _ \<Rightarrow> True)
      \<longrightarrow> map id_q (questions_App s'') = map id_q (questions_App s)"
  proof
    assume h: "step_B f s = Inr s''
        \<and> (case f of FileUpload u \<Rightarrow> False | ClearAllData c \<Rightarrow> False
            | SaveEditedQuestion i u \<Rightarrow> id_p u = None | _ \<Rightarrow> True)"
    from h have a: "step_B f s = Inr s''" by (elim conjE)
    from h have b: "case f of FileUpload u \<Rightarrow> False | ClearAllData c \<Rightarrow> False
            | SaveEditedQuestion i u \<Rightarrow> id_p u = None | _ \<Rightarrow> True" by (elim conjE)
    from step_B_ids [OF a b] show "map id_q (questions_App s'') = map id_q (questions_App s)" .
  qed
  from 1 2 3 4 5 6 7 8 show ?thesis by (intro conjI)
qed

theorem assigned_ids_distinct_and_stable_witness:
  "(\<exists>t items.
      JObj [(''title'', JStr ''T''),
            (''questions'', JArr (assignIds exampleNow
               [JObj [(''question'', JStr ''Q1''),
                      (''options'', JArr [JStr ''A'', JStr ''B'', JStr ''C'', JStr ''D'']),
                      (''correctAnswer'', JStr ''B''),
                      (''explanation'', JStr ''E''),
                      (''pageNumber'', JNum 1),
                      (''confidence'', JNum (9 / 10))]]))]
      = JObj [(''title'', t), (''questions'', JArr (assignIds exampleNow items))])
   \<and> set (map (\<lambda>q. getProp q ''id'') (assignIds exampleNow [JNull, JNull]))
       \<inter> set (map (\<lambda>q. getProp q ''id'') (assignIds (\<lambda>index. 1700000000001) [JNull])) = {}
   \<and> map id_q (questions_App
         (saveEditedQuestion ''q1''
            \<lparr> id_p = None, question_p = Some ''Which?'', options_p = None,
              correctAnswer_p = None, explanation_p = None, pageNumber_p = None,
              confidence_p = None \<rparr> exampleApp))
       = map id_q (questions_App exampleApp)
   \<and> map id_q (questions_App (goToPrev_B exampleApp)) = map id_q (questions_App exampleApp)"
proof -
  let ?r = "JObj [(''title'', JStr ''T''),
            (''questions'', JArr (assignIds exampleNow
               [JObj [(''question'', JStr ''Q1''),
                      (''options'', JArr [JStr ''A'', JStr ''B'', JStr ''C'', JStr ''D'']),
                      (''correctAnswer'', JStr ''B''),
                      (''explanation'', JStr ''E''),
                      (''pageNumber'', JNum 1),
                      (''confidence'', JNum (9 / 10))]]))]"
  let ?u = "\<lparr> id_p = None, question_p = Some ''Which?'', options_p = None,
              correctAnswer_p = None, explanation_p = None, pageNumber_p = None,
              confidence_p = None \<rparr>"
  note th = assigned_ids_distinct_and_stable
    [where now = exampleNow and now' = "\<lambda>index. 1700000000001" and items = "[JNull, JNull]"
       and items' = "[JNull]" and parse = exampleParse
       and backend = "Inr (Some scenarioReply)" and r = ?r
       and e = "SaveEditedQuestion ''q1'' ?u" and s = exampleApp
       and s' = "saveEditedQuestion ''q1'' ?u exampleApp"
       and f = GoToPrev and s'' = "goToPrev_B exampleApp"]
  have p: "exampleParse scenarioDocument = Inr scenarioValue"
    by (simp add: exampleParse_def tableParse_def)
  have h4: "extractMCQsFromText_A exampleParse exampleNow (Inr (Some scenarioReply)) = Inr ?r"
    by (rule extract_A_scenario [where parse = exampleParse and now = exampleNow, OF p])
  have h6: "\<forall>i. i < length [JNull, JNull] \<and> i < length [JNull]
              \<longrightarrow> exampleNow i \<noteq> (\<lambda>index. 1700000000001) i"
    by (simp add: exampleNow_def)
  have h7: "step_A (SaveEditedQuestion ''q1'' ?u) exampleApp
              = Inr (saveEditedQuestion ''q1'' ?u exampleApp)
        \<and> (case (SaveEditedQuestion ''q1'' ?u :: filter_A event) of
              FileUpload u \<Rightarrow> False | ClearAllData c \<Rightarrow> False
            | SaveEditedQuestion i u \<Rightarrow> id_p u = None | _ \<Rightarrow> True)"
    by simp
  have h8: "step_B GoToPrev exampleApp = Inr (goToPrev_B exampleApp)
        \<and> (case (GoToPrev :: filter_B event) of
              FileUpload u \<Rightarrow> False | ClearAllData c \<Rightarrow> False
            | SaveEditedQuestion i u \<Rightarrow> id_p u = None | _ \<Rightarrow> True)"
    by simp
  from th [THEN conjunct2, THEN conjunct2, THEN conjunct2, THEN conjunct1] h4
  have c4: "\<exists>t items. ?r = JObj [(''title'', t), (''questions'', JArr (assignIds exampleNow items))]"
    by (rule mp)
  from th [THEN conjunct2, THEN conjunct2, THEN conjunct2, THEN conjunct2, THEN conjunct2,
           THEN conjunct1] h6
  have c6: "set (map (\<lambda>q. getProp q ''id'') (assignIds exampleNow [JNull, JNull]))
       \<inter> set (map (\<lambda>q. getProp q ''id'') (assignIds (\<lambda>index. 1700000000001) [JNull])) = {}"
    by (rule mp)
  from th [THEN conjunct2, THEN conjunct2, THEN conjunct2, THEN conjunct2, THEN conjunct2,
           THEN conjunct2, THEN conjunct1] h7
  have c7: "map id_q (questions_App (saveEditedQuestion ''q1'' ?u exampleApp))
       = map id_q (questions_App exampleApp)"
    by (rule mp)
  from th [THEN conjunct2, THEN conjunct2, THEN conjunct2, THEN conjunct2, THEN conjunct2,
           THEN conjunct2, THEN conjunct2] h8
  have c8: "map id_q (questions_App (goToPrev_B exampleApp)) = map id_q (questions_App exampleApp)"
    by (rule mp)
  from c4 c6 c7 c8 show ?thesis by (intro conjI)
qed

text \<open>
  The claim as stated fails: two calls during which the clock reads the same give their
  first question the same id, here for two different documents (the second of which
  brought an id of its own, which is replaced).
\<close>

theorem ids_reused_across_calls_counterexample:
  "extractMCQsFromText_A exampleParse exampleNow (Inr (Some scenarioReply))
     = Inr (JObj [(''title'', JStr ''T''),
                  (''questions'',
                   JArr [JObj [(''question'', JStr ''Q1''),
                               (''options'', JArr [JStr ''A'', JStr ''B'', JStr ''C'', JStr ''D'']),
                               (''correctAnswer'', JStr ''B''),
                               (''explanation'', JStr ''E''),
                               (''pageNumber'', JNum 1),
                               (''confidence'', JNum (9 / 10)),
                               (''id'', JStr ''q-0-1700000000000'')]])])
   \<and> extractMCQsFromText_A exampleParse exampleNow (Inr (Some strayDocument))
     = Inr (JObj [(''title'', JStr ''Untitled Quiz''),
                  (''questions'',
                   JArr [JObj [(''id'', JStr ''q-0-1700000000000''),
                               (''question'', JStr ''Q1''),
                               (''options'', JArr [JStr ''A'', JStr ''B'', JStr ''C'', JStr ''D'']),
                               (''correctAnswer'', JStr ''Z''),
                               (''explanation'', JStr ''E''),
                               (''pageNumber'', JNum 1),
                               (''confidence'', JNum (1 / 2))]])])"
proof -
  have n: "newId exampleNow 0 = ''q-0-1700000000000''"
    by (simp add: newId_def exampleNow_def show_nat.simps digit_char_def)
  have p: "exampleParse scenarioDocument = Inr scenarioValue"
    by (simp add: exampleParse_def tableParse_def)
  have a: "extractMCQsFromText_A exampleParse exampleNow (Inr (Some scenarioReply))
     = Inr (JObj [(''title'', JStr ''T''),
                  (''questions'',
                   JArr [JObj [(''question'', JStr ''Q1''),
                               (''options'', JArr [JStr ''A'', JStr ''B'', JStr ''C'', JStr ''D'']),
                               (''correctAnswer'', JStr ''B''),
                               (''explanation'', JStr ''E''),
                               (''pageNumber'', JNum 1),
                               (''confidence'', JNum (9 / 10)),
                               (''id'', JStr ''q-0-1700000000000'')]])])"
    unfolding extract_A_scenario [where parse = exampleParse and now = exampleNow, OF p]
    by (simp add: assignIds_def enumerate_eq_zip spreadWithId_def n)
  have c: "cleanText_A strayDocument = strayDocument"
    by (simp add: cleanText_A_def strayDocument_def trim_def isWhiteSpace_def startsWith_def
          fence_def)
  have q: "exampleParse strayDocument = Inr strayValue"
    by (simp add: exampleParse_def tableParse_def strayDocument_def scenarioDocument_def)
  have ne: "strayDocument \<noteq> []" by (simp add: strayDocument_def)
  have b: "extractMCQsFromText_A exampleParse exampleNow (Inr (Some strayDocument))
     = Inr (JObj [(''title'', JStr ''Untitled Quiz''),
                  (''questions'',
                   JArr [JObj [(''id'', JStr ''q-0-1700000000000''),
                               (''question'', JStr ''Q1''),
                               (''options'', JArr [JStr ''A'', JStr ''B'', JStr ''C'', JStr ''D'']),
                               (''correctAnswer'', JStr ''Z''),
                               (''explanation'', JStr ''E''),
                               (''pageNumber'', JNum 1),
                               (''confidence'', JNum (1 / 2))]])])"
    using ne
    by (simp add: extractMCQsFromText_A_def tryExtract_A_def c q strayValue_def assignIds_def
          enumerate_eq_zip spreadWithId_def n)
  from a b show ?thesis by (rule conjI)
qed

subsection \<open>The correct answer and the options\<close>

lemma asMCQ_spreadWithId:
  assumes "asMCQ (spreadWithId (JObj fs) i) = Some m"
  shows "asString (map_of fs ''correctAnswer'') = Some (correctAnswer m)
       \<and> asStrings (map_of fs ''options'') = Some (options m)
       \<and> id_q m = i"
  using assms
  by (auto simp: asMCQ_def spreadWithId_def update_conv' split: option.splits)

lemma question_not_index: "''question'' \<notin> set (map show_nat [0..<k])"
proof
  assume "''question'' \<in> set (map show_nat [0..<k])"
  then obtain i where "''question'' = show_nat i" by auto
  with show_nat_digits [of i] have "\<forall>c \<in> set ''question''. isDigit c" by simp
  then show False by (simp add: isDigit_def)
qed

lemma asMCQ_without_question:
  assumes "map_of (ownProps q) ''question'' = None"
  shows "asMCQ (spreadWithId q i) = None"
  using assms by (simp add: asMCQ_def spreadWithId_def update_conv')

lemma asMCQ_needs_object:
  assumes "asMCQ (spreadWithId q i) = Some m"
  shows "\<exists>fs. q = JObj fs"
proof (cases q)
  case (JObj fs)
  then show ?thesis by simp
next
  case (JArr xs)
  have "map_of (ownProps (JArr xs)) ''question'' = None"
    using question_not_index [of "length xs"] by (simp add: map_of_zip_is_None)
  from asMCQ_without_question [OF this, of i] assms JArr show ?thesis by simp
next
  case (JStr s)
  have "map_of (ownProps (JStr s)) ''question'' = None"
    using question_not_index [of "length s"] by (simp add: map_of_zip_is_None)
  from asMCQ_without_question [OF this, of i] assms JStr show ?thesis by simp
next
  case JNull
  have "map_of (ownProps JNull) ''question'' = None" by simp
  from asMCQ_without_question [OF this, of i] assms JNull show ?thesis by simp
next
  case (JBool b)
  have "map_of (ownProps (JBool b)) ''question'' = None" by simp
  from asMCQ_without_question [OF this, of i] assms JBool show ?thesis by simp
next
  case (JNum x)
  have "map_of (ownProps (JNum x)) ''question'' = None" by simp
  from asMCQ_without_question [OF this, of i] assms JNum show ?thesis by simp
qed

lemma asMCQ_spreadWithId_any:
  assumes "asMCQ (spreadWithId q i) = Some m"
  shows "asString (getProp q ''correctAnswer'') = Some (correctAnswer m)
       \<and> asStrings (getProp q ''options'') = Some (options m)"
proof -
  from asMCQ_needs_object [OF assms] obtain fs where q: "q = JObj fs" ..
  from assms have "asMCQ (spreadWithId (JObj fs) i) = Some m" by (simp only: q)
  from asMCQ_spreadWithId [OF this] show ?thesis unfolding q by simp
qed

lemma asMCQ_spreadWithId_typed:
  assumes "asString (map_of fs ''question'') = Some qn"
    and "asStrings (map_of fs ''options'') = Some os"
    and "asString (map_of fs ''correctAnswer'') = Some c"
    and "asString (map_of fs ''explanation'') = Some ex"
    and "asNumber (map_of fs ''pageNumber'') = Some pg"
    and "asNumber (map_of fs ''confidence'') = Some cf"
  shows "asMCQ (spreadWithId (JObj fs) i)
     = Some \<lparr> id_q = i, question = qn, options = os, correctAnswer = c, explanation = ex,
              pageNumber = pg, confidence = cf \<rparr>"
  using assms by (simp add: asMCQ_def spreadWithId_def update_conv')

lemma assignIds_nth:
  "i < length items \<Longrightarrow> assignIds now items ! i = spreadWithId (items ! i) (newId now i)"
  by (simp add: assignIds_def nth_enumerate_eq)

lemma those_spread:
  assumes "those (map (\<lambda>p. asMCQ (spreadWithId (snd p) (g (fst p)))) (enumerate k items))
           = Some ms"
  shows "map (\<lambda>q. asString (getProp q ''correctAnswer'')) items
           = map (\<lambda>m. Some (correctAnswer m)) ms
       \<and> map (\<lambda>q. asStrings (getProp q ''options'')) items
           = map (\<lambda>m. Some (options m)) ms"
  using assms
proof (induction items arbitrary: k ms)
  case Nil
  then show ?case by simp
next
  case (Cons x xs)
  from Cons.prems obtain y ys where y: "asMCQ (spreadWithId x (g k)) = Some y"
    and ys: "those (map (\<lambda>p. asMCQ (spreadWithId (snd p) (g (fst p)))) (enumerate (Suc k) xs))
             = Some ys"
    and ms: "ms = y # ys"
    by (auto split: option.splits)
  from asMCQ_spreadWithId_any [OF y] Cons.IH [OF ys] show ?case unfolding ms by simp
qed

lemma records_of_assignIds:
  assumes "those (map asMCQ (assignIds now items)) = Some ms"
  shows "map (\<lambda>q. asString (getProp q ''correctAnswer'')) items
           = map (\<lambda>m. Some (correctAnswer m)) ms
       \<and> map (\<lambda>q. asStrings (getProp q ''options'')) items
           = map (\<lambda>m. Some (options m)) ms"
proof -
  have "map asMCQ (assignIds now items)
      = map (\<lambda>p. asMCQ (spreadWithId (snd p) (newId now (fst p)))) (enumerate 0 items)"
    by (simp add: assignIds_def case_prod_unfold)
  with assms
  have "those (map (\<lambda>p. asMCQ (spreadWithId (snd p) (newId now (fst p)))) (enumerate 0 items))
        = Some ms"
    by simp
  then show ?thesis by (rule those_spread)
qed

lemma asExtractionResult_questions:
  assumes "asExtractionResult (JObj [(''title'', t), (''questions'', JArr recs)]) = Some er"
  shows "those (map asMCQ recs) = Some (questions_ER er)"
  using assms by (cases t) (auto simp: asExtractionResult_def split: option.splits)

lemma tryExtract_A_inv:
  assumes "tryExtract_A parse now backend = Inr r"
  shows "\<exists>reply data items t. backend = Inr (Some reply) \<and> parse (cleanText_A reply) = Inr data
      \<and> getProp data ''questions'' = Some (JArr items)
      \<and> r = JObj [(''title'', t), (''questions'', JArr (assignIds now items))]"
  using assms
  by (auto simp: tryExtract_A_def split: sum.splits option.splits if_splits json.splits)

lemma tryExtract_B_inv:
  assumes "tryExtract_B parse now backend = Inr r"
  shows "\<exists>reply data items t. backend = Inr (Some reply) \<and> parse (cleanText_B reply) = Inr data
      \<and> getProp data ''questions'' = Some (JArr items)
      \<and> r = JObj [(''title'', t), (''questions'', JArr (assignIds now items))]"
  using assms
  by (auto simp: tryExtract_B_def split: sum.splits option.splits if_splits json.splits)

lemma extract_A_records:
  assumes x: "extractMCQsFromText_A parse now backend = Inr r"
    and y: "asExtractionResult r = Some er"
  shows "\<exists>reply data items. backend = Inr (Some reply) \<and> parse (cleanText_A reply) = Inr data
      \<and> getProp data ''questions'' = Some (JArr items)
      \<and> map (\<lambda>q. asString (getProp q ''correctAnswer'')) items
          = map (\<lambda>m. Some (correctAnswer m)) (questions_ER er)
      \<and> map (\<lambda>q. asStrings (getProp q ''options'')) items
          = map (\<lambda>m. Some (options m)) (questions_ER er)"
proof -
  from x have "tryExtract_A parse now backend = Inr r"
    by (simp add: extractMCQsFromText_A_def split: sum.splits js_error.splits)
  from tryExtract_A_inv [OF this] obtain reply data items t where
    a: "backend = Inr (Some reply)" and b: "parse (cleanText_A reply) = Inr data"
    and c: "getProp data ''questions'' = Some (JArr items)"
    and d: "r = JObj [(''title'', t), (''questions'', JArr (assignIds now items))]"
    by (elim exE conjE)
  from y have "those (map asMCQ (assignIds now items)) = Some (questions_ER er)"
    unfolding d by (rule asExtractionResult_questions)
  note e = records_of_assignIds [OF this]
  from a b c e
  have "backend = Inr (Some reply) \<and> parse (cleanText_A reply) = Inr data
      \<and> getProp data ''questions'' = Some (JArr items)
      \<and> map (\<lambda>q. asString (getProp q ''correctAnswer'')) items
          = map (\<lambda>m. Some (correctAnswer m)) (questions_ER er)
      \<and> map (\<lambda>q. asStrings (getProp q ''options'')) items
          = map (\<lambda>m. Some (options m)) (questions_ER er)"
    by (intro conjI) (elim conjE, assumption)+
  then show ?thesis by (intro exI)
qed

lemma extract_B_records:
  assumes x: "extractMCQsFromText_B parse now backend = Inr r"
    and y: "asExtractionResult r = Some er"
  shows "\<exists>reply data items. backend = Inr (Some reply) \<and> parse (cleanText_B reply) = Inr data
      \<and> getProp data ''questions'' = Some (JArr items)
      \<and> map (\<lambda>q. asString (getProp q ''correctAnswer'')) items
          = map (\<lambda>m. Some (correctAnswer m)) (questions_ER er)
      \<and> map (\<lambda>q. asStrings (getProp q ''options'')) items
          = map (\<lambda>m. Some (options m)) (questions_ER er)"
proof -
  from x have "tryExtract_B parse now backend = Inr r"
    by (simp add: extractMCQsFromText_B_def split: sum.splits)
  from tryExtract_B_inv [OF this] obtain reply data items t where
    a: "backend = Inr (Some reply)" and b: "parse (cleanText_B reply) = Inr data"
    and c: "getProp data ''questions'' = Some (JArr items)"
    and d: "r = JObj [(''title'', t), (''questions'', JArr (assignIds now items))]"
    by (elim exE conjE)
  from y have "those (map asMCQ (assignIds now items)) = Some (questions_ER er)"
    unfolding d by (rule asExtractionResult_questions)
  note e = records_of_assignIds [OF this]
  from a b c e
  have "backend = Inr (Some reply) \<and> parse (cleanText_B reply) = Inr data
      \<and> getProp data ''questions'' = Some (JArr items)
      \<and> map (\<lambda>q. asString (getProp q ''correctAnswer'')) items
          = map (\<lambda>m. Some (correctAnswer m)) (questions_ER er)
      \<and> map (\<lambda>q. asStrings (getProp q ''options'')) items
          = map (\<lambda>m. Some (options m)) (questions_ER er)"
    by (intro conjI) (elim conjE, assumption)+
  then show ?thesis by (intro exI)
qed

lemma questions_handleFileUpload_A:
  "(questions_App (handleFileUpload_A u s) = questions_App s
      \<and> questions (quizState (handleFileUpload_A u s)) = questions (quizState s))
   \<or> (\<exists>er. extraction u = Inr er
        \<and> questions_App (handleFileUpload_A u s) = questions_ER er
        \<and> questions (quizState (handleFileUpload_A u s)) = questions_ER er)"
  by (simp add: handleFileUpload_A_def catchUpload_def freshQuizState_def Let_def
        split: sum.splits)

lemma questions_handleFileUpload_B:
  "(questions_App (handleFileUpload_B u s) = questions_App s
      \<and> questions (quizState (handleFileUpload_B u s)) = questions (quizState s))
   \<or> (\<exists>er. extraction u = Inr er
        \<and> questions_App (handleFileUpload_B u s) = questions_ER er
        \<and> questions (quizState (handleFileUpload_B u s)) = questions_ER er)"
  by (simp add: handleFileUpload_B_def catchUpload_def freshQuizState_def Let_def
        split: sum.splits)

lemma extract_A_strayDocument:
  "extractMCQsFromText_A exampleParse exampleNow (Inr (Some strayDocument))
     = Inr (JObj [(''title'', JStr ''Untitled Quiz''),
                  (''questions'',
                   JArr [JObj [(''id'', JStr ''q-0-1700000000000''),
                               (''question'', JStr ''Q1''),
                               (''options'', JArr [JStr ''A'', JStr ''B'', JStr ''C'', JStr ''D'']),
                               (''correctAnswer'', JStr ''Z''),
                               (''explanation'', JStr ''E''),
                               (''pageNumber'', JNum 1),
                               (''confidence'', JNum (1 / 2))]])])"
proof -
  have n: "newId exampleNow 0 = ''q-0-1700000000000''"
    by (simp add: newId_def exampleNow_def show_nat.simps digit_char_def)
  have c: "cleanText_A strayDocument = strayDocument"
    by (simp add: cleanText_A_def strayDocument_def trim_def isWhiteSpace_def startsWith_def
          fence_def)
  have q: "exampleParse strayDocument = Inr strayValue"
    by (simp add: exampleParse_def tableParse_def strayDocument_def scenarioDocument_def)
  have ne: "strayDocument \<noteq> []" by (simp add: strayDocument_def)
  show ?thesis
    using ne
    by (simp add: extractMCQsFromText_A_def tryExtract_A_def c q strayValue_def assignIds_def
          enumerate_eq_zip spreadWithId_def n)
qed

lemma asExtractionResult_stray:
  "asExtractionResult
         (JObj [(''title'', JStr ''Untitled Quiz''),
                (''questions'',
                 JArr [JObj [(''id'', JStr ''q-0-1700000000000''),
                             (''question'', JStr ''Q1''),
                             (''options'', JArr [JStr ''A'', JStr ''B'', JStr ''C'', JStr ''D'']),
                             (''correctAnswer'', JStr ''Z''),
                             (''explanation'', JStr ''E''),
                             (''pageNumber'', JNum 1),
                             (''confidence'', JNum (1 / 2))]])])
       = Some \<lparr> title = ''Untitled Quiz'', questions_ER = [strayQuestion] \<rparr>"
  by (simp add: asExtractionResult_def asMCQ_def strayQuestion_def)

lemma merge_keeps_answer_and_options:
  "options_p u = None \<and> correctAnswer_p u = None
   \<longrightarrow> correctAnswer (merge q u) = correctAnswer q \<and> options (merge q u) = options q"
  by (simp add: merge_def)

lemma merge_answerAmongOptions:
  assumes "options_p u = None"
    and "case correctAnswer_p u of None \<Rightarrow> answerAmongOptions q | Some v \<Rightarrow> v \<in> set (options q)"
  shows "answerAmongOptions (merge q u)"
  using assms by (auto simp: merge_def answerAmongOptions_def split: option.splits)

lemma map_merge_answerAmongOptions:
  assumes "options_p u = None"
    and "\<forall>q \<in> set qs. answerAmongOptions q"
    and "case correctAnswer_p u of
           None \<Rightarrow> True
         | Some v \<Rightarrow> \<forall>q \<in> set qs. id_q q = i \<longrightarrow> v \<in> set (options q)"
  shows "\<forall>q \<in> set (map (\<lambda>q. if id_q q = i then merge q u else q) qs). answerAmongOptions q"
proof -
  have "answerAmongOptions (if id_q q = i then merge q u else q)" if "q \<in> set qs" for q
  proof (cases "id_q q = i")
    case False
    with assms(2) that show ?thesis by simp
  next
    case True
    have "case correctAnswer_p u of None \<Rightarrow> answerAmongOptions q | Some v \<Rightarrow> v \<in> set (options q)"
      using assms(2,3) that True by (auto split: option.splits)
    from merge_answerAmongOptions [OF assms(1) this] True show ?thesis by simp
  qed
  then have "\<forall>q \<in> set qs. answerAmongOptions ((\<lambda>q. if id_q q = i then merge q u else q) q)"
    by blast
  then show ?thesis unfolding set_map by blast
qed

text \<open>
  Claim C7, as the code has it. The extraction checks nothing: the record it makes of an
  item of the reply carries the \<open>correctAnswer\<close> and the \<open>options\<close> of that item unchanged,
  so it has its correct answer among its options (or the text for a missing answer)
  exactly when the backend's item has. An edit that replaces neither the options nor
  the correct answer (an edit of the question text or of the explanation), and an edit
  that sets the correct answer to one of the options of the edited question (what the
  selection list of the admin screen offers), keep the invariant in the quiz and in the
  session. Edits of the options, which only variant B offers, are not covered.

  For the extractors themselves: whenever a call succeeds and its result reads as an
  \<open>ExtractionResult\<close>, the questions of the result are, one for one and in order, the
  items of the \<open>questions\<close> array that the decoder returned for the prepared reply, each
  with the \<open>correctAnswer\<close> and the \<open>options\<close> of its item. Conversely every decoded
  array of items is returned, element \<open>j\<close> as the spread of item \<open>j\<close> with its new id, and
  an item with well-typed fields reads as the record with exactly these fields. An
  upload stores the questions of the extraction result as they are, or leaves the quiz
  and the session as they were.
\<close>

theorem answer_among_options_kept:
  "(asMCQ (spreadWithId (JObj fs) i) = Some m
      \<longrightarrow> asString (map_of fs ''correctAnswer'') = Some (correctAnswer m)
        \<and> asStrings (map_of fs ''options'') = Some (options m))
   \<and> (options_p u = None
        \<and> (\<forall>q \<in> set (questions_App s). answerAmongOptions q)
        \<and> (\<forall>q \<in> set (questions (quizState s)). answerAmongOptions q)
        \<and> (case correctAnswer_p u of
              None \<Rightarrow> True
            | Some v \<Rightarrow> (\<forall>q \<in> set (questions_App s). id_q q = k \<longrightarrow> v \<in> set (options q))
                      \<and> (\<forall>q \<in> set (questions (quizState s)).
                             id_q q = k \<longrightarrow> v \<in> set (options q)))
      \<longrightarrow> (\<forall>q \<in> set (questions_App (saveEditedQuestion k u s)). answerAmongOptions q)
        \<and> (\<forall>q \<in> set (questions (quizState (saveEditedQuestion k u s))). answerAmongOptions q))
   \<and> (extractMCQsFromText_A parse now backend = Inr r \<and> asExtractionResult r = Some er
      \<longrightarrow> (\<exists>reply data items.
             backend = Inr (Some reply) \<and> parse (cleanText_A reply) = Inr data
           \<and> getProp data ''questions'' = Some (JArr items)
           \<and> map (\<lambda>q. asString (getProp q ''correctAnswer'')) items
               = map (\<lambda>m. Some (correctAnswer m)) (questions_ER er)
           \<and> map (\<lambda>q. asStrings (getProp q ''options'')) items
               = map (\<lambda>m. Some (options m)) (questions_ER er)))
   \<and> (extractMCQsFromText_B parse now backend = Inr r \<and> asExtractionResult r = Some er
      \<longrightarrow> (\<exists>reply data items.
             backend = Inr (Some reply) \<and> parse (cleanText_B reply) = Inr data
           \<and> getProp data ''questions'' = Some (JArr items)
           \<and> map (\<lambda>q. asString (getProp q ''correctAnswer'')) items
               = map (\<lambda>m. Some (correctAnswer m)) (questions_ER er)
           \<and> map (\<lambda>q. asStrings (getProp q ''options'')) items
               = map (\<lambda>m. Some (options m)) (questions_ER er)))
   \<and> (doc \<noteq> [] \<and> parse (cleanText_A doc) = Inr val
        \<and> getProp val ''questions'' = Some (JArr elems)
      \<longrightarrow> (\<exists>t. extractMCQsFromText_A parse now (Inr (Some doc))
               = Inr (JObj [(''title'', t), (''questions'', JArr (assignIds now elems))])))
   \<and> (doc \<noteq> [] \<and> parse (cleanText_B doc) = Inr val
        \<and> getProp val ''questions'' = Some (JArr elems)
      \<longrightarrow> (\<exists>t. extractMCQsFromText_B parse now (Inr (Some doc))
               = Inr (JObj [(''title'', t), (''questions'', JArr (assignIds now elems))])))
   \<and> (j < length elems
      \<longrightarrow> assignIds now elems ! j = spreadWithId (elems ! j) (newId now j))
   \<and> (asString (map_of fs ''question'') = Some qn
        \<and> asStrings (map_of fs ''options'') = Some os
        \<and> asString (map_of fs ''correctAnswer'') = Some c
        \<and> asString (map_of fs ''explanation'') = Some ex
        \<and> asNumber (map_of fs ''pageNumber'') = Some pg
        \<and> asNumber (map_of fs ''confidence'') = Some cf
      \<longrightarrow> asMCQ (spreadWithId (JObj fs) i)
          = Some \<lparr> id_q = i, question = qn, options = os, correctAnswer = c,
                   explanation = ex, pageNumber = pg, confidence = cf \<rparr>)
   \<and> ((questions_App (handleFileUpload_A up s) = questions_App s
          \<and> questions (quizState (handleFileUpload_A up s)) = questions (quizState s))
        \<or> (\<exists>er. extraction up = Inr er
              \<and> questions_App (handleFileUpload_A up s) = questions_ER er
              \<and> questions (quizState (handleFileUpload_A up s)) = questions_ER er))
   \<and> ((questions_App (handleFileUpload_B up s) = questions_App s
          \<and> questions (quizState (handleFileUpload_B up s)) = questions (quizState s))
        \<or> (\<exists>er. extraction up = Inr er
              \<and> questions_App (handleFileUpload_B up s) = questions_ER er
              \<and> questions (quizState (handleFileUpload_B up s)) = questions_ER er))"
proof -
  have 1: "asMCQ (spreadWithId (JObj fs) i) = Some m
      \<longrightarrow> asString (map_of fs ''correctAnswer'') = Some (correctAnswer m)
        \<and> asStrings (map_of fs ''options'') = Some (options m)"
  proof
    assume a: "asMCQ (spreadWithId (JObj fs) i) = Some m"
    from asMCQ_spreadWithId [OF a]
    have x: "asString (map_of fs ''correctAnswer'') = Some (correctAnswer m)" by (elim conjE)
    from asMCQ_spreadWithId [OF a]
    have y: "asStrings (map_of fs ''options'') = Some (options m)" by (elim conjE)
    from x y show "asString (map_of fs ''correctAnswer'') = Some (correctAnswer m)
        \<and> asStrings (map_of fs ''options'') = Some (options m)" by (rule conjI)
  qed
  have 2: "options_p u = None
        \<and> (\<forall>q \<in> set (questions_App s). answerAmongOptions q)
        \<and> (\<forall>q \<in> set (questions (quizState s)). answerAmongOptions q)
        \<and> (case correctAnswer_p u of
              None \<Rightarrow> True
            | Some v \<Rightarrow> (\<forall>q \<in> set (questions_App s). id_q q = k \<longrightarrow> v \<in> set (options q))
                      \<and> (\<forall>q \<in> set (questions (quizState s)).
                             id_q q = k \<longrightarrow> v \<in> set (options q)))
      \<longrightarrow> (\<forall>q \<in> set (questions_App (saveEditedQuestion k u s)). answerAmongOptions q)
        \<and> (\<forall>q \<in> set (questions (quizState (saveEditedQuestion k u s))). answerAmongOptions q)"
  proof
    assume h: "options_p u = None
        \<and> (\<forall>q \<in> set (questions_App s). answerAmongOptions q)
        \<and> (\<forall>q \<in> set (questions (quizState s)). answerAmongOptions q)
        \<and> (case correctAnswer_p u of
              None \<Rightarrow> True
            | Some v \<Rightarrow> (\<forall>q \<in> set (questions_App s). id_q q = k \<longrightarrow> v \<in> set (options q))
                      \<and> (\<forall>q \<in> set (questions (quizState s)).
                             id_q q = k \<longrightarrow> v \<in> set (options q)))"
    from h have o: "options_p u = None" by (elim conjE)
    from h have m1: "\<forall>q \<in> set (questions_App s). answerAmongOptions q" by (elim conjE)
    from h have m2: "\<forall>q \<in> set (questions (quizState s)). answerAmongOptions q" by (elim conjE)
    from h have c: "case correctAnswer_p u of
              None \<Rightarrow> True
            | Some v \<Rightarrow> (\<forall>q \<in> set (questions_App s). id_q q = k \<longrightarrow> v \<in> set (options q))
                      \<and> (\<forall>q \<in> set (questions (quizState s)).
                             id_q q = k \<longrightarrow> v \<in> set (options q))" by (elim conjE)
    from c have c1: "case correctAnswer_p u of
           None \<Rightarrow> True
         | Some v \<Rightarrow> \<forall>q \<in> set (questions_App s). id_q q = k \<longrightarrow> v \<in> set (options q)"
      by (simp split: option.splits)
    from c have c2: "case correctAnswer_p u of
           None \<Rightarrow> True
         | Some v \<Rightarrow> \<forall>q \<in> set (questions (quizState s)). id_q q = k \<longrightarrow> v \<in> set (options q)"
      by (simp split: option.splits)
    from map_merge_answerAmongOptions [OF o m1 c1]
    have x: "\<forall>q \<in> set (questions_App (saveEditedQuestion k u s)). answerAmongOptions q"
      by (simp add: saveEditedQuestion_def)
    from map_merge_answerAmongOptions [OF o m2 c2]
    have y: "\<forall>q \<in> set (questions (quizState (saveEditedQuestion k u s))). answerAmongOptions q"
      by (simp add: saveEditedQuestion_def)
    from x y
    show "(\<forall>q \<in> set (questions_App (saveEditedQuestion k u s)). answerAmongOptions q)
        \<and> (\<forall>q \<in> set (questions (quizState (saveEditedQuestion k u s))). answerAmongOptions q)"
      by (rule conjI)
  qed
  have 3: "extractMCQsFromText_A parse now backend = Inr r \<and> asExtractionResult r = Some er
      \<longrightarrow> (\<exists>reply data items.
             backend = Inr (Some reply) \<and> parse (cleanText_A reply) = Inr data
           \<and> getProp data ''questions'' = Some (JArr items)
           \<and> map (\<lambda>q. asString (getProp q ''correctAnswer'')) items
               = map (\<lambda>m. Some (correctAnswer m)) (questions_ER er)
           \<and> map (\<lambda>q. asStrings (getProp q ''options'')) items
               = map (\<lambda>m. Some (options m)) (questions_ER er))"
  proof
    assume h: "extractMCQsFromText_A parse now backend = Inr r \<and> asExtractionResult r = Some er"
    from h have a: "extractMCQsFromText_A parse now backend = Inr r" by (elim conjE)
    from h have b: "asExtractionResult r = Some er" by (elim conjE)
    from extract_A_records [where parse = parse and now = now and backend = backend, OF a b]
    show "\<exists>reply data items.
             backend = Inr (Some reply) \<and> parse (cleanText_A reply) = Inr data
           \<and> getProp data ''questions'' = Some (JArr items)
           \<and> map (\<lambda>q. asString (getProp q ''correctAnswer'')) items
               = map (\<lambda>m. Some (correctAnswer m)) (questions_ER er)
           \<and> map (\<lambda>q. asStrings (getProp q ''options'')) items
               = map (\<lambda>m. Some (options m)) (questions_ER er)" .
  qed
  have 4: "extractMCQsFromText_B parse now backend = Inr r \<and> asExtractionResult r = Some er
      \<longrightarrow> (\<exists>reply data items.
             backend = Inr (Some reply) \<and> parse (cleanText_B reply) = Inr data
           \<and> getProp data ''questions'' = Some (JArr items)
           \<and> map (\<lambda>q. asString (getProp q ''correctAnswer'')) items
               = map (\<lambda>m. Some (correctAnswer m)) (questions_ER er)
           \<and> map (\<lambda>q. asStrings (getProp q ''options'')) items
               = map (\<lambda>m. Some (options m)) (questions_ER er))"
  proof
    assume h: "extractMCQsFromText_B parse now backend = Inr r \<and> asExtractionResult r = Some er"
    from h have a: "extractMCQsFromText_B parse now backend = Inr r" by (elim conjE)
    from h have b: "asExtractionResult r = Some er" by (elim conjE)
    from extract_B_records [where parse = parse and now = now and backend = backend, OF a b]
    show "\<exists>reply data items.
             backend = Inr (Some reply) \<and> parse (cleanText_B reply) = Inr data
           \<and> getProp data ''questions'' = Some (JArr items)
           \<and> map (\<lambda>q. asString (getProp q ''correctAnswer'')) items
               = map (\<lambda>m. Some (correctAnswer m)) (questions_ER er)
           \<and> map (\<lambda>q. asStrings (getProp q ''options'')) items
               = map (\<lambda>m. Some (options m)) (questions_ER er)" .
  qed
  have 5: "doc \<noteq> [] \<and> parse (cleanText_A doc) = Inr val
        \<and> getProp val ''questions'' = Some (JArr elems)
      \<longrightarrow> (\<exists>t. extractMCQsFromText_A parse now (Inr (Some doc))
               = Inr (JObj [(''title'', t), (''questions'', JArr (assignIds now elems))]))"
  proof
    assume h: "doc \<noteq> [] \<and> parse (cleanText_A doc) = Inr val
        \<and> getProp val ''questions'' = Some (JArr elems)"
    from h have a: "doc \<noteq> []" by (elim conjE)
    from h have b: "parse (cleanText_A doc) = Inr val" by (elim conjE)
    from h have c: "getProp val ''questions'' = Some (JArr elems)" by (elim conjE)
    from extract_A_decoded [where parse = parse and now = now, OF a b c]
    show "\<exists>t. extractMCQsFromText_A parse now (Inr (Some doc))
               = Inr (JObj [(''title'', t), (''questions'', JArr (assignIds now elems))])"
      by (intro exI)
  qed
  have 6: "doc \<noteq> [] \<and> parse (cleanText_B doc) = Inr val
        \<and> getProp val ''questions'' = Some (JArr elems)
      \<longrightarrow> (\<exists>t. extractMCQsFromText_B parse now (Inr (Some doc))
               = Inr (JObj [(''title'', t), (''questions'', JArr (assignIds now elems))]))"
  proof
    assume h: "doc \<noteq> [] \<and> parse (cleanText_B doc) = Inr val
        \<and> getProp val ''questions'' = Some (JArr elems)"
    from h have a: "doc \<noteq> []" by (elim conjE)
    from h have b: "parse (cleanText_B doc) = Inr val" by (elim conjE)
    from h have c: "getProp val ''questions'' = Some (JArr elems)" by (elim conjE)
    from extract_B_decoded [where parse = parse and now = now, OF a b c]
    show "\<exists>t. extractMCQsFromText_B parse now (Inr (Some doc))
               = Inr (JObj [(''title'', t), (''questions'', JArr (assignIds now elems))])"
      by (intro exI)
  qed
  have 7: "j < length elems
      \<longrightarrow> assignIds now elems ! j = spreadWithId (elems ! j) (newId now j)"
    by (rule impI) (rule assignIds_nth)
  have 8: "asString (map_of fs ''question'') = Some qn
        \<and> asStrings (map_of fs ''options'') = Some os
        \<and> asString (map_of fs ''correctAnswer'') = Some c
        \<and> asString (map_of fs ''explanation'') = Some ex
        \<and> asNumber (map_of fs ''pageNumber'') = Some pg
        \<and> asNumber (map_of fs ''confidence'') = Some cf
      \<longrightarrow> asMCQ (spreadWithId (JObj fs) i)
          = Some \<lparr> id_q = i, question = qn, options = os, correctAnswer = c,
                   explanation = ex, pageNumber = pg, confidence = cf \<rparr>"
  proof
    assume h: "asString (map_of fs ''question'') = Some qn
        \<and> asStrings (map_of fs ''options'') = Some os
        \<and> asString (map_of fs ''correctAnswer'') = Some c
        \<and> asString (map_of fs ''explanation'') = Some ex
        \<and> asNumber (map_of fs ''pageNumber'') = Some pg
        \<and> asNumber (map_of fs ''confidence'') = Some cf"
    from h have a1: "asString (map_of fs ''question'') = Some qn" by (elim conjE)
    from h have a2: "asStrings (map_of fs ''options'') = Some os" by (elim conjE)
    from h have a3: "asString (map_of fs ''correctAnswer'') = Some c" by (elim conjE)
    from h have a4: "asString (map_of fs ''explanation'') = Some ex" by (elim conjE)
    from h have a5: "asNumber (map_of fs ''pageNumber'') = Some pg" by (elim conjE)
    from h have a6: "asNumber (map_of fs ''confidence'') = Some cf" by (elim conjE)
    from a1 a2 a3 a4 a5 a6
    show "asMCQ (spreadWithId (JObj fs) i)
          = Some \<lparr> id_q = i, question = qn, options = os, correctAnswer = c,
                   explanation = ex, pageNumber = pg, confidence = cf \<rparr>"
      by (rule asMCQ_spreadWithId_typed)
  qed
  note 9 = questions_handleFileUpload_A [of up s]
  note 10 = questions_handleFileUpload_B [of up s]
  from 1 2 3 4 5 6 7 8 9 10 show ?thesis by (intro conjI)
qed

theorem answer_among_options_kept_witness:
  "asMCQ (spreadWithId
            (JObj [(''id'', JStr ''mine''), (''question'', JStr ''Q1''),
                   (''options'', JArr [JStr ''A'', JStr ''B'', JStr ''C'', JStr ''D'']),
                   (''correctAnswer'', JStr ''Z''), (''explanation'', JStr ''E''),
                   (''pageNumber'', JNum 1), (''confidence'', JNum (1 / 2))])
            ''q-0-1700000000000'') = Some strayQuestion
   \<and> correctAnswer strayQuestion = ''Z''
   \<and> list_all answerAmongOptions (questions_App exampleApp)
   \<and> list_all answerAmongOptions
        (questions_App
           (saveEditedQuestion ''q4''
              \<lparr> id_p = None, question_p = None, options_p = None, correctAnswer_p = Some ''A'',
                explanation_p = None, pageNumber_p = None, confidence_p = None \<rparr> exampleApp))
   \<and> map correctAnswer (questions_App
         (saveEditedQuestion ''q4''
            \<lparr> id_p = None, question_p = None, options_p = None, correctAnswer_p = Some ''A'',
              explanation_p = None, pageNumber_p = None, confidence_p = None \<rparr> exampleApp))
       = [''A'', ''B'', ''C'', ''A'', ''A'']
   \<and> (\<exists>reply data items.
         Inr (Some strayDocument) = (Inr (Some reply) :: js_error + string option)
       \<and> exampleParse (cleanText_A reply) = Inr data
       \<and> getProp data ''questions'' = Some (JArr items)
       \<and> map (\<lambda>q. asString (getProp q ''correctAnswer'')) items = [Some ''Z'']
       \<and> map (\<lambda>q. asStrings (getProp q ''options'')) items = [Some [''A'', ''B'', ''C'', ''D'']])
   \<and> (\<exists>t. extractMCQsFromText_B exampleParse exampleNow (Inr (Some strayDocument))
          = Inr (JObj [(''title'', t),
                       (''questions'', JArr (assignIds exampleNow
                          [JObj [(''id'', JStr ''mine''), (''question'', JStr ''Q1''),
                                 (''options'', JArr [JStr ''A'', JStr ''B'', JStr ''C'', JStr ''D'']),
                                 (''correctAnswer'', JStr ''Z''), (''explanation'', JStr ''E''),
                                 (''pageNumber'', JNum 1), (''confidence'', JNum (1 / 2))]]))]))
   \<and> assignIds exampleNow
        [JObj [(''id'', JStr ''mine''), (''question'', JStr ''Q1''),
               (''options'', JArr [JStr ''A'', JStr ''B'', JStr ''C'', JStr ''D'']),
               (''correctAnswer'', JStr ''Z''), (''explanation'', JStr ''E''),
               (''pageNumber'', JNum 1), (''confidence'', JNum (1 / 2))]] ! 0
       = spreadWithId
           (JObj [(''id'', JStr ''mine''), (''question'', JStr ''Q1''),
                  (''options'', JArr [JStr ''A'', JStr ''B'', JStr ''C'', JStr ''D'']),
                  (''correctAnswer'', JStr ''Z''), (''explanation'', JStr ''E''),
                  (''pageNumber'', JNum 1), (''confidence'', JNum (1 / 2))])
           ''q-0-1700000000000''"
proof -
  let ?fs = "[(''id'', JStr ''mine''), (''question'', JStr ''Q1''),
                   (''options'', JArr [JStr ''A'', JStr ''B'', JStr ''C'', JStr ''D'']),
                   (''correctAnswer'', JStr ''Z''), (''explanation'', JStr ''E''),
                   (''pageNumber'', JNum 1), (''confidence'', JNum (1 / 2))]"
  let ?u = "\<lparr> id_p = None, question_p = None, options_p = None, correctAnswer_p = Some ''A'',
              explanation_p = None, pageNumber_p = None, confidence_p = None \<rparr>"
  let ?r = "JObj [(''title'', JStr ''Untitled Quiz''),
                  (''questions'',
                   JArr [JObj [(''id'', JStr ''q-0-1700000000000''),
                               (''question'', JStr ''Q1''),
                               (''options'', JArr [JStr ''A'', JStr ''B'', JStr ''C'', JStr ''D'']),
                               (''correctAnswer'', JStr ''Z''),
                               (''explanation'', JStr ''E''),
                               (''pageNumber'', JNum 1),
                               (''confidence'', JNum (1 / 2))]])]"
  let ?er = "\<lparr> title = ''Untitled Quiz'', questions_ER = [strayQuestion] \<rparr>"
  note th = answer_among_options_kept
    [where fs = ?fs and i = "''q-0-1700000000000''" and m = strayQuestion
       and u = ?u and s = exampleApp and k = "''q4''"
       and parse = exampleParse and now = exampleNow and backend = "Inr (Some strayDocument)"
       and r = ?r and er = ?er and doc = strayDocument and val = strayValue
       and elems = "[JObj ?fs]" and j = 0
       and qn = "''Q1''" and os = "[''A'', ''B'', ''C'', ''D'']" and c = "''Z''"
       and ex = "''E''" and pg = 1 and cf = "1 / 2"]
  have h8: "asString (map_of ?fs ''question'') = Some ''Q1''
        \<and> asStrings (map_of ?fs ''options'') = Some [''A'', ''B'', ''C'', ''D'']
        \<and> asString (map_of ?fs ''correctAnswer'') = Some ''Z''
        \<and> asString (map_of ?fs ''explanation'') = Some ''E''
        \<and> asNumber (map_of ?fs ''pageNumber'') = Some 1
        \<and> asNumber (map_of ?fs ''confidence'') = Some (1 / 2)"
    by simp
  from th [THEN conjunct2, THEN conjunct2, THEN conjunct2, THEN conjunct2, THEN conjunct2,
           THEN conjunct2, THEN conjunct2, THEN conjunct1] h8
  have "asMCQ (spreadWithId (JObj ?fs) ''q-0-1700000000000'')
      = Some \<lparr> id_q = ''q-0-1700000000000'', question = ''Q1'',
               options = [''A'', ''B'', ''C'', ''D''], correctAnswer = ''Z'',
               explanation = ''E'', pageNumber = 1, confidence = 1 / 2 \<rparr>"
    by (rule mp)
  then have h1: "asMCQ (spreadWithId (JObj ?fs) ''q-0-1700000000000'') = Some strayQuestion"
    by (simp only: strayQuestion_def)
  have inv1: "\<forall>q \<in> set (questions_App exampleApp). answerAmongOptions q"
    by (simp add: exampleApp_def exampleQuestions_def exampleQuestion_def answerAmongOptions_def)
  have inv2: "\<forall>q \<in> set (questions (quizState exampleApp)). answerAmongOptions q"
    by (simp add: exampleApp_def exampleQuestions_def exampleQuestion_def answerAmongOptions_def)
  have sel: "case correctAnswer_p ?u of
              None \<Rightarrow> True
            | Some v \<Rightarrow> (\<forall>q \<in> set (questions_App exampleApp). id_q q = ''q4'' \<longrightarrow> v \<in> set (options q))
                      \<and> (\<forall>q \<in> set (questions (quizState exampleApp)).
                             id_q q = ''q4'' \<longrightarrow> v \<in> set (options q))"
    by (simp add: exampleApp_def exampleQuestions_def exampleQuestion_def)
  have o: "options_p ?u = None" by simp
  have h2: "options_p ?u = None
        \<and> (\<forall>q \<in> set (questions_App exampleApp). answerAmongOptions q)
        \<and> (\<forall>q \<in> set (questions (quizState exampleApp)). answerAmongOptions q)
        \<and> (case correctAnswer_p ?u of
              None \<Rightarrow> True
            | Some v \<Rightarrow> (\<forall>q \<in> set (questions_App exampleApp). id_q q = ''q4'' \<longrightarrow> v \<in> set (options q))
                      \<and> (\<forall>q \<in> set (questions (quizState exampleApp)).
                             id_q q = ''q4'' \<longrightarrow> v \<in> set (options q)))"
    using o inv1 inv2 sel by (intro conjI)
  from th [THEN conjunct1] h1
  have c1: "asString (map_of ?fs ''correctAnswer'') = Some (correctAnswer strayQuestion)
        \<and> asStrings (map_of ?fs ''options'') = Some (options strayQuestion)"
    by (rule mp)
  then have z: "correctAnswer strayQuestion = ''Z''" by simp
  from th [THEN conjunct2, THEN conjunct1] h2
  have c2: "(\<forall>q \<in> set (questions_App (saveEditedQuestion ''q4'' ?u exampleApp)). answerAmongOptions q)
        \<and> (\<forall>q \<in> set (questions (quizState (saveEditedQuestion ''q4'' ?u exampleApp))).
              answerAmongOptions q)"
    by (rule mp)
  have ans: "map correctAnswer (questions_App (saveEditedQuestion ''q4'' ?u exampleApp))
       = [''A'', ''B'', ''C'', ''A'', ''A'']"
    by (simp add: saveEditedQuestion_def merge_def exampleApp_def exampleQuestions_def
          exampleQuestion_def)
  from inv1 have l1: "list_all answerAmongOptions (questions_App exampleApp)"
    by (simp only: list_all_iff)
  from c2 [THEN conjunct1]
  have l2: "list_all answerAmongOptions
        (questions_App (saveEditedQuestion ''q4'' ?u exampleApp))"
    by (simp only: list_all_iff)
  from conjI [OF extract_A_strayDocument asExtractionResult_stray]
  have h3: "extractMCQsFromText_A exampleParse exampleNow (Inr (Some strayDocument)) = Inr ?r
        \<and> asExtractionResult ?r = Some ?er" .
  from th [THEN conjunct2, THEN conjunct2, THEN conjunct1] h3
  have "\<exists>reply data items.
         Inr (Some strayDocument) = (Inr (Some reply) :: js_error + string option)
       \<and> exampleParse (cleanText_A reply) = Inr data
       \<and> getProp data ''questions'' = Some (JArr items)
       \<and> map (\<lambda>q. asString (getProp q ''correctAnswer'')) items
           = map (\<lambda>m. Some (correctAnswer m)) (questions_ER ?er)
       \<and> map (\<lambda>q. asStrings (getProp q ''options'')) items
           = map (\<lambda>m. Some (options m)) (questions_ER ?er)"
    by (rule mp)
  then have c3: "\<exists>reply data items.
         Inr (Some strayDocument) = (Inr (Some reply) :: js_error + string option)
       \<and> exampleParse (cleanText_A reply) = Inr data
       \<and> getProp data ''questions'' = Some (JArr items)
       \<and> map (\<lambda>q. asString (getProp q ''correctAnswer'')) items = [Some ''Z'']
       \<and> map (\<lambda>q. asStrings (getProp q ''options'')) items = [Some [''A'', ''B'', ''C'', ''D'']]"
    by (simp add: strayQuestion_def)
  have h6: "strayDocument \<noteq> [] \<and> exampleParse (cleanText_B strayDocument) = Inr strayValue
        \<and> getProp strayValue ''questions'' = Some (JArr [JObj ?fs])"
    by (simp add: cleanText_B_def trim_def isWhiteSpace_def exampleParse_def tableParse_def
          strayDocument_def scenarioDocument_def strayValue_def)
  from th [THEN conjunct2, THEN conjunct2, THEN conjunct2, THEN conjunct2, THEN conjunct2,
           THEN conjunct1] h6
  have c6: "\<exists>t. extractMCQsFromText_B exampleParse exampleNow (Inr (Some strayDocument))
          = Inr (JObj [(''title'', t), (''questions'', JArr (assignIds exampleNow [JObj ?fs]))])"
    by (rule mp)
  have h7: "0 < length [JObj ?fs]" by simp
  have n: "newId exampleNow 0 = ''q-0-1700000000000''"
    by (simp add: newId_def exampleNow_def show_nat.simps digit_char_def)
  from th [THEN conjunct2, THEN conjunct2, THEN conjunct2, THEN conjunct2, THEN conjunct2,
           THEN conjunct2, THEN conjunct1] h7
  have "assignIds exampleNow [JObj ?fs] ! 0
      = spreadWithId ([JObj ?fs] ! 0) (newId exampleNow 0)"
    by (rule mp)
  then have c7: "assignIds exampleNow [JObj ?fs] ! 0
      = spreadWithId (JObj ?fs) ''q-0-1700000000000''"
    by (simp only: n nth_Cons_0)
  from h1 z l1 l2 ans c3 c6 c7 show ?thesis by (intro conjI)
qed

text \<open>
  The claim as stated fails for the extraction: the record made of the stray document
  has the correct answer \<open>Z\<close>, which is neither one of its options nor the text for a
  missing answer.
\<close>

theorem extraction_keeps_stray_answer_counterexample:
  "extractMCQsFromText_A exampleParse exampleNow (Inr (Some strayDocument))
     = Inr (JObj [(''title'', JStr ''Untitled Quiz''),
                  (''questions'',
                   JArr [JObj [(''id'', JStr ''q-0-1700000000000''),
                               (''question'', JStr ''Q1''),
                               (''options'', JArr [JStr ''A'', JStr ''B'', JStr ''C'', JStr ''D'']),
                               (''correctAnswer'', JStr ''Z''),
                               (''explanation'', JStr ''E''),
                               (''pageNumber'', JNum 1),
                               (''confidence'', JNum (1 / 2))]])])
   \<and> asExtractionResult
         (JObj [(''title'', JStr ''Untitled Quiz''),
                (''questions'',
                 JArr [JObj [(''id'', JStr ''q-0-1700000000000''),
                             (''question'', JStr ''Q1''),
                             (''options'', JArr [JStr ''A'', JStr ''B'', JStr ''C'', JStr ''D'']),
                             (''correctAnswer'', JStr ''Z''),
                             (''explanation'', JStr ''E''),
                             (''pageNumber'', JNum 1),
                             (''confidence'', JNum (1 / 2))]])])
       = Some \<lparr> title = ''Untitled Quiz'', questions_ER = [strayQuestion] \<rparr>
   \<and> \<not> answerAmongOptions strayQuestion"
proof -
  have n: "newId exampleNow 0 = ''q-0-1700000000000''"
    by (simp add: newId_def exampleNow_def show_nat.simps digit_char_def)
  have c: "cleanText_A strayDocument = strayDocument"
    by (simp add: cleanText_A_def strayDocument_def trim_def isWhiteSpace_def startsWith_def
          fence_def)
  have q: "exampleParse strayDocument = Inr strayValue"
    by (simp add: exampleParse_def tableParse_def strayDocument_def scenarioDocument_def)
  have ne: "strayDocument \<noteq> []" by (simp add: strayDocument_def)
  have a: "extractMCQsFromText_A exampleParse exampleNow (Inr (Some strayDocument))
     = Inr (JObj [(''title'', JStr ''Untitled Quiz''),
                  (''questions'',
                   JArr [JObj [(''id'', JStr ''q-0-1700000000000''),
                               (''question'', JStr ''Q1''),
                               (''options'', JArr [JStr ''A'', JStr ''B'', JStr ''C'', JStr ''D'']),
                               (''correctAnswer'', JStr ''Z''),
                               (''explanation'', JStr ''E''),
                               (''pageNumber'', JNum 1),
                               (''confidence'', JNum (1 / 2))]])])"
    using ne
    by (simp add: extractMCQsFromText_A_def tryExtract_A_def c q strayValue_def assignIds_def
          enumerate_eq_zip spreadWithId_def n)
  have b: "asExtractionResult
         (JObj [(''title'', JStr ''Untitled Quiz''),
                (''questions'',
                 JArr [JObj [(''id'', JStr ''q-0-1700000000000''),
                             (''question'', JStr ''Q1''),
                             (''options'', JArr [JStr ''A'', JStr ''B'', JStr ''C'', JStr ''D'']),
                             (''correctAnswer'', JStr ''Z''),
                             (''explanation'', JStr ''E''),
                             (''pageNumber'', JNum 1),
                             (''confidence'', JNum (1 / 2))]])])
       = Some \<lparr> title = ''Untitled Quiz'', questions_ER = [strayQuestion] \<rparr>"
    by (simp add: asExtractionResult_def asMCQ_def strayQuestion_def)
  have d: "\<not> answerAmongOptions strayQuestion"
    by (simp add: answerAmongOptions_def strayQuestion_def)
  from a b d show ?thesis by (intro conjI)
qed

subsection \<open>Reading the stored snapshots at the start\<close>

text \<open>
  Claim C9 against the code. The history slot is decoded in the initializer of the state
  \<open>attempts\<close>, outside any \<open>try\<close>: when the slot holds a non-empty text that \<open>JSON.parse\<close>
  rejects, the \<open>SyntaxError\<close> ends the first render, in both variants and whatever the quiz
  slot holds; nothing is logged and no state exists. The quiz slot is decoded inside
  \<open>try\<close>/\<open>catch\<close>: when it is rejected the start succeeds with the empty quiz and one line
  in the log.
\<close>

theorem corrupt_history_slot_ends_start:
  "startApp_A (\<lambda>t. Inl ''Unexpected end of JSON input'') parseQuiz
       \<lparr> historySlot = Some ''[{'', quizSlot = slot \<rparr>
     = Inl (SyntaxError ''Unexpected end of JSON input'')
   \<and> startApp_B (\<lambda>t. Inl ''Unexpected end of JSON input'') parseQuiz
       \<lparr> historySlot = Some ''[{'', quizSlot = slot \<rparr>
     = Inl (SyntaxError ''Unexpected end of JSON input'')
   \<and> startApp_A parseHistory (\<lambda>t. Inl ''Unexpected end of JSON input'')
       \<lparr> historySlot = None, quizSlot = Some ''[{'' \<rparr>
     = Inr ([''Failed to load local data''], initialApp ''Untitled Quiz'' [])
   \<and> startApp_B parseHistory (\<lambda>t. Inl ''Unexpected end of JSON input'')
       \<lparr> historySlot = None, quizSlot = Some ''[{'' \<rparr>
     = Inr ([''Failed to restore state''], initialApp ''New Quiz'' [])"
  by (simp add: startApp_A_def startApp_B_def initialAttempts_def loadQuiz_def)

end
